theory Spec2Isabelle
  imports Complex_Main "HOL-Library.Log_Nat" "HOL-Library.Sublist"
begin

section \<open>JavaScript values\<close>

subsection \<open>Numbers\<close>

text \<open>
  A JavaScript \<^verbatim>\<open>number\<close> is NaN, one of the two infinities, or a finite value.
  The two zeros are identified: no function below divides by a zero it has not tested for,
  and no comparison tells them apart.
\<close>

datatype number = NaN | PInf | NInf | Fin real

definition isNaN :: "number \<Rightarrow> bool" where
  "isNaN x = (x = NaN)"

fun isFinite :: "number \<Rightarrow> bool" where
  "isFinite (Fin x) = True"
| "isFinite _ = False"

text \<open>
  Every arithmetic operation computes the exact real result and rounds it. The rounding is
  a parameter: \<open>exact\<close> keeps the real number (arithmetic without rounding error),
  \<open>binary64\<close> rounds to the nearest IEEE 754 double, ties to even, as JavaScript does.
\<close>

type_synonym rounding = "real \<Rightarrow> number"

definition exact :: rounding where
  "exact x = Fin x"

text \<open>The exponent \<open>e\<close> with \<open>2 ^ e \<le> |x| < 2 ^ (e + 1)\<close>, for \<open>x \<noteq> 0\<close>.\<close>

definition binade :: "real \<Rightarrow> int" where
  "binade x =
     (if 1 \<le> \<bar>x\<bar> then bitlen \<lfloor>\<bar>x\<bar>\<rfloor> - 1 else - bitlen (\<lceil>1 / \<bar>x\<bar>\<rceil> - 1))"

definition roundEven :: "real \<Rightarrow> int" where
  "roundEven y =
     (let f = \<lfloor>y\<rfloor>; d = y - of_int f in
      if d < 1 / 2 then f else if 1 / 2 < d then f + 1 else if even f then f else f + 1)"

text \<open>Doubles have 53 significant bits; below \<open>2 ^ -1022\<close> the spacing stays
  \<open>2 ^ -1074\<close> (subnormal numbers); a result that rounds to \<open>2 ^ 1024\<close> or more
  is an infinity.\<close>

definition binary64 :: rounding where
  "binary64 x =
     (if x = 0 then Fin 0
      else
        let e = max (binade x) (- 1022);
            u = 2 powi (e - 52);
            r = of_int (roundEven (x / u)) * u
        in if 2 powi 1024 \<le> \<bar>r\<bar> then (if 0 < x then PInf else NInf) else Fin r)"

text \<open>A decimal literal of the source, such as \<^verbatim>\<open>1e-4\<close>: the number nearest to it.\<close>

definition num_lit :: "rounding \<Rightarrow> real \<Rightarrow> number" where
  "num_lit rd q = rd q"

fun num_neg :: "number \<Rightarrow> number" where
  "num_neg NaN = NaN"
| "num_neg PInf = NInf"
| "num_neg NInf = PInf"
| "num_neg (Fin x) = Fin (- x)"

fun num_add :: "rounding \<Rightarrow> number \<Rightarrow> number \<Rightarrow> number" where
  "num_add rd (Fin x) (Fin y) = rd (x + y)"
| "num_add rd NaN b = NaN"
| "num_add rd a NaN = NaN"
| "num_add rd PInf NInf = NaN"
| "num_add rd NInf PInf = NaN"
| "num_add rd PInf b = PInf"
| "num_add rd NInf b = NInf"
| "num_add rd (Fin x) b = b"

definition num_sub :: "rounding \<Rightarrow> number \<Rightarrow> number \<Rightarrow> number" where
  "num_sub rd a b = num_add rd a (num_neg b)"

text \<open>The sign of an infinite product or quotient; a zero counts as positive.\<close>

definition signedInf :: "bool \<Rightarrow> number" where
  "signedInf negative = (if negative then NInf else PInf)"

fun num_mul :: "rounding \<Rightarrow> number \<Rightarrow> number \<Rightarrow> number" where
  "num_mul rd (Fin x) (Fin y) = rd (x * y)"
| "num_mul rd NaN b = NaN"
| "num_mul rd a NaN = NaN"
| "num_mul rd PInf PInf = PInf"
| "num_mul rd PInf NInf = NInf"
| "num_mul rd NInf PInf = NInf"
| "num_mul rd NInf NInf = PInf"
| "num_mul rd PInf (Fin y) = (if y = 0 then NaN else signedInf (y < 0))"
| "num_mul rd NInf (Fin y) = (if y = 0 then NaN else signedInf (0 < y))"
| "num_mul rd (Fin x) PInf = (if x = 0 then NaN else signedInf (x < 0))"
| "num_mul rd (Fin x) NInf = (if x = 0 then NaN else signedInf (0 < x))"

fun num_div :: "rounding \<Rightarrow> number \<Rightarrow> number \<Rightarrow> number" where
  "num_div rd (Fin x) (Fin y) =
     (if y = 0 then (if x = 0 then NaN else signedInf (x < 0)) else rd (x / y))"
| "num_div rd NaN b = NaN"
| "num_div rd a NaN = NaN"
| "num_div rd (Fin x) b = Fin 0"
| "num_div rd PInf (Fin y) = signedInf (y < 0)"
| "num_div rd NInf (Fin y) = signedInf (0 \<le> y)"
| "num_div rd a b = NaN"

fun Math_abs :: "number \<Rightarrow> number" where
  "Math_abs NaN = NaN"
| "Math_abs PInf = PInf"
| "Math_abs NInf = PInf"
| "Math_abs (Fin x) = Fin \<bar>x\<bar>"

fun Math_sqrt :: "rounding \<Rightarrow> number \<Rightarrow> number" where
  "Math_sqrt rd NaN = NaN"
| "Math_sqrt rd PInf = PInf"
| "Math_sqrt rd NInf = NaN"
| "Math_sqrt rd (Fin x) = (if x < 0 then NaN else rd (sqrt x))"

text \<open>\<^verbatim>\<open>Math.pow(x, 2)\<close>.\<close>

fun Math_pow2 :: "rounding \<Rightarrow> number \<Rightarrow> number" where
  "Math_pow2 rd NaN = NaN"
| "Math_pow2 rd PInf = PInf"
| "Math_pow2 rd NInf = PInf"
| "Math_pow2 rd (Fin x) = rd (x * x)"

text \<open>\<^verbatim>\<open>a < b\<close> and \<^verbatim>\<open>a <= b\<close>: false as soon as one side is NaN.
  \<^verbatim>\<open>a > b\<close> is \<open>num_lt b a\<close>, \<^verbatim>\<open>a >= b\<close> is \<open>num_le b a\<close>.\<close>

fun num_lt :: "number \<Rightarrow> number \<Rightarrow> bool" where
  "num_lt (Fin x) (Fin y) = (x < y)"
| "num_lt NaN b = False"
| "num_lt a NaN = False"
| "num_lt PInf b = False"
| "num_lt a NInf = False"
| "num_lt a b = True"

fun num_le :: "number \<Rightarrow> number \<Rightarrow> bool" where
  "num_le (Fin x) (Fin y) = (x \<le> y)"
| "num_le NaN b = False"
| "num_le a NaN = False"
| "num_le NInf b = True"
| "num_le a PInf = True"
| "num_le a b = False"

subsection \<open>Exceptions\<close>

text \<open>A thrown value; a function that may throw returns \<open>exn + 'a\<close>.\<close>

datatype exn = Exn string

definition try_catch :: "exn + 'a \<Rightarrow> (exn \<Rightarrow> exn + 'a) \<Rightarrow> exn + 'a" where
  "try_catch body handler = (case body of Inl e \<Rightarrow> handler e | Inr x \<Rightarrow> Inr x)"

subsection \<open>Four-component tuples\<close>

text \<open>\<^verbatim>\<open>Vector4 = [string, string, string, string]\<close> and
  \<^verbatim>\<open>NumericVector4 = [number, number, number, number]\<close>.\<close>

datatype 'a vec4 = Vec4 'a 'a 'a 'a

fun vget :: "'a vec4 \<Rightarrow> nat \<Rightarrow> 'a" where
  "vget (Vec4 a b c d) i = (if i = 0 then a else if i = 1 then b else if i = 2 then c else d)"

fun vlist :: "'a vec4 \<Rightarrow> 'a list" where
  "vlist (Vec4 a b c d) = [a, b, c, d]"

datatype 'a vec3 = Vec3 'a 'a 'a

fun v3get :: "'a vec3 \<Rightarrow> nat \<Rightarrow> 'a" where
  "v3get (Vec3 a b c) i = (if i = 0 then a else if i = 1 then b else c)"

definition mk4 :: "(nat \<Rightarrow> 'a) \<Rightarrow> 'a vec4" where
  "mk4 f = Vec4 (f 0) (f 1) (f 2) (f 3)"

type_synonym Vector4 = "string vec4"
type_synonym NumericVector4 = "number vec4"

definition zero4 :: NumericVector4 where
  "zero4 = Vec4 (Fin 0) (Fin 0) (Fin 0) (Fin 0)"

section \<open>cas.ts: constants\<close>

definition CONSTANTS :: "(string \<times> string) list" where
  "CONSTANTS =
     [(''c'', ''1''), (''g'', ''9.80665''), (''hbar'', ''1''), (''kb'', ''1''),
      (''phi'', ''1.6180339887'')]"

text \<open>The regular expression class \<^verbatim>\<open>\w\<close>: ASCII letters, digits and the underscore.\<close>

definition isWordChar :: "char \<Rightarrow> bool" where
  "isWordChar ch =
     (let n = of_char ch :: nat in
      (65 \<le> n \<and> n \<le> 90) \<or> (97 \<le> n \<and> n \<le> 122) \<or> (48 \<le> n \<and> n \<le> 57) \<or> n = 95)"

text \<open>\<^verbatim>\<open>\b\<close> between the character before the position (\<open>prevW\<close> says whether it is
  a word character; false at the start of the input) and the rest of the input.\<close>

definition wordBoundary :: "bool \<Rightarrow> string \<Rightarrow> bool" where
  "wordBoundary prevW rest = (prevW \<noteq> (rest \<noteq> [] \<and> isWordChar (hd rest)))"

text \<open>
  \<^verbatim>\<open>result.replace(new RegExp(`\\b${name}\\b`, 'g'), rep)\<close> for a non-empty literal
  \<open>name\<close>: the input is scanned from the left; where the name stands between two word
  boundaries it is replaced and the scan goes on behind it, elsewhere one character is copied.
\<close>

function replaceAllWB :: "string \<Rightarrow> string \<Rightarrow> bool \<Rightarrow> string \<Rightarrow> string" where
  "replaceAllWB name rep prevW [] = []"
| "replaceAllWB name rep prevW (ch # cs) =
     (if name \<noteq> [] \<and> prefix name (ch # cs) \<and> wordBoundary prevW (ch # cs)
         \<and> wordBoundary (isWordChar (last name)) (drop (length name) (ch # cs))
      then rep @ replaceAllWB name rep (isWordChar (last name)) (drop (length name) (ch # cs))
      else ch # replaceAllWB name rep (isWordChar ch) cs)"
  by pat_completeness auto
termination
  by (relation "measure (\<lambda>(name, rep, prevW, s). length s)") (auto simp: neq_Nil_conv)

definition sortedConstants :: "(string \<times> string) list" where
  "sortedConstants = sort_key (\<lambda>(name, val). - int (length name)) CONSTANTS"

definition substituteConstants :: "string \<Rightarrow> string" where
  "substituteConstants expr =
     foldl (\<lambda>result (name, val). replaceAllWB name (''('' @ val @ '')'') False result)
       expr sortedConstants"

section \<open>cas.ts: the external engine\<close>

text \<open>
  The algebra engine and the evaluator are libraries outside the repository; the functions
  of \<^verbatim>\<open>cas.ts\<close> take them as a parameter.
  \<^item> \<open>nerdamer en e bindings\<close> is \<^verbatim>\<open>nerdamer(e, bindings).text()\<close>,
  \<^item> \<open>mathEval en s\<close> is \<^verbatim>\<open>Number(mathEval(s))\<close>,
  \<^item> \<open>toString en x\<close> is \<^verbatim>\<open>x.toString()\<close> of a number.
\<close>

record env =
  nerdamer :: "string \<Rightarrow> (string \<times> string) list \<Rightarrow> exn + string"
  mathEval :: "string \<Rightarrow> exn + number"
  toString :: "number \<Rightarrow> string"

section \<open>cas.ts: numeric evaluation\<close>

text \<open>One element of the array literal in \<^verbatim>\<open>evaluateVectorAtTau\<close>.\<close>

definition evaluateComponent :: "env \<Rightarrow> string \<Rightarrow> string \<Rightarrow> exn + number" where
  "evaluateComponent en e tauStr =
     (case nerdamer en (substituteConstants e) [(''tau'', tauStr)] of
        Inl x \<Rightarrow> Inl x
      | Inr txt \<Rightarrow> mathEval en txt)"

text \<open>The body of the \<^verbatim>\<open>try\<close> block: the components are evaluated in order, the
  first exception leaves the block.\<close>

definition evaluateVectorBody :: "env \<Rightarrow> Vector4 \<Rightarrow> number \<Rightarrow> exn + NumericVector4" where
  "evaluateVectorBody en V tau =
     (let tauStr = toString en tau in
      case evaluateComponent en (vget V 0) tauStr of Inl x \<Rightarrow> Inl x | Inr r0 \<Rightarrow>
      case evaluateComponent en (vget V 1) tauStr of Inl x \<Rightarrow> Inl x | Inr r1 \<Rightarrow>
      case evaluateComponent en (vget V 2) tauStr of Inl x \<Rightarrow> Inl x | Inr r2 \<Rightarrow>
      case evaluateComponent en (vget V 3) tauStr of Inl x \<Rightarrow> Inl x | Inr r3 \<Rightarrow>
        (let res = Vec4 r0 r1 r2 r3 in
         if list_ex isNaN (vlist res) then Inr zero4 else Inr res))"

definition evaluateVectorAtTau :: "env \<Rightarrow> Vector4 \<Rightarrow> number \<Rightarrow> exn + NumericVector4" where
  "evaluateVectorAtTau en V tau =
     try_catch (evaluateVectorBody en V tau) (\<lambda>e. Inr zero4)"

text \<open>A sample engine for concrete runs: it knows the expressions \<^verbatim>\<open>tau\<close>,
  a few literals, and rejects everything else.\<close>

definition sample_env :: env where
  "sample_env =
     \<lparr> nerdamer = (\<lambda>e bs.
          if e = ''tau'' then (case map_of bs ''tau'' of Some v \<Rightarrow> Inr v | None \<Rightarrow> Inr e)
          else if e \<in> set [''0'', ''2'', ''(1)'', ''0/0'', ''1e999''] then Inr e
          else Inl (Exn ''ParseError'')),
       mathEval = (\<lambda>s.
          if s = ''0'' then Inr (Fin 0) else if s = ''2'' then Inr (Fin 2)
          else if s = ''(1)'' then Inr (Fin 1) else if s = ''0/0'' then Inr NaN
          else if s = ''1e999'' then Inr PInf else Inl (Exn ''SyntaxError'')),
       toString = (\<lambda>x. if x = Fin 0 then ''0'' else if x = Fin 2 then ''2'' else ''5'') \<rparr>"

definition componentFails :: "env \<Rightarrow> Vector4 \<Rightarrow> number \<Rightarrow> nat \<Rightarrow> bool" where
  "componentFails en V tau i =
     (case evaluateComponent en (vget V i) (toString en tau) of
        Inl x \<Rightarrow> True | Inr r \<Rightarrow> r = NaN)"

definition componentValue :: "env \<Rightarrow> Vector4 \<Rightarrow> number \<Rightarrow> nat \<Rightarrow> number" where
  "componentValue en V tau i =
     (case evaluateComponent en (vget V i) (toString en tau) of
        Inl x \<Rightarrow> NaN | Inr r \<Rightarrow> r)"

section \<open>cas.ts: the proper-time locator\<close>

text \<open>
  The \<^verbatim>\<open>for\<close> loop of \<^verbatim>\<open>findTauForLabTime\<close>, with the number of iterations
  still to run. It ends with \<open>Inl r\<close> when the body returns \<open>r\<close> from the function, and
  with \<open>Inr (low, high)\<close> when the counter runs out. The call
  \<^verbatim>\<open>evaluateVectorAtTau(positionExpr, _)\<close> of the body is the parameter \<open>ev\<close>.
\<close>

fun bisectLoop ::
  "rounding \<Rightarrow> (number \<Rightarrow> exn + NumericVector4) \<Rightarrow> number \<Rightarrow> nat \<Rightarrow> number \<Rightarrow> number
     \<Rightarrow> exn + (number + number \<times> number)" where
  "bisectLoop rd ev target_t 0 low high = Inr (Inr (low, high))"
| "bisectLoop rd ev target_t (Suc n) low high =
     (let mid = num_div rd (num_add rd low high) (Fin 2) in
      case ev mid of
        Inl e \<Rightarrow> Inl e
      | Inr v \<Rightarrow>
          (let t_mid = vget v 0 in
           if isNaN t_mid then Inr (Inl (Fin 0))
           else if num_lt (Math_abs (num_sub rd t_mid target_t)) (num_lit rd (1 / 10 ^ 4))
             then Inr (Inl mid)
           else if num_lt t_mid target_t
             then bisectLoop rd ev target_t n mid high
           else bisectLoop rd ev target_t n low mid))"

text \<open>The body of \<^verbatim>\<open>findTauForLabTime\<close>: the loop from the bracket
  \<open>[-1000, 1000]\<close> with 100 iterations, then the test of the last midpoint.\<close>

definition findTauWith ::
  "rounding \<Rightarrow> (number \<Rightarrow> exn + NumericVector4) \<Rightarrow> number \<Rightarrow> exn + number" where
  "findTauWith rd ev target_t =
     (case bisectLoop rd ev target_t 100 (Fin (- 1000)) (Fin 1000) of
        Inl e \<Rightarrow> Inl e
      | Inr (Inl r) \<Rightarrow> Inr r
      | Inr (Inr (low, high)) \<Rightarrow>
          (let result_tau = num_div rd (num_add rd low high) (Fin 2) in
           case ev result_tau of
             Inl e \<Rightarrow> Inl e
           | Inr v \<Rightarrow>
               (let t_final = vget v 0 in
                if num_lt (Fin 100) (Math_abs (num_sub rd t_final target_t))
                then Inr (Fin 0) else Inr result_tau)))"

definition findTauForLabTime :: "rounding \<Rightarrow> env \<Rightarrow> Vector4 \<Rightarrow> number \<Rightarrow> exn + number" where
  "findTauForLabTime rd en positionExpr target_t =
     findTauWith rd (evaluateVectorAtTau en positionExpr) target_t"

text \<open>The expression \<^verbatim>\<open>evaluateVectorAtTau(positionExpr, tau)[0]\<close>.\<close>

definition timeAt :: "env \<Rightarrow> Vector4 \<Rightarrow> number \<Rightarrow> number" where
  "timeAt en positionExpr tau =
     (case evaluateVectorAtTau en positionExpr tau of Inl e \<Rightarrow> Fin 0 | Inr v \<Rightarrow> vget v 0)"

subsection \<open>The search as the specification describes it\<close>

text \<open>
  The specification's account of the search, for a time component \<open>t\<close> given as a function
  of tau: the bracket starts as \<open>[-1000, 1000]\<close> and is halved at its midpoint, towards
  the side on which the target lies; the search stops at the first of the 100 midpoints
  where \<open>t\<close> is NaN (with 0) or where the residual is below \<open>1e-4\<close> (with the midpoint);
  when no midpoint stops it, the result is the midpoint of the last bracket, or 0 when the
  residual there exceeds 100.
\<close>

fun bracketAt :: "rounding \<Rightarrow> (number \<Rightarrow> number) \<Rightarrow> number \<Rightarrow> nat \<Rightarrow> number \<times> number" where
  "bracketAt rd t target 0 = (Fin (- 1000), Fin 1000)"
| "bracketAt rd t target (Suc k) =
     (let (low, high) = bracketAt rd t target k;
          mid = num_div rd (num_add rd low high) (Fin 2)
      in if num_lt (t mid) target then (mid, high) else (low, mid))"

definition midpointAt :: "rounding \<Rightarrow> (number \<Rightarrow> number) \<Rightarrow> number \<Rightarrow> nat \<Rightarrow> number" where
  "midpointAt rd t target k =
     (let (low, high) = bracketAt rd t target k in num_div rd (num_add rd low high) (Fin 2))"

definition residualAt :: "rounding \<Rightarrow> (number \<Rightarrow> number) \<Rightarrow> number \<Rightarrow> nat \<Rightarrow> number" where
  "residualAt rd t target k = Math_abs (num_sub rd (t (midpointAt rd t target k)) target)"

definition stopsAt :: "rounding \<Rightarrow> (number \<Rightarrow> number) \<Rightarrow> number \<Rightarrow> nat \<Rightarrow> bool" where
  "stopsAt rd t target k \<longleftrightarrow>
     isNaN (t (midpointAt rd t target k))
     \<or> num_lt (residualAt rd t target k) (num_lit rd (1 / 10 ^ 4))"

definition bisectionSpec :: "rounding \<Rightarrow> (number \<Rightarrow> number) \<Rightarrow> number \<Rightarrow> number" where
  "bisectionSpec rd t target =
     (case find (stopsAt rd t target) [0..<100] of
        Some k \<Rightarrow>
          if isNaN (t (midpointAt rd t target k)) then Fin 0 else midpointAt rd t target k
      | None \<Rightarrow>
          if num_lt (Fin 100) (residualAt rd t target 100) then Fin 0
          else midpointAt rd t target 100)"

section \<open>physics.ts\<close>

definition magnitudeSquared :: "rounding \<Rightarrow> NumericVector4 \<Rightarrow> number" where
  "magnitudeSquared rd V =
     num_add rd
       (num_add rd
          (num_add rd (num_neg (Math_pow2 rd (vget V 0))) (Math_pow2 rd (vget V 1)))
          (Math_pow2 rd (vget V 2)))
       (Math_pow2 rd (vget V 3))"

definition calculateIntervalSquared ::
  "rounding \<Rightarrow> NumericVector4 \<Rightarrow> NumericVector4 \<Rightarrow> number" where
  "calculateIntervalSquared rd event1 event2 =
     (let deltaX = Vec4 (num_sub rd (vget event2 0) (vget event1 0))
                        (num_sub rd (vget event2 1) (vget event1 1))
                        (num_sub rd (vget event2 2) (vget event1 2))
                        (num_sub rd (vget event2 3) (vget event1 3))
      in magnitudeSquared rd deltaX)"

definition extract3Velocity :: "rounding \<Rightarrow> NumericVector4 \<Rightarrow> number vec3" where
  "extract3Velocity rd U =
     (if num_lt (Math_abs (vget U 0)) (num_lit rd (1 / 10 ^ 10)) then Vec3 (Fin 0) (Fin 0) (Fin 0)
      else Vec3 (num_div rd (vget U 1) (vget U 0))
                (num_div rd (vget U 2) (vget U 0))
                (num_div rd (vget U 3) (vget U 0)))"

text \<open>The sum of the three squares, as \<^verbatim>\<open>validateCausality\<close>,
  \<^verbatim>\<open>calculateGamma\<close> and \<^verbatim>\<open>getLorentzBoostMatrix\<close> each write it.\<close>

definition sumSquares3 :: "rounding \<Rightarrow> number vec3 \<Rightarrow> number" where
  "sumSquares3 rd v3 =
     num_add rd (num_add rd (Math_pow2 rd (v3get v3 0)) (Math_pow2 rd (v3get v3 1)))
       (Math_pow2 rd (v3get v3 2))"

record validation =
  isValid :: bool
  reason :: "string option"
  U_squared :: number
  v_squared :: number

text \<open>\<open>toFixed4 x\<close> is \<^verbatim>\<open>x.toFixed(4)\<close>, the number formatting of the runtime.\<close>

definition validateCausality ::
  "rounding \<Rightarrow> (number \<Rightarrow> string) \<Rightarrow> NumericVector4 \<Rightarrow> validation" where
  "validateCausality rd toFixed4 U =
     (let Usq = magnitudeSquared rd U in
      if num_lt (vget U 0) (Fin 0) then
        \<lparr> isValid = False,
          reason = Some ''U^0 must be positive (particle moving forward in time)'',
          U_squared = Usq, v_squared = Fin 0 \<rparr>
      else
        let EPSILON = num_lit rd (1 / 10 ^ 4) in
        if num_lt EPSILON (Math_abs (num_sub rd Usq (num_neg (Fin 1)))) then
          \<lparr> isValid = False,
            reason = Some (''4-velocity invariant U^mu U_mu must equal -1, but got ''
                       @ toFixed4 Usq),
            U_squared = Usq, v_squared = Fin 0 \<rparr>
        else
          let v3 = extract3Velocity rd U;
              vsq = sumSquares3 rd v3
          in if num_le (Fin 1) vsq then
               \<lparr> isValid = False,
                 reason = Some (''Speed |v| must be strictly less than c (1), but got |v|^2 = ''
                            @ toFixed4 vsq),
                 U_squared = Usq, v_squared = vsq \<rparr>
             else \<lparr> isValid = True, reason = None, U_squared = Usq, v_squared = vsq \<rparr>)"

definition calculateGamma :: "rounding \<Rightarrow> number vec3 \<Rightarrow> number" where
  "calculateGamma rd v3 =
     (let vsq = sumSquares3 rd v3 in
      if num_le (Fin 1) vsq then PInf
      else num_div rd (Fin 1) (Math_sqrt rd (num_sub rd (Fin 1) vsq)))"

text \<open>\<^verbatim>\<open>number[][]\<close>, here always four rows of four entries.\<close>

type_synonym matrix = "number vec4 vec4"

definition identity4 :: matrix where
  "identity4 = Vec4 (Vec4 (Fin 1) (Fin 0) (Fin 0) (Fin 0))
                    (Vec4 (Fin 0) (Fin 1) (Fin 0) (Fin 0))
                    (Vec4 (Fin 0) (Fin 0) (Fin 1) (Fin 0))
                    (Vec4 (Fin 0) (Fin 0) (Fin 0) (Fin 1))"

text \<open>
  The entry that the assignments of \<^verbatim>\<open>getLorentzBoostMatrix\<close> leave at row \<open>i\<close>,
  column \<open>j\<close>: \<^verbatim>\<open>gamma\<close> at (0,0), \<^verbatim>\<open>-gamma * v3[k-1]\<close> at (0,k) and (k,0),
  and \<^verbatim>\<open>delta + (gamma - 1) * (v3[i-1] * v3[j-1]) / v2\<close> in the spatial block.
\<close>

definition boostEntry ::
  "rounding \<Rightarrow> number vec3 \<Rightarrow> number \<Rightarrow> number \<Rightarrow> nat \<Rightarrow> nat \<Rightarrow> number" where
  "boostEntry rd v3 v2 gamma i j =
     (if i = 0 \<and> j = 0 then gamma
      else if i = 0 then num_mul rd (num_neg gamma) (v3get v3 (j - 1))
      else if j = 0 then num_mul rd (num_neg gamma) (v3get v3 (i - 1))
      else num_add rd (Fin (if i = j then 1 else 0))
             (num_div rd
                (num_mul rd (num_sub rd gamma (Fin 1))
                   (num_mul rd (v3get v3 (i - 1)) (v3get v3 (j - 1))))
                v2))"

definition getLorentzBoostMatrix :: "rounding \<Rightarrow> number vec3 \<Rightarrow> matrix" where
  "getLorentzBoostMatrix rd v3 =
     (let v2 = sumSquares3 rd v3 in
      if num_lt v2 (num_lit rd (1 / 10 ^ 10)) then identity4
      else
        let gamma = calculateGamma rd v3
        in mk4 (\<lambda>i. mk4 (\<lambda>j. boostEntry rd v3 v2 gamma i j)))"

definition applyLorentzTransformation ::
  "rounding \<Rightarrow> matrix \<Rightarrow> NumericVector4 \<Rightarrow> NumericVector4" where
  "applyLorentzTransformation rd Lambda V =
     mk4 (\<lambda>i. foldl (\<lambda>sum j. num_add rd sum (num_mul rd (vget (vget Lambda i) j) (vget V j)))
                 (Fin 0) [0, 1, 2, 3])"

text \<open>The matrix product of the integrity check "Lorentz Matrix Reversibility".\<close>

definition multiply :: "rounding \<Rightarrow> matrix \<Rightarrow> matrix \<Rightarrow> matrix" where
  "multiply rd A B =
     mk4 (\<lambda>i. mk4 (\<lambda>j.
       foldl (\<lambda>sum k. num_add rd sum (num_mul rd (vget (vget A i) k) (vget (vget B k) j)))
         (Fin 0) [0, 1, 2, 3]))"

section \<open>Quantities of the specification\<close>

text \<open>The Minkowski square \<open>U\<cdot>U\<close> of a 4-velocity and its 3-speed squared, as the
  specification of the causality validator writes them.\<close>

definition minkowskiSquare :: "real \<Rightarrow> real \<Rightarrow> real \<Rightarrow> real \<Rightarrow> real" where
  "minkowskiSquare u0 u1 u2 u3 = - u0\<^sup>2 + u1\<^sup>2 + u2\<^sup>2 + u3\<^sup>2"

definition speedSquared :: "real \<Rightarrow> real \<Rightarrow> real \<Rightarrow> real \<Rightarrow> real" where
  "speedSquared u0 u1 u2 u3 = (u1\<^sup>2 + u2\<^sup>2 + u3\<^sup>2) / u0\<^sup>2"

text \<open>A sample of \<^verbatim>\<open>toFixed(4)\<close> for concrete runs.\<close>

definition sample_toFixed4 :: "number \<Rightarrow> string" where
  "sample_toFixed4 x = (if x = Fin 2 then ''2.0000'' else ''0.0000'')"

section \<open>cas.ts: symbolic differentiation and integration\<close>

text \<open>The characters that \<^verbatim>\<open>String.prototype.trim\<close> removes, among the 8-bit
  characters: tab, line feed, vertical tab, form feed, carriage return, space and the
  no-break space.\<close>

definition isWhiteSpace :: "char \<Rightarrow> bool" where
  "isWhiteSpace ch = (of_char ch \<in> {9, 10, 11, 12, 13, 32, 160 :: nat})"

definition trim :: "string \<Rightarrow> string" where
  "trim s = rev (dropWhile isWhiteSpace (rev (dropWhile isWhiteSpace s)))"

text \<open>\<^verbatim>\<open>!expr || expr.trim() === '' || expr.trim() === '0'\<close>\<close>

definition degenerate :: "string \<Rightarrow> bool" where
  "degenerate expr = (expr = [] \<or> trim expr = [] \<or> trim expr = ''0'')"

definition deriveSymbolic :: "env \<Rightarrow> string \<Rightarrow> string \<Rightarrow> exn + string" where
  "deriveSymbolic en expr variable =
     (if degenerate expr then Inr ''0''
      else nerdamer en (''diff('' @ expr @ '', '' @ variable @ '')'') [])"

definition integrateSymbolic :: "env \<Rightarrow> string \<Rightarrow> number \<Rightarrow> string \<Rightarrow> exn + string" where
  "integrateSymbolic en expr constant variable =
     (if degenerate expr then Inr (toString en constant)
      else
        case nerdamer en (''integrate('' @ expr @ '', '' @ variable @ '')'') [] of
          Inl e \<Rightarrow> Inl e
        | Inr integrated \<Rightarrow>
            (case nerdamer en integrated [(''tau'', ''0'')] of
               Inl e \<Rightarrow> Inl e
             | Inr evaluatedAtZero \<Rightarrow>
                 nerdamer en
                   (integrated @ '' - ('' @ evaluatedAtZero @ '') + ('' @ toString en constant
                      @ '')'') []))"


text \<open>An array literal of four calls that may throw: they run in order, and the first
  exception ends the evaluation.\<close>

definition array4 :: "(nat \<Rightarrow> exn + 'a) \<Rightarrow> exn + 'a vec4" where
  "array4 f =
     (case f 0 of Inl e \<Rightarrow> Inl e | Inr a \<Rightarrow>
      case f 1 of Inl e \<Rightarrow> Inl e | Inr b \<Rightarrow>
      case f 2 of Inl e \<Rightarrow> Inl e | Inr c \<Rightarrow>
      case f 3 of Inl e \<Rightarrow> Inl e | Inr d \<Rightarrow> Inr (Vec4 a b c d))"

text \<open>The object \<^verbatim>\<open>{ X, U, A }\<close> that the three solvers return.\<close>

record solution =
  sol_X :: Vector4
  sol_U :: Vector4
  sol_A :: Vector4

definition solveFromPosition :: "env \<Rightarrow> Vector4 \<Rightarrow> exn + solution" where
  "solveFromPosition en Xin =
     (case array4 (\<lambda>i. deriveSymbolic en (vget Xin i) ''tau'') of
        Inl e \<Rightarrow> Inl e
      | Inr Uv \<Rightarrow>
          (case array4 (\<lambda>i. deriveSymbolic en (vget Uv i) ''tau'') of
             Inl e \<Rightarrow> Inl e
           | Inr Av \<Rightarrow> Inr \<lparr> sol_X = Xin, sol_U = Uv, sol_A = Av \<rparr>))"

definition solveFromVelocity :: "env \<Rightarrow> Vector4 \<Rightarrow> NumericVector4 \<Rightarrow> exn + solution" where
  "solveFromVelocity en Uin X0 =
     (case array4 (\<lambda>i. integrateSymbolic en (vget Uin i) (vget X0 i) ''tau'') of
        Inl e \<Rightarrow> Inl e
      | Inr Xv \<Rightarrow>
          (case array4 (\<lambda>i. deriveSymbolic en (vget Uin i) ''tau'') of
             Inl e \<Rightarrow> Inl e
           | Inr Av \<Rightarrow> Inr \<lparr> sol_X = Xv, sol_U = Uin, sol_A = Av \<rparr>))"

definition solveFromAcceleration ::
  "env \<Rightarrow> Vector4 \<Rightarrow> NumericVector4 \<Rightarrow> NumericVector4 \<Rightarrow> exn + solution" where
  "solveFromAcceleration en Ain U0 X0 =
     (case array4 (\<lambda>i. integrateSymbolic en (vget Ain i) (vget U0 i) ''tau'') of
        Inl e \<Rightarrow> Inl e
      | Inr Uv \<Rightarrow>
          (case array4 (\<lambda>i. integrateSymbolic en (vget Uv i) (vget X0 i) ''tau'') of
             Inl e \<Rightarrow> Inl e
           | Inr Xv \<Rightarrow> Inr \<lparr> sol_X = Xv, sol_U = Uv, sol_A = Ain \<rparr>))"

section \<open>useSimulatorStore.ts\<close>

text \<open>\<^verbatim>\<open>ParticleState\<close>; an optional field is an \<open>option\<close>, and \<^verbatim>\<open>delete\<close> makes
  it \<open>None\<close>. The field \<^verbatim>\<open>id\<close> is \<open>pid\<close> here.\<close>

record ParticleState =
  pid :: string
  name :: string
  color :: string
  mass :: number
  initialPosition :: NumericVector4
  initialVelocity :: NumericVector4
  inputPosition :: "Vector4 option"
  inputVelocity :: "Vector4 option"
  inputAcceleration :: "Vector4 option"
  positionExpr :: Vector4
  velocityExpr :: Vector4
  accelerationExpr :: Vector4

datatype SpatialDimension = Dim_x | Dim_y | Dim_z
datatype InputType = Position | Velocity | Acceleration
datatype ViewMode = Mode_2d | Mode_3d

record SimulatorState =
  particles :: "ParticleState list"
  activeReferenceFrameId :: string
  animationTime :: number
  activeDimension :: SpatialDimension
  viewMode :: ViewMode
  tauRange :: number
  timeMin :: number
  timeMax :: number

text \<open>\<^verbatim>\<open>generateId()\<close> and \<^verbatim>\<open>getRandomColor()\<close> draw random values; the
  values drawn are arguments here.\<close>

definition createDefaultParticle :: "string \<Rightarrow> string \<Rightarrow> ParticleState" where
  "createDefaultParticle newId newColor =
     \<lparr> pid = newId,
       name = ''Particle '' @ take 4 newId,
       color = newColor,
       mass = Fin 1,
       initialPosition = Vec4 (Fin 0) (Fin 0) (Fin 0) (Fin 0),
       initialVelocity = Vec4 (Fin 1) (Fin 0) (Fin 0) (Fin 0),
       inputPosition = Some (Vec4 ''tau'' ''0'' ''0'' ''0''),
       inputVelocity = None,
       inputAcceleration = None,
       positionExpr = Vec4 ''tau'' ''0'' ''0'' ''0'',
       velocityExpr = Vec4 ''1'' ''0'' ''0'' ''0'',
       accelerationExpr = Vec4 ''0'' ''0'' ''0'' ''0'' \<rparr>"

definition initialState :: "rounding \<Rightarrow> string \<Rightarrow> string \<Rightarrow> SimulatorState" where
  "initialState rd newId newColor =
     \<lparr> particles = [createDefaultParticle newId newColor],
       activeReferenceFrameId = ''Lab'',
       animationTime = Fin 0,
       activeDimension = Dim_x,
       viewMode = Mode_2d,
       tauRange = Fin 50,
       timeMin = Fin (- 10),
       timeMax = Fin 10 \<rparr>"

definition addParticle :: "string \<Rightarrow> string \<Rightarrow> SimulatorState \<Rightarrow> SimulatorState" where
  "addParticle newId newColor state =
     state\<lparr> particles := particles state @ [createDefaultParticle newId newColor] \<rparr>"

definition removeParticle :: "string \<Rightarrow> SimulatorState \<Rightarrow> SimulatorState" where
  "removeParticle i state =
     state\<lparr> particles := filter (\<lambda>p. pid p \<noteq> i) (particles state),
            activeReferenceFrameId :=
              (if activeReferenceFrameId state = i then ''Lab''
               else activeReferenceFrameId state) \<rparr>"

definition updateParticleName :: "string \<Rightarrow> string \<Rightarrow> SimulatorState \<Rightarrow> SimulatorState" where
  "updateParticleName i newName state =
     state\<lparr> particles :=
              map (\<lambda>p. if pid p = i then p\<lparr> name := newName \<rparr> else p) (particles state) \<rparr>"

definition updateParticleColor :: "string \<Rightarrow> string \<Rightarrow> SimulatorState \<Rightarrow> SimulatorState" where
  "updateParticleColor i newColor state =
     state\<lparr> particles :=
              map (\<lambda>p. if pid p = i then p\<lparr> color := newColor \<rparr> else p) (particles state) \<rparr>"

text \<open>
  The callback that \<^verbatim>\<open>updateParticleInput\<close> maps over the particles, for the
  particle whose id matches. The assignments to \<^verbatim>\<open>newP\<close> stand before the call of
  the solver inside the \<^verbatim>\<open>try\<close> block, so they are kept when the solver throws;
  \<^verbatim>\<open>X\<close>, \<^verbatim>\<open>U\<close> and \<^verbatim>\<open>A\<close> are assigned after it has returned.
\<close>

definition updateInputOf :: "env \<Rightarrow> InputType \<Rightarrow> Vector4 \<Rightarrow> ParticleState \<Rightarrow> ParticleState" where
  "updateInputOf en inputType input p =
     (let Xv = positionExpr p; Uv = velocityExpr p; Av = accelerationExpr p;
          (newP, attempt) =
            (case inputType of
               Position \<Rightarrow>
                 (p\<lparr> inputPosition := Some input, inputVelocity := None,
                     inputAcceleration := None \<rparr>,
                  solveFromPosition en input)
             | Velocity \<Rightarrow>
                 (p\<lparr> inputVelocity := Some input, inputPosition := None,
                     inputAcceleration := None \<rparr>,
                  solveFromVelocity en input (initialPosition p))
             | Acceleration \<Rightarrow>
                 (p\<lparr> inputAcceleration := Some input, inputPosition := None,
                     inputVelocity := None \<rparr>,
                  solveFromAcceleration en input (initialVelocity p) (initialPosition p)));
          (X', U', A') =
            (case attempt of
               Inl e \<Rightarrow> (Xv, Uv, Av)
             | Inr sol \<Rightarrow> (sol_X sol, sol_U sol, sol_A sol))
      in newP\<lparr> positionExpr := X', velocityExpr := U', accelerationExpr := A' \<rparr>)"

definition updateParticleInput ::
  "env \<Rightarrow> string \<Rightarrow> InputType \<Rightarrow> Vector4 \<Rightarrow> SimulatorState \<Rightarrow> SimulatorState" where
  "updateParticleInput en i inputType input state =
     state\<lparr> particles :=
              map (\<lambda>p. if pid p \<noteq> i then p else updateInputOf en inputType input p)
                (particles state) \<rparr>"

definition updateInitialConditionsOf ::
  "env \<Rightarrow> NumericVector4 option \<Rightarrow> NumericVector4 option \<Rightarrow> ParticleState \<Rightarrow> ParticleState" where
  "updateInitialConditionsOf en X0 U0 p =
     (let nextX0 = (case X0 of Some v \<Rightarrow> v | None \<Rightarrow> initialPosition p);
          nextU0 = (case U0 of Some v \<Rightarrow> v | None \<Rightarrow> initialVelocity p);
          Xv = positionExpr p; Uv = velocityExpr p; Av = accelerationExpr p;
          attempt =
            (case inputVelocity p of
               Some iv \<Rightarrow> Some (solveFromVelocity en iv nextX0)
             | None \<Rightarrow>
                 (case inputAcceleration p of
                    Some ia \<Rightarrow> Some (solveFromAcceleration en ia nextU0 nextX0)
                  | None \<Rightarrow> None));
          (X', U', A') =
            (case attempt of
               Some (Inr sol) \<Rightarrow> (sol_X sol, sol_U sol, sol_A sol)
             | _ \<Rightarrow> (Xv, Uv, Av))
      in p\<lparr> initialPosition := nextX0, initialVelocity := nextU0,
            positionExpr := X', velocityExpr := U', accelerationExpr := A' \<rparr>)"

definition updateParticleInitialConditions ::
  "env \<Rightarrow> string \<Rightarrow> NumericVector4 option \<Rightarrow> NumericVector4 option
     \<Rightarrow> SimulatorState \<Rightarrow> SimulatorState" where
  "updateParticleInitialConditions en i X0 U0 state =
     state\<lparr> particles :=
              map (\<lambda>p. if pid p \<noteq> i then p else updateInitialConditionsOf en X0 U0 p)
                (particles state) \<rparr>"

text \<open>\<^verbatim>\<open>Math.min\<close> and \<^verbatim>\<open>Math.max\<close> of two numbers.\<close>

definition Math_min :: "number \<Rightarrow> number \<Rightarrow> number" where
  "Math_min a b = (if a = NaN \<or> b = NaN then NaN else if num_lt b a then b else a)"

definition Math_max :: "number \<Rightarrow> number \<Rightarrow> number" where
  "Math_max a b = (if a = NaN \<or> b = NaN then NaN else if num_lt a b then b else a)"

definition setActiveReferenceFrame :: "string \<Rightarrow> SimulatorState \<Rightarrow> SimulatorState" where
  "setActiveReferenceFrame i state = state\<lparr> activeReferenceFrameId := i \<rparr>"

definition setAnimationTime :: "number \<Rightarrow> SimulatorState \<Rightarrow> SimulatorState" where
  "setAnimationTime t state = state\<lparr> animationTime := t \<rparr>"

definition setActiveDimension :: "SpatialDimension \<Rightarrow> SimulatorState \<Rightarrow> SimulatorState" where
  "setActiveDimension d state = state\<lparr> activeDimension := d \<rparr>"

definition setViewMode :: "ViewMode \<Rightarrow> SimulatorState \<Rightarrow> SimulatorState" where
  "setViewMode mode state = state\<lparr> viewMode := mode \<rparr>"

definition setTauRange :: "number \<Rightarrow> SimulatorState \<Rightarrow> SimulatorState" where
  "setTauRange rng state =
     state\<lparr> tauRange := Math_max (Fin 10) (Math_min (Fin 1000) rng) \<rparr>"

definition setTimeMin :: "rounding \<Rightarrow> number \<Rightarrow> SimulatorState \<Rightarrow> SimulatorState" where
  "setTimeMin rd val state =
     state\<lparr> timeMin := Math_min val (num_sub rd (timeMax state) (num_lit rd (1 / 10))) \<rparr>"

definition setTimeMax :: "rounding \<Rightarrow> number \<Rightarrow> SimulatorState \<Rightarrow> SimulatorState" where
  "setTimeMax rd val state =
     state\<lparr> timeMax := Math_max val (num_add rd (timeMin state) (num_lit rd (1 / 10))) \<rparr>"

text \<open>The states that the store reaches from its initial state by its actions.\<close>

inductive reachable :: "rounding \<Rightarrow> env \<Rightarrow> SimulatorState \<Rightarrow> bool" for rd :: rounding and en :: env where
  init: "reachable rd en (initialState rd newId newColor)"
| add: "reachable rd en s \<Longrightarrow> reachable rd en (addParticle newId newColor s)"
| remove: "reachable rd en s \<Longrightarrow> reachable rd en (removeParticle i s)"
| rename: "reachable rd en s \<Longrightarrow> reachable rd en (updateParticleName i newName s)"
| recolor: "reachable rd en s \<Longrightarrow> reachable rd en (updateParticleColor i newColor s)"
| input: "reachable rd en s \<Longrightarrow> reachable rd en (updateParticleInput en i inputType inp s)"
| initialConditions:
    "reachable rd en s \<Longrightarrow> reachable rd en (updateParticleInitialConditions en i X0 U0 s)"
| frame: "reachable rd en s \<Longrightarrow> reachable rd en (setActiveReferenceFrame i s)"
| time: "reachable rd en s \<Longrightarrow> reachable rd en (setAnimationTime t s)"
| dimension: "reachable rd en s \<Longrightarrow> reachable rd en (setActiveDimension d s)"
| mode: "reachable rd en s \<Longrightarrow> reachable rd en (setViewMode m s)"
| range: "reachable rd en s \<Longrightarrow> reachable rd en (setTauRange r s)"
| tmin: "reachable rd en s \<Longrightarrow> reachable rd en (setTimeMin rd v s)"
| tmax: "reachable rd en s \<Longrightarrow> reachable rd en (setTimeMax rd v s)"

text \<open>The derived triple of a particle, and the number of primary input fields it has.\<close>

definition derivedTriple :: "ParticleState \<Rightarrow> Vector4 \<times> Vector4 \<times> Vector4" where
  "derivedTriple p = (positionExpr p, velocityExpr p, accelerationExpr p)"

definition primaryInputs :: "ParticleState \<Rightarrow> nat" where
  "primaryInputs p =
     (if inputPosition p = None then 0 else 1) + (if inputVelocity p = None then 0 else 1)
       + (if inputAcceleration p = None then 0 else 1)"

text \<open>The solver call of \<^verbatim>\<open>updateParticleInput\<close> for each kind of primary input.\<close>

definition kinematicSolve :: "env \<Rightarrow> InputType \<Rightarrow> Vector4 \<Rightarrow> ParticleState \<Rightarrow> exn + solution" where
  "kinematicSolve en inputType input p =
     (case inputType of
        Position \<Rightarrow> solveFromPosition en input
      | Velocity \<Rightarrow> solveFromVelocity en input (initialPosition p)
      | Acceleration \<Rightarrow> solveFromAcceleration en input (initialVelocity p) (initialPosition p))"






section \<open>The integrity checks on the boost\<close>

text \<open>
  "Check 4: Lorentz Matrix Reversibility" of the integrity script: the largest deviation of
  the diagonal of a product from 1 and of the other entries from 0, found entry by entry,
  and the verdict; \<open>True\<close> is a passed check.
\<close>

definition reversibilityStep ::
  "rounding \<Rightarrow> matrix \<Rightarrow> number \<times> number \<Rightarrow> nat \<times> nat \<Rightarrow> number \<times> number" where
  "reversibilityStep rd res acc ij =
     (case (acc, ij) of ((maxOffDiag, maxDiagDev), (i, j)) \<Rightarrow>
        if i = j then
          (let dev = Math_abs (num_sub rd (vget (vget res i) j) (Fin 1)) in
           (maxOffDiag, if num_lt maxDiagDev dev then dev else maxDiagDev))
        else
          (let dev = Math_abs (vget (vget res i) j) in
           (if num_lt maxOffDiag dev then dev else maxOffDiag, maxDiagDev)))"

definition reversibilityCheck :: "rounding \<Rightarrow> matrix \<Rightarrow> bool" where
  "reversibilityCheck rd res =
     (case foldl (reversibilityStep rd res) (Fin 0, Fin 0)
             (concat (map (\<lambda>i. map (\<lambda>j. (i, j)) [0, 1, 2, 3]) [0, 1, 2, 3])) of
        (maxOffDiag, maxDiagDev) \<Rightarrow>
          \<not> (num_lt (num_lit rd (1 / 10 ^ 10)) maxOffDiag
               \<or> num_lt (num_lit rd (1 / 10 ^ 10)) maxDiagDev))"

text \<open>"Check 3: Invariant Interval Preservation Under Arbitrary Boosts": the intervals of
  two events before and after the boost differ by no more than \<open>1e-6\<close>.\<close>

definition intervalCheck ::
  "rounding \<Rightarrow> number vec3 \<Rightarrow> NumericVector4 \<Rightarrow> NumericVector4 \<Rightarrow> bool" where
  "intervalCheck rd v3 X1 X2 =
     (let ds2 = calculateIntervalSquared rd X1 X2;
          Lambda = getLorentzBoostMatrix rd v3;
          X1_prime = applyLorentzTransformation rd Lambda X1;
          X2_prime = applyLorentzTransformation rd Lambda X2;
          ds2_prime = calculateIntervalSquared rd X1_prime X2_prime;
          diff = Math_abs (num_sub rd ds2 ds2_prime)
      in \<not> num_lt (num_lit rd (1 / 10 ^ 6)) diff)"

text \<open>The velocity \<open>-v\<close>.\<close>

definition negate3 :: "number vec3 \<Rightarrow> number vec3" where
  "negate3 v = Vec3 (num_neg (v3get v 0)) (num_neg (v3get v 1)) (num_neg (v3get v 2))"

text \<open>The velocity \<^verbatim>\<open>[0.3, 0.4, 0.5]\<close> of check 4, the velocity
  \<^verbatim>\<open>[v / Math.sqrt(3), v / Math.sqrt(3), v / Math.sqrt(3)]\<close> with \<^verbatim>\<open>v = 0.99\<close> and
  the two events of check 3, and a velocity close to that of light.\<close>

definition check4Velocity :: "rounding \<Rightarrow> number vec3" where
  "check4Velocity rd = Vec3 (num_lit rd (3 / 10)) (num_lit rd (4 / 10)) (num_lit rd (5 / 10))"

definition check3Velocity :: "rounding \<Rightarrow> number vec3" where
  "check3Velocity rd =
     (let v = num_lit rd (99 / 100);
          c = num_div rd v (Math_sqrt rd (Fin 3))
      in Vec3 c c c)"

definition check3Event1 :: NumericVector4 where
  "check3Event1 = Vec4 (Fin 2) (Fin 5) (Fin (- 1)) (Fin 3)"

definition check3Event2 :: NumericVector4 where
  "check3Event2 = Vec4 (Fin 8) (Fin 1) (Fin 4) (Fin 0)"

definition nearLightSpeed :: "rounding \<Rightarrow> number vec3" where
  "nearLightSpeed rd = Vec3 (num_lit rd (999999999 / 10 ^ 9)) (Fin 0) (Fin 0)"

text \<open>The entries of the boost matrix as real numbers, for arithmetic without rounding.\<close>

definition boostReal :: "real \<Rightarrow> real \<Rightarrow> real \<Rightarrow> real \<Rightarrow> real \<Rightarrow> nat \<Rightarrow> nat \<Rightarrow> real" where
  "boostReal a b c v2 g i j =
     (if i = 0 \<and> j = 0 then g
      else if i = 0 then - g * (if j - 1 = 0 then a else if j - 1 = 1 then b else c)
      else if j = 0 then - g * (if i - 1 = 0 then a else if i - 1 = 1 then b else c)
      else (if i = j then 1 else 0)
           + (g - 1) * ((if i - 1 = 0 then a else if i - 1 = 1 then b else c)
                        * (if j - 1 = 0 then a else if j - 1 = 1 then b else c)) / v2)"

section \<open>Verified properties\<close>

subsection \<open>Arithmetic without rounding\<close>

lemmas exact_simps = exact_def num_lit_def num_sub_def

subsection \<open>Numeric evaluation never throws and never returns part of a vector\<close>

text \<open>
  Claim C1. For every symbolic vector and every tau: if evaluating one of the four
  components throws or yields NaN, \<^verbatim>\<open>evaluateVectorAtTau\<close> returns the whole zero
  vector and throws nothing; otherwise it returns the four results of the components.
\<close>

theorem evaluateVectorAtTau_total:
  "evaluateVectorAtTau en V tau =
     Inr (if componentFails en V tau 0 \<or> componentFails en V tau 1
             \<or> componentFails en V tau 2 \<or> componentFails en V tau 3
          then Vec4 (Fin 0) (Fin 0) (Fin 0) (Fin 0)
          else Vec4 (componentValue en V tau 0) (componentValue en V tau 1)
                 (componentValue en V tau 2) (componentValue en V tau 3))"
  by (simp add: evaluateVectorAtTau_def evaluateVectorBody_def try_catch_def
      componentFails_def componentValue_def zero4_def isNaN_def Let_def
      split: sum.splits)

theorem evaluateVectorAtTau_total_witness:
  "evaluateVectorAtTau sample_env (Vec4 ''tau'' ''c'' ''0/0'' ''0'') (Fin 2)
     = Inr (Vec4 (Fin 0) (Fin 0) (Fin 0) (Fin 0))
   \<and> evaluateVectorAtTau sample_env (Vec4 ''tau'' ''c'' ''cosh(tau)'' ''0'') (Fin 2)
     = Inr (Vec4 (Fin 0) (Fin 0) (Fin 0) (Fin 0))
   \<and> evaluateVectorAtTau sample_env (Vec4 ''tau'' ''c'' ''2'' ''0'') (Fin 2)
     = Inr (Vec4 (Fin 2) (Fin 1) (Fin 2) (Fin 0))"
  using evaluateVectorAtTau_total [of sample_env "Vec4 ''tau'' ''c'' ''0/0'' ''0''" "Fin 2"]
    evaluateVectorAtTau_total [of sample_env "Vec4 ''tau'' ''c'' ''cosh(tau)'' ''0''" "Fin 2"]
    evaluateVectorAtTau_total [of sample_env "Vec4 ''tau'' ''c'' ''2'' ''0''" "Fin 2"]
  by (simp add: componentFails_def componentValue_def evaluateComponent_def sample_env_def
      substituteConstants_def sortedConstants_def CONSTANTS_def wordBoundary_def isWordChar_def)

subsection \<open>The causality validator\<close>

lemma normalised_time_component:
  fixes u0 s :: real
  assumes "0 \<le> u0" and "\<bar>- (u0 * u0) + s + 1\<bar> \<le> 1 / 10 ^ 4" and "0 \<le> s"
  shows "1 / 10 ^ 10 \<le> u0"
proof (rule ccontr)
  assume "\<not> 1 / 10 ^ 10 \<le> u0"
  then have lt: "u0 < 1 / 10 ^ 10" by simp
  have "u0 * u0 \<le> (1 / 10 ^ 10) * (1 / 10 ^ 10)"
    using assms(1) lt by (intro mult_mono) auto
  then show False using assms(2,3) by (simp add: abs_le_iff)
qed

lemma magnitudeSquared_exact:
  "magnitudeSquared exact (Vec4 (Fin u0) (Fin u1) (Fin u2) (Fin u3))
     = Fin (minkowskiSquare u0 u1 u2 u3)"
  by (simp add: magnitudeSquared_def exact_simps minkowskiSquare_def power2_eq_square)

lemma validateCausality_exact:
  "validateCausality exact fmt (Vec4 (Fin u0) (Fin u1) (Fin u2) (Fin u3)) =
     (if u0 < 0 then
        \<lparr> isValid = False,
          reason = Some ''U^0 must be positive (particle moving forward in time)'',
          U_squared = Fin (minkowskiSquare u0 u1 u2 u3), v_squared = Fin 0 \<rparr>
      else if 1 / 10 ^ 4 < \<bar>minkowskiSquare u0 u1 u2 u3 - (- 1)\<bar> then
        \<lparr> isValid = False,
          reason = Some (''4-velocity invariant U^mu U_mu must equal -1, but got ''
                     @ fmt (Fin (minkowskiSquare u0 u1 u2 u3))),
          U_squared = Fin (minkowskiSquare u0 u1 u2 u3), v_squared = Fin 0 \<rparr>
      else if 1 \<le> speedSquared u0 u1 u2 u3 then
        \<lparr> isValid = False,
          reason = Some (''Speed |v| must be strictly less than c (1), but got |v|^2 = ''
                     @ fmt (Fin (speedSquared u0 u1 u2 u3))),
          U_squared = Fin (minkowskiSquare u0 u1 u2 u3),
          v_squared = Fin (speedSquared u0 u1 u2 u3) \<rparr>
      else
        \<lparr> isValid = True, reason = None,
          U_squared = Fin (minkowskiSquare u0 u1 u2 u3),
          v_squared = Fin (speedSquared u0 u1 u2 u3) \<rparr>)"
proof (cases "u0 < 0")
  case True
  then show ?thesis
    by (simp add: validateCausality_def magnitudeSquared_exact Let_def)
next
  case nonneg: False
  show ?thesis
  proof (cases "1 / 10 ^ 4 < \<bar>minkowskiSquare u0 u1 u2 u3 - (- 1)\<bar>")
    case True
    then show ?thesis using nonneg
      by (simp add: validateCausality_def magnitudeSquared_exact Let_def exact_simps)
  next
    case False
    have "\<bar>- (u0 * u0) + (u1 * u1 + u2 * u2 + u3 * u3) + 1\<bar>
            = \<bar>minkowskiSquare u0 u1 u2 u3 - (- 1)\<bar>"
      by (simp add: minkowskiSquare_def power2_eq_square algebra_simps)
    then have "\<bar>- (u0 * u0) + (u1 * u1 + u2 * u2 + u3 * u3) + 1\<bar> \<le> 1 / 10 ^ 4"
      using False by linarith
    moreover have "0 \<le> u1 * u1 + u2 * u2 + u3 * u3" by simp
    ultimately have "1 / 10 ^ 10 \<le> u0"
      using nonneg by (intro normalised_time_component) auto
    then have pos: "0 < u0" and guard: "\<not> \<bar>u0\<bar> < 1 / 10 ^ 10" by auto
    have v3: "extract3Velocity exact (Vec4 (Fin u0) (Fin u1) (Fin u2) (Fin u3)) =
         Vec3 (Fin (u1 / u0)) (Fin (u2 / u0)) (Fin (u3 / u0))"
      using guard pos by (simp add: extract3Velocity_def exact_simps)
    have s3: "sumSquares3 exact (Vec3 (Fin (u1 / u0)) (Fin (u2 / u0)) (Fin (u3 / u0)))
         = Fin (speedSquared u0 u1 u2 u3)"
      using pos
      by (simp add: sumSquares3_def exact_simps speedSquared_def power2_eq_square
          add_divide_distrib)
    show ?thesis using nonneg False
      by (simp add: validateCausality_def magnitudeSquared_exact Let_def exact_simps v3 s3)
  qed
qed

subsection \<open>The proper-time locator\<close>

lemma evaluateVectorAtTau_returns:
  "\<exists>v. evaluateVectorAtTau en V tau = Inr v \<and> \<not> isNaN (vget v 0)"
  by (auto simp: evaluateVectorAtTau_def evaluateVectorBody_def try_catch_def zero4_def
      isNaN_def Let_def split: sum.splits)

lemma evaluateVectorAtTau_timeAt:
  "evaluateVectorAtTau en V = (\<lambda>tau. Inr (case evaluateVectorAtTau en V tau of Inl e \<Rightarrow> zero4 | Inr v \<Rightarrow> v))"
proof
  fix tau
  obtain v where "evaluateVectorAtTau en V tau = Inr v"
    using evaluateVectorAtTau_returns by blast
  then show "evaluateVectorAtTau en V tau
      = Inr (case evaluateVectorAtTau en V tau of Inl e \<Rightarrow> zero4 | Inr v \<Rightarrow> v)"
    by simp
qed

lemma bisectLoop_spec:
  assumes "k + n = 100" and "bracketAt rd (\<lambda>tau. vget (g tau) 0) target k = (low, high)"
  shows "bisectLoop rd (\<lambda>tau. Inr (g tau)) target n low high =
     (case find (stopsAt rd (\<lambda>tau. vget (g tau) 0) target) [k..<100] of
        Some j \<Rightarrow>
          Inr (Inl (if isNaN (vget (g (midpointAt rd (\<lambda>tau. vget (g tau) 0) target j)) 0) then Fin 0
                    else midpointAt rd (\<lambda>tau. vget (g tau) 0) target j))
      | None \<Rightarrow> Inr (Inr (bracketAt rd (\<lambda>tau. vget (g tau) 0) target 100)))"
  using assms
proof (induction n arbitrary: k low high)
  case 0
  then show ?case by simp
next
  case (Suc n)
  let ?t = "\<lambda>tau. vget (g tau) 0"
  let ?mid = "num_div rd (num_add rd low high) (Fin 2)"
  have k: "k < 100" and kn: "Suc k + n = 100" using Suc.prems(1) by simp_all
  have upt: "[k..<100] = k # [Suc k..<100]" using k by (rule upt_conv_Cons)
  have mid: "midpointAt rd ?t target k = ?mid"
    by (simp add: midpointAt_def Suc.prems(2))
  show ?case
  proof (cases "stopsAt rd ?t target k")
    case True
    then show ?thesis
      by (auto simp: upt stopsAt_def residualAt_def mid Let_def)
  next
    case False
    have next_bracket: "bracketAt rd ?t target (Suc k) =
        (if num_lt (?t ?mid) target then (?mid, high) else (low, ?mid))"
      by (simp add: Suc.prems(2) Let_def)
    show ?thesis
    proof (cases "num_lt (?t ?mid) target")
      case True
      then have "bracketAt rd ?t target (Suc k) = (?mid, high)" using next_bracket by simp
      from Suc.IH [OF kn this] show ?thesis
        using False True by (simp add: upt stopsAt_def residualAt_def mid Let_def)
    next
      case lt: False
      then have "bracketAt rd ?t target (Suc k) = (low, ?mid)" using next_bracket by simp
      from Suc.IH [OF kn this] show ?thesis
        using False lt by (simp add: upt stopsAt_def residualAt_def mid Let_def)
    qed
  qed
qed

lemma findTauWith_spec:
  "findTauWith rd (\<lambda>tau. Inr (g tau)) target
     = Inr (bisectionSpec rd (\<lambda>tau. vget (g tau) 0) target)"
proof -
  let ?t = "\<lambda>tau. vget (g tau) 0"
  obtain low high where b0: "bracketAt rd ?t target 0 = (low, high)" by simp
  have lh: "low = Fin (- 1000)" "high = Fin 1000" using b0 by simp_all
  have loop: "bisectLoop rd (\<lambda>tau. Inr (g tau)) target 100 (Fin (- 1000)) (Fin 1000) =
     (case find (stopsAt rd ?t target) [0..<100] of
        Some j \<Rightarrow>
          Inr (Inl (if isNaN (?t (midpointAt rd ?t target j)) then Fin 0
                    else midpointAt rd ?t target j))
      | None \<Rightarrow> Inr (Inr (bracketAt rd ?t target 100)))"
    using bisectLoop_spec [of 0 100 rd g target low high] b0 unfolding lh by simp
  show ?thesis
    unfolding findTauWith_def loop bisectionSpec_def
    by (cases "bracketAt rd ?t target 100")
      (simp add: midpointAt_def residualAt_def Let_def split: option.splits)
qed


lemma bracketAt_exact:
  "\<exists>lo hi. bracketAt exact t target k = (Fin lo, Fin hi)
     \<and> - 1000 \<le> lo \<and> hi \<le> 1000 \<and> hi - lo = 2000 / 2 ^ k"
  unfolding exact_def
proof (induction k)
  case 0
  show ?case by simp
next
  case (Suc k)
  then obtain lo hi where b: "bracketAt Fin t target k = (Fin lo, Fin hi)"
    and bounds: "- 1000 \<le> lo" "hi \<le> 1000" and width: "hi - lo = 2000 / 2 ^ k"
    by blast
  have half: "hi - (lo + hi) / 2 = 2000 / 2 ^ Suc k" "(lo + hi) / 2 - lo = 2000 / 2 ^ Suc k"
    using width by (simp_all add: field_simps)
  have "(0::real) \<le> 2000 / 2 ^ Suc k" by simp
  then have mid: "- 1000 \<le> (lo + hi) / 2" "(lo + hi) / 2 \<le> 1000"
    using half bounds by linarith+
  have step: "bracketAt Fin t target (Suc k) =
      (if num_lt (t (Fin ((lo + hi) / 2))) target then (Fin ((lo + hi) / 2), Fin hi)
       else (Fin lo, Fin ((lo + hi) / 2)))"
    by (simp add: b Let_def)
  show ?case
  proof (cases "num_lt (t (Fin ((lo + hi) / 2))) target")
    case True
    then have "bracketAt Fin t target (Suc k) = (Fin ((lo + hi) / 2), Fin hi)"
      using step by simp
    then show ?thesis using mid(1) bounds(2) half(1) by blast
  next
    case False
    then have "bracketAt Fin t target (Suc k) = (Fin lo, Fin ((lo + hi) / 2))"
      using step by simp
    then show ?thesis using bounds(1) mid(2) half(2) by blast
  qed
qed

lemma bracketAt_constant_zero:
  assumes "0 < T"
  shows "bracketAt exact (\<lambda>tau. Fin 0) (Fin T) k = (Fin (1000 - 2000 / 2 ^ k), Fin 1000)"
  unfolding exact_def
proof (induction k)
  case 0
  show ?case by simp
next
  case (Suc k)
  have "(1000 - 2000 / 2 ^ k + 1000) / 2 = (1000::real) - 2000 / (2 * 2 ^ k)"
    by (simp add: field_simps)
  then show ?case using assms by (simp add: Suc Let_def)
qed

lemma bisectionSpec_constant_zero:
  assumes "1 / 10 ^ 4 \<le> T"
  shows "bisectionSpec exact (\<lambda>tau. Fin 0) (Fin T)
     = (if 100 < T then Fin 0 else Fin (1000 - 1000 / 2 ^ 100))"
proof -
  have pos: "0 < T" using assms by (simp add: order_less_le_trans [of 0 "1 / 10 ^ 4" T])
  have never: "\<not> stopsAt exact (\<lambda>tau. Fin 0) (Fin T) k" for k
    using assms pos by (simp add: stopsAt_def residualAt_def isNaN_def exact_simps)
  have none: "find (stopsAt exact (\<lambda>tau. Fin 0) (Fin T)) [0..<100] = None"
    by (simp add: find_None_iff never)
  have mid: "midpointAt exact (\<lambda>tau. Fin 0) (Fin T) 100 = Fin (1000 - 1000 / 2 ^ 100)"
    by (simp add: midpointAt_def bracketAt_constant_zero [OF pos] exact_def field_simps)
  have res: "residualAt exact (\<lambda>tau. Fin 0) (Fin T) 100 = Fin T"
    using pos by (simp add: residualAt_def exact_simps)
  show ?thesis
    unfolding bisectionSpec_def none by (simp add: res mid del: power_numeral)
qed

lemma timeAt_NaN_component:
  "timeAt sample_env (Vec4 ''0/0'' ''0'' ''0'' ''0'') = (\<lambda>tau. Fin 0)"
  by (rule ext)
    (simp add: timeAt_def evaluateVectorAtTau_def evaluateVectorBody_def try_catch_def
      evaluateComponent_def sample_env_def substituteConstants_def sortedConstants_def
      CONSTANTS_def wordBoundary_def isWordChar_def isNaN_def zero4_def Let_def)

lemma bisectionSpec_first_NaN:
  "bisectionSpec exact (\<lambda>tau. NaN) (Fin 5) = Fin 0"
proof -
  have "[0..<100] = 0 # [Suc 0..<100]" by (rule upt_conv_Cons) simp
  then show ?thesis
    by (simp add: bisectionSpec_def stopsAt_def isNaN_def del: upt_Suc)
qed

lemma bisectionSpec_identity:
  "bisectionSpec exact (\<lambda>tau. tau) (Fin 250) = Fin 250"
proof -
  let ?P = "stopsAt exact (\<lambda>tau. tau) (Fin 250)"
  have b1: "bracketAt exact (\<lambda>tau. tau) (Fin 250) (Suc 0) = (Fin 0, Fin 1000)"
    by (simp add: exact_def Let_def)
  have b2: "bracketAt exact (\<lambda>tau. tau) (Fin 250) (Suc (Suc 0)) = (Fin 0, Fin 500)"
    unfolding bracketAt.simps(2) [of _ _ _ "Suc 0"] b1 by (simp add: exact_def Let_def)
  have m0: "midpointAt exact (\<lambda>tau. tau) (Fin 250) 0 = Fin 0"
    by (simp add: midpointAt_def exact_def)
  have m1: "midpointAt exact (\<lambda>tau. tau) (Fin 250) (Suc 0) = Fin 500"
    by (simp add: midpointAt_def b1 exact_def)
  have m2: "midpointAt exact (\<lambda>tau. tau) (Fin 250) (Suc (Suc 0)) = Fin 250"
    by (simp add: midpointAt_def b2 exact_def)
  have s0: "\<not> ?P 0" by (simp add: stopsAt_def residualAt_def m0 isNaN_def exact_simps)
  have s1: "\<not> ?P (Suc 0)" by (simp add: stopsAt_def residualAt_def m1 isNaN_def exact_simps)
  have s2: "?P (Suc (Suc 0))" by (simp add: stopsAt_def residualAt_def m2 isNaN_def exact_simps)
  have "[0..<100] = 0 # Suc 0 # Suc (Suc 0) # [Suc (Suc (Suc 0))..<100]"
    by (simp add: upt_conv_Cons)
  then have "find ?P [0..<100] = Some (Suc (Suc 0))"
    using s0 s1 s2 by (simp del: upt_Suc)
  then show ?thesis
    by (simp add: bisectionSpec_def m2 isNaN_def)
qed

text \<open>
  Claim C2. For every target, \<^verbatim>\<open>findTauForLabTime\<close> is the search the specification
  describes: bisection from the bracket \<open>[-1000, 1000]\<close>, which halves at every step, through
  at most 100 midpoints; at the first midpoint where the time component is NaN the result
  is 0, at the first where the residual is below \<open>1e-4\<close> it is that midpoint, and when no
  midpoint stops the search it is the last midpoint, or 0 when the residual there exceeds
  100. This holds of the loop for any evaluator that returns vectors, and so of the program,
  whose evaluator \<^verbatim>\<open>evaluateVectorAtTau\<close> always returns a vector and never a NaN time
  component (a failed evaluation reads as 0).
\<close>

theorem findTauForLabTime_bisection:
  "findTauWith rd (\<lambda>tau. Inr (g tau)) target
     = Inr (bisectionSpec rd (\<lambda>tau. vget (g tau) 0) target)
   \<and> findTauForLabTime rd en X target
     = Inr (bisectionSpec rd (timeAt en X) target)
   \<and> \<not> isNaN (timeAt en X tau)
   \<and> (\<exists>lo hi. bracketAt exact t target k = (Fin lo, Fin hi)
         \<and> - 1000 \<le> lo \<and> hi \<le> 1000 \<and> hi - lo = 2000 / 2 ^ k)"
proof -
  let ?g = "\<lambda>tau. case evaluateVectorAtTau en X tau of Inl e \<Rightarrow> zero4 | Inr v \<Rightarrow> v"
  have time: "timeAt en X = (\<lambda>tau. vget (?g tau) 0)"
    by (rule ext) (simp add: timeAt_def zero4_def split: sum.splits)
  have "findTauForLabTime rd en X target = findTauWith rd (\<lambda>tau. Inr (?g tau)) target"
    unfolding findTauForLabTime_def by (subst evaluateVectorAtTau_timeAt) (rule refl)
  then have program: "findTauForLabTime rd en X target
      = Inr (bisectionSpec rd (timeAt en X) target)"
    by (simp only: findTauWith_spec time)
  obtain v where "evaluateVectorAtTau en X tau = Inr v" "\<not> isNaN (vget v 0)"
    using evaluateVectorAtTau_returns by blast
  then have "\<not> isNaN (timeAt en X tau)" by (simp add: timeAt_def)
  then show ?thesis
    using findTauWith_spec program bracketAt_exact by blast
qed

theorem findTauForLabTime_bisection_witness:
  "findTauWith exact (\<lambda>tau. Inr (Vec4 NaN (Fin 0) (Fin 0) (Fin 0))) (Fin 5) = Inr (Fin 0)
   \<and> findTauWith exact (\<lambda>tau. Inr (Vec4 tau (Fin 0) (Fin 0) (Fin 0))) (Fin 250) = Inr (Fin 250)
   \<and> findTauForLabTime exact sample_env (Vec4 ''0/0'' ''0'' ''0'' ''0'') (Fin 500) = Inr (Fin 0)
   \<and> findTauForLabTime exact sample_env (Vec4 ''0/0'' ''0'' ''0'' ''0'') (Fin 5)
       = Inr (Fin (1000 - 1000 / 2 ^ 100))"
proof -
  have far: "bisectionSpec exact (\<lambda>tau. Fin 0) (Fin 500) = Fin 0"
    using bisectionSpec_constant_zero [of 500] by simp
  have near: "bisectionSpec exact (\<lambda>tau. Fin 0) (Fin 5) = Fin (1000 - 1000 / 2 ^ 100)"
    using bisectionSpec_constant_zero [of 5] by simp
  show ?thesis
  using findTauForLabTime_bisection
      [of exact "\<lambda>tau. Vec4 NaN (Fin 0) (Fin 0) (Fin 0)" "Fin 5" sample_env
        "Vec4 ''0/0'' ''0'' ''0'' ''0''" "Fin 0" "\<lambda>tau. tau" 0]
    findTauForLabTime_bisection
      [of exact "\<lambda>tau. Vec4 tau (Fin 0) (Fin 0) (Fin 0)" "Fin 250" sample_env
        "Vec4 ''0/0'' ''0'' ''0'' ''0''" "Fin 0" "\<lambda>tau. tau" 0]
    findTauForLabTime_bisection
      [of exact "\<lambda>tau. Vec4 tau (Fin 0) (Fin 0) (Fin 0)" "Fin 500" sample_env
        "Vec4 ''0/0'' ''0'' ''0'' ''0''" "Fin 0" "\<lambda>tau. tau" 0]
    findTauForLabTime_bisection
      [of exact "\<lambda>tau. Vec4 tau (Fin 0) (Fin 0) (Fin 0)" "Fin 5" sample_env
        "Vec4 ''0/0'' ''0'' ''0'' ''0''" "Fin 0" "\<lambda>tau. tau" 0]
  by (simp add: bisectionSpec_first_NaN bisectionSpec_identity timeAt_NaN_component
      far near del: power_numeral)
qed

subsection \<open>What a numeric vector can hold\<close>

text \<open>
  Claim C8 as stated, refuted: the evaluator tests its result for NaN only. Where the engine
  yields an infinity (as it does for a literal beyond the range of a double), the vector
  returned holds it, so its components are not all finite.
\<close>

theorem evaluateVectorAtTau_infinite_component:
  "evaluateVectorAtTau sample_env (Vec4 ''1e999'' ''0'' ''0'' ''0'') (Fin 2)
     = Inr (Vec4 PInf (Fin 0) (Fin 0) (Fin 0))
   \<and> \<not> isFinite PInf"
  by (simp add: evaluateVectorAtTau_def evaluateVectorBody_def try_catch_def evaluateComponent_def
      sample_env_def substituteConstants_def sortedConstants_def CONSTANTS_def wordBoundary_def
      isWordChar_def isNaN_def Let_def)

text \<open>
  Claim C8, amended. For every symbolic vector and every tau, the evaluator returns a vector
  (it throws nothing) and no component of it is NaN; a component is a finite number or an
  infinity.
\<close>

theorem evaluateVectorAtTau_no_NaN:
  "\<exists>r. evaluateVectorAtTau en V tau = Inr r \<and> \<not> list_ex isNaN (vlist r)"
  by (simp add: evaluateVectorAtTau_def evaluateVectorBody_def try_catch_def zero4_def
      isNaN_def Let_def split: sum.splits)

theorem evaluateVectorAtTau_no_NaN_witness:
  "\<exists>r. evaluateVectorAtTau sample_env (Vec4 ''0/0'' ''tau'' ''0'' ''0'') (Fin 2) = Inr r
      \<and> \<not> list_ex isNaN (vlist r)"
  using evaluateVectorAtTau_no_NaN [of sample_env "Vec4 ''0/0'' ''tau'' ''0'' ''0''" "Fin 2"]
  by simp

subsection \<open>The store keeps the derived triple whole\<close>

lemma updateInputOf_derivedTriple:
  "derivedTriple (updateInputOf en inputType inp p) =
     (case kinematicSolve en inputType inp p of
        Inl e \<Rightarrow> derivedTriple p
      | Inr sol \<Rightarrow> (sol_X sol, sol_U sol, sol_A sol))"
  by (cases inputType)
    (simp_all add: updateInputOf_def kinematicSolve_def derivedTriple_def Let_def
      split: sum.splits)

text \<open>
  Claim C9. For every particle and every call of \<^verbatim>\<open>updateParticleInput\<close> for it: when
  the kinematic solver raises an error (in any of its component calls), the particle's
  triple of position, velocity and acceleration expressions is the one it had before the
  call; when the solver returns, the triple is the solver's result. No mixture of the two
  is stored.
\<close>

theorem updateParticleInput_all_or_nothing:
  assumes "k < length (particles s)" and "pid (particles s ! k) = i"
  shows "derivedTriple (particles (updateParticleInput en i inputType inp s) ! k) =
     (case kinematicSolve en inputType inp (particles s ! k) of
        Inl e \<Rightarrow> derivedTriple (particles s ! k)
      | Inr sol \<Rightarrow> (sol_X sol, sol_U sol, sol_A sol))"
  using assms by (simp add: updateParticleInput_def updateInputOf_derivedTriple)

lemma sample_solve_fails:
  "kinematicSolve sample_env Position (Vec4 ''0'' ''0'' ''0'' ''bad('')
     (createDefaultParticle ''ab12cd3'' ''#ef4444'') = Inl (Exn ''ParseError'')"
  by (simp add: kinematicSolve_def solveFromPosition_def array4_def deriveSymbolic_def
      degenerate_def trim_def isWhiteSpace_def sample_env_def)

theorem updateParticleInput_all_or_nothing_witness:
  "0 < length (particles (initialState exact ''ab12cd3'' ''#ef4444''))
   \<and> pid (particles (initialState exact ''ab12cd3'' ''#ef4444'') ! 0) = ''ab12cd3''
   \<and> kinematicSolve sample_env Position (Vec4 ''0'' ''0'' ''0'' ''bad('')
        (particles (initialState exact ''ab12cd3'' ''#ef4444'') ! 0) = Inl (Exn ''ParseError'')
   \<and> derivedTriple
        (particles (updateParticleInput sample_env ''ab12cd3'' Position
           (Vec4 ''0'' ''0'' ''0'' ''bad('') (initialState exact ''ab12cd3'' ''#ef4444'')) ! 0)
       = (Vec4 ''tau'' ''0'' ''0'' ''0'', Vec4 ''1'' ''0'' ''0'' ''0'', Vec4 ''0'' ''0'' ''0'' ''0'')"
proof -
  have len: "0 < length (particles (initialState exact ''ab12cd3'' ''#ef4444''))"
    and first: "particles (initialState exact ''ab12cd3'' ''#ef4444'') ! 0
                  = createDefaultParticle ''ab12cd3'' ''#ef4444''"
    by (simp_all add: initialState_def)
  have ident: "pid (particles (initialState exact ''ab12cd3'' ''#ef4444'') ! 0) = ''ab12cd3''"
    by (simp add: first createDefaultParticle_def)
  show ?thesis
    using updateParticleInput_all_or_nothing [OF len ident, of sample_env Position
        "Vec4 ''0'' ''0'' ''0'' ''bad(''"] len ident
    by (simp add: first sample_solve_fails) (simp add: derivedTriple_def createDefaultParticle_def)
qed

subsection \<open>At most one primary input\<close>

lemma primaryInputs_default: "primaryInputs (createDefaultParticle newId newColor) = 1"
  by (simp add: primaryInputs_def createDefaultParticle_def)

lemma primaryInputs_updateInputOf: "primaryInputs (updateInputOf en inputType inp p) = 1"
  by (cases inputType)
    (simp_all add: primaryInputs_def updateInputOf_def Let_def split: sum.splits)

lemma primaryInputs_updateInitialConditionsOf:
  "primaryInputs (updateInitialConditionsOf en X0 U0 p) = primaryInputs p"
  by (simp add: primaryInputs_def updateInitialConditionsOf_def Let_def
      split: option.splits sum.splits)

lemma primaryInputs_rename: "primaryInputs (p\<lparr> name := newName \<rparr>) = primaryInputs p"
  by (simp add: primaryInputs_def)

lemma primaryInputs_recolor: "primaryInputs (p\<lparr> color := newColor \<rparr>) = primaryInputs p"
  by (simp add: primaryInputs_def)

lemma reachable_primaryInputs:
  assumes "reachable rd en s"
  shows "\<forall>p \<in> set (particles s). primaryInputs p = 1"
  using assms
proof (induction rule: reachable.induct)
  case (init newId newColor)
  show ?case by (simp add: initialState_def primaryInputs_default)
next
  case (add s newId newColor)
  then show ?case by (auto simp: addParticle_def primaryInputs_default)
next
  case (remove s i)
  then show ?case by (auto simp: removeParticle_def)
next
  case (rename s i newName)
  then show ?case by (auto simp: updateParticleName_def primaryInputs_rename)
next
  case (recolor s i newColor)
  then show ?case by (auto simp: updateParticleColor_def primaryInputs_recolor)
next
  case (input s i inputType inp)
  then show ?case by (auto simp: updateParticleInput_def primaryInputs_updateInputOf)
next
  case (initialConditions s i X0 U0)
  then show ?case
    by (auto simp: updateParticleInitialConditions_def primaryInputs_updateInitialConditionsOf)
qed (simp_all add: setActiveReferenceFrame_def setAnimationTime_def setActiveDimension_def
    setViewMode_def setTauRange_def setTimeMin_def setTimeMax_def)

text \<open>
  Claim C10. In every state that the store reaches, each particle has at most one of
  \<^verbatim>\<open>inputPosition\<close>, \<^verbatim>\<open>inputVelocity\<close> and \<^verbatim>\<open>inputAcceleration\<close>;
  \<^verbatim>\<open>updateParticleInput\<close> sets the field of the kind it is given and deletes the other
  two, and no other action adds a primary input field.
\<close>

theorem at_most_one_primary_input:
  "(reachable rd en s \<longrightarrow> (\<forall>p \<in> set (particles s). primaryInputs p \<le> 1))
   \<and> (let p' = updateInputOf en Position inp p in
        inputPosition p' = Some inp \<and> inputVelocity p' = None \<and> inputAcceleration p' = None)
   \<and> (let p' = updateInputOf en Velocity inp p in
        inputPosition p' = None \<and> inputVelocity p' = Some inp \<and> inputAcceleration p' = None)
   \<and> (let p' = updateInputOf en Acceleration inp p in
        inputPosition p' = None \<and> inputVelocity p' = None \<and> inputAcceleration p' = Some inp)"
proof -
  have "reachable rd en s \<longrightarrow> (\<forall>p \<in> set (particles s). primaryInputs p \<le> 1)"
    using reachable_primaryInputs [of rd en s] by auto
  then show ?thesis
    by (simp add: updateInputOf_def Let_def split: sum.splits)
qed

theorem at_most_one_primary_input_witness:
  "reachable exact sample_env
     (updateParticleInput sample_env ''ab12cd3'' Velocity (Vec4 ''0'' ''0'' ''0'' ''0'')
        (initialState exact ''ab12cd3'' ''#ef4444''))
   \<and> primaryInputs
        (hd (particles
           (updateParticleInput sample_env ''ab12cd3'' Velocity (Vec4 ''0'' ''0'' ''0'' ''0'')
              (initialState exact ''ab12cd3'' ''#ef4444'')))) \<le> 1
   \<and> inputVelocity
        (hd (particles
           (updateParticleInput sample_env ''ab12cd3'' Velocity (Vec4 ''0'' ''0'' ''0'' ''0'')
              (initialState exact ''ab12cd3'' ''#ef4444'')))) = Some (Vec4 ''0'' ''0'' ''0'' ''0'')
   \<and> inputPosition
        (hd (particles
           (updateParticleInput sample_env ''ab12cd3'' Velocity (Vec4 ''0'' ''0'' ''0'' ''0'')
              (initialState exact ''ab12cd3'' ''#ef4444'')))) = None"
proof -
  let ?s = "updateParticleInput sample_env ''ab12cd3'' Velocity (Vec4 ''0'' ''0'' ''0'' ''0'')
              (initialState exact ''ab12cd3'' ''#ef4444'')"
  have reach: "reachable exact sample_env ?s"
    by (intro reachable.input reachable.init)
  have hd_eq: "hd (particles ?s) = updateInputOf sample_env Velocity (Vec4 ''0'' ''0'' ''0'' ''0'')
                 (createDefaultParticle ''ab12cd3'' ''#ef4444'')"
    by (simp add: updateParticleInput_def initialState_def createDefaultParticle_def)
  have mem: "hd (particles ?s) \<in> set (particles ?s)"
    by (simp add: updateParticleInput_def initialState_def)
  from at_most_one_primary_input [of exact sample_env ?s "Vec4 ''0'' ''0'' ''0'' ''0''"
      "createDefaultParticle ''ab12cd3'' ''#ef4444''"]
  show ?thesis using reach mem by (simp add: hd_eq Let_def)
qed

subsection \<open>Constant substitution\<close>























subsection \<open>Degenerate inputs of the symbolic operations\<close>

lemma trim_empty_iff: "trim s = [] \<longleftrightarrow> (\<forall>c \<in> set s. isWhiteSpace c)"
proof -
  have "trim s = [] \<longleftrightarrow> (\<forall>c \<in> set (dropWhile isWhiteSpace s). isWhiteSpace c)"
    by (simp add: trim_def dropWhile_eq_Nil_conv)
  also have "\<dots> \<longleftrightarrow> (\<forall>c \<in> set s. isWhiteSpace c)"
  proof
    assume a: "\<forall>c \<in> set (dropWhile isWhiteSpace s). isWhiteSpace c"
    have "dropWhile isWhiteSpace s = []"
    proof (rule ccontr)
      assume ne: "dropWhile isWhiteSpace s \<noteq> []"
      then have "\<not> isWhiteSpace (hd (dropWhile isWhiteSpace s))" by (rule hd_dropWhile)
      moreover have "hd (dropWhile isWhiteSpace s) \<in> set (dropWhile isWhiteSpace s)"
        using ne by simp
      ultimately show False using a by blast
    qed
    then show "\<forall>c \<in> set s. isWhiteSpace c" by (simp add: dropWhile_eq_Nil_conv)
  next
    assume "\<forall>c \<in> set s. isWhiteSpace c"
    then show "\<forall>c \<in> set (dropWhile isWhiteSpace s). isWhiteSpace c"
      by (auto dest: set_dropWhileD)
  qed
  finally show ?thesis .
qed

lemma degenerate_iff:
  "degenerate expr \<longleftrightarrow> (\<forall>c \<in> set expr. isWhiteSpace c) \<or> trim expr = ''0''"
  by (auto simp: degenerate_def trim_empty_iff)

lemma integrateSymbolic_steps:
  assumes "\<not> degenerate expr" and "integrateSymbolic en expr k v = Inr r"
  shows "\<exists>integrated evaluatedAtZero.
           nerdamer en (''integrate('' @ expr @ '', '' @ v @ '')'') [] = Inr integrated
         \<and> nerdamer en integrated [(''tau'', ''0'')] = Inr evaluatedAtZero
         \<and> nerdamer en (integrated @ '' - ('' @ evaluatedAtZero @ '') + ('' @ toString en k
              @ '')'') [] = Inr r"
  using assms by (auto simp: integrateSymbolic_def split: sum.splits)

text \<open>For a degenerate input (empty, white space only, or \<^verbatim>\<open>0\<close> with white space
  around it) \<^verbatim>\<open>integrateSymbolic\<close> returns the literal of the constant and
  \<^verbatim>\<open>deriveSymbolic\<close> returns \<^verbatim>\<open>0\<close>, whatever the engine would do.\<close>

lemma degenerate_short_circuit:
  assumes "(\<forall>c \<in> set expr. isWhiteSpace c) \<or> trim expr = ''0''"
  shows "integrateSymbolic (en\<lparr> nerdamer := f \<rparr>) expr k v = Inr (toString en k)"
    and "deriveSymbolic (en\<lparr> nerdamer := f \<rparr>) expr v = Inr ''0''"
  using assms by (simp_all add: integrateSymbolic_def deriveSymbolic_def degenerate_iff)

subsection \<open>Rounding to a double\<close>

lemma bitlen_eqI:
  assumes "2 ^ k \<le> n" and "n < 2 ^ (k + 1)"
  shows "bitlen n = int k + 1"
proof (rule antisym)
  show "bitlen n \<le> int k + 1"
    using assms(2) by (simp add: bitlen_le_iff_power nat_add_distrib)
  show "int k + 1 \<le> bitlen n"
    using assms(1) by (simp add: bitlen_ge_iff_power nat_add_distrib)
qed

lemma binade_eqI:
  assumes lo: "2 powi e \<le> \<bar>x\<bar>" and hi: "\<bar>x\<bar> < 2 powi (e + 1)"
  shows "binade x = e"
proof (cases "0 \<le> e")
  case True
  define k where "k = nat e"
  have e: "e = int k" using True by (simp add: k_def)
  have lo': "2 ^ k \<le> \<bar>x\<bar>" using lo by (simp add: e)
  have hi': "\<bar>x\<bar> < 2 ^ (k + 1)" using hi by (simp add: e power_int_add)
  have one: "1 \<le> \<bar>x\<bar>" using lo' one_le_power [of "2::real" k] by linarith
  have "(2::int) ^ k \<le> \<lfloor>\<bar>x\<bar>\<rfloor>"
    using lo' by (simp add: le_floor_iff)
  moreover have "\<lfloor>\<bar>x\<bar>\<rfloor> < (2::int) ^ (k + 1)"
    using hi' by (simp add: floor_less_iff)
  ultimately have "bitlen \<lfloor>\<bar>x\<bar>\<rfloor> = int k + 1" by (rule bitlen_eqI)
  then show ?thesis using one by (simp add: binade_def e)
next
  case False
  define k where "k = nat (- e) - 1"
  have e: "e = - int (k + 1)" using False by (simp add: k_def)
  have pos: "0 < \<bar>x\<bar>"
    using lo zero_less_power_int [of "2::real" e] by linarith
  have "(2::real) powi (- int (k + 1)) = inverse (2 ^ (k + 1))"
    by (simp only: power_int_minus power_int_of_nat)
  then have p1: "(2::real) powi e = 1 / 2 ^ (k + 1)"
    unfolding e by (simp only: inverse_eq_divide)
  have "(2::real) powi (- int k) = inverse (2 ^ k)"
    by (simp only: power_int_minus power_int_of_nat)
  moreover have "e + 1 = - int k" by (simp add: e)
  ultimately have p2: "(2::real) powi (e + 1) = 1 / 2 ^ k"
    by (simp only: inverse_eq_divide)
  have lo': "1 / 2 ^ (k + 1) \<le> \<bar>x\<bar>"
    using lo unfolding p1 .
  have hi': "\<bar>x\<bar> < 1 / 2 ^ k"
    using hi unfolding p2 .
  have lt1: "\<not> 1 \<le> \<bar>x\<bar>"
  proof -
    have "1 / 2 ^ k \<le> (1::real)" by (simp add: field_simps)
    then show ?thesis using hi' by linarith
  qed
  have upper: "1 / \<bar>x\<bar> \<le> 2 ^ (k + 1)"
    using lo' pos by (simp add: field_simps del: power_Suc)
  have lower: "2 ^ k < 1 / \<bar>x\<bar>"
    using hi' pos by (simp add: field_simps)
  have "\<lceil>1 / \<bar>x\<bar>\<rceil> \<le> (2::int) ^ (k + 1)"
    using upper by (simp add: ceiling_le_iff del: power_Suc)
  then have a: "\<lceil>1 / \<bar>x\<bar>\<rceil> - 1 < (2::int) ^ (k + 1)" by simp
  have "(2::int) ^ k < \<lceil>1 / \<bar>x\<bar>\<rceil>"
    using lower by (simp add: less_ceiling_iff)
  then have b: "(2::int) ^ k \<le> \<lceil>1 / \<bar>x\<bar>\<rceil> - 1" by simp
  from b a have "bitlen (\<lceil>1 / \<bar>x\<bar>\<rceil> - 1) = int k + 1" by (rule bitlen_eqI)
  then show ?thesis using lt1 by (simp add: binade_def e)
qed

lemma roundEven_eqI:
  assumes "\<bar>y - of_int m\<bar> < 1 / 2"
  shows "roundEven y = m"
proof (cases "of_int m \<le> y")
  case True
  then have "\<lfloor>y\<rfloor> = m" using assms by (intro floor_unique) (auto simp: abs_less_iff)
  then show ?thesis using assms True by (simp add: roundEven_def Let_def abs_less_iff)
next
  case False
  then have "\<lfloor>y\<rfloor> = m - 1" using assms by (intro floor_unique) (auto simp: abs_less_iff)
  then show ?thesis using assms False by (simp add: roundEven_def Let_def abs_less_iff)
qed


lemma binary64_zero: "binary64 0 = Fin 0"
  by (simp add: binary64_def)

lemma binary64_eqI:
  fixes y :: real and m e :: int
  assumes e: "- 1022 \<le> e"
    and lo: "2 powi e \<le> \<bar>y\<bar>" and hi: "\<bar>y\<bar> < 2 powi (e + 1)"
    and close: "\<bar>y - of_int m * 2 powi (e - 52)\<bar> < 2 powi (e - 53)"
    and finite: "\<bar>of_int m * 2 powi (e - 52) :: real\<bar> < 2 powi 1024"
  shows "binary64 y = Fin (of_int m * 2 powi (e - 52))"
proof -
  define u :: real where "u = 2 powi (e - 52)"
  have u_pos: "0 < u" by (simp add: u_def)
  have half: "2 powi (e - 53) = u / 2"
    using power_int_add [of "2::real" "e - 53" 1] by (simp add: u_def)
  have "0 < (2::real) powi e" by simp
  then have "0 < \<bar>y\<bar>" using lo by linarith
  then have y_nz: "y \<noteq> 0" by simp
  have bin: "binade y = e" using lo hi by (rule binade_eqI)
  have "y / u - of_int m = (y - of_int m * u) / u"
    using u_pos by (simp add: field_simps)
  then have "\<bar>y / u - of_int m\<bar> = \<bar>y - of_int m * u\<bar> / \<bar>u\<bar>"
    by (simp only: abs_divide)
  also have "\<dots> = \<bar>y - of_int m * u\<bar> / u"
    using u_pos by simp
  also have "\<dots> < 1 / 2"
    using close u_pos unfolding half u_def [symmetric] by (simp add: field_simps)
  finally have rnd: "roundEven (y / u) = m" by (rule roundEven_eqI)
  have no_overflow: "\<not> 2 powi 1024 \<le> \<bar>of_int m * u\<bar>"
    using finite unfolding u_def by simp
  show ?thesis
    using y_nz e no_overflow
    by (simp add: binary64_def bin Let_def u_def [symmetric] rnd max_def)
qed

lemma roundEven_tieI:
  assumes "\<bar>y - of_int m\<bar> = 1 / 2" and "even m"
  shows "roundEven y = m"
proof (cases "of_int m \<le> y")
  case True
  then have y: "y = of_int m + 1 / 2" using assms(1) by linarith
  then have "\<lfloor>y\<rfloor> = m" by (intro floor_unique) auto
  then show ?thesis using y assms(2) by (simp add: roundEven_def Let_def)
next
  case False
  then have y: "y = of_int m - 1 / 2" using assms(1) by linarith
  then have "\<lfloor>y\<rfloor> = m - 1" by (intro floor_unique) auto
  then show ?thesis using y assms(2) by (simp add: roundEven_def Let_def)
qed

lemma binary64_tieI:
  fixes y :: real and m e :: int
  assumes e: "- 1022 \<le> e"
    and lo: "2 powi e \<le> \<bar>y\<bar>" and hi: "\<bar>y\<bar> < 2 powi (e + 1)"
    and tie: "\<bar>y - of_int m * 2 powi (e - 52)\<bar> = 2 powi (e - 53)" and even: "even m"
    and finite: "\<bar>of_int m * 2 powi (e - 52) :: real\<bar> < 2 powi 1024"
  shows "binary64 y = Fin (of_int m * 2 powi (e - 52))"
proof -
  define u :: real where "u = 2 powi (e - 52)"
  have u_pos: "0 < u" by (simp add: u_def)
  have half: "2 powi (e - 53) = u / 2"
    using power_int_add [of "2::real" "e - 53" 1] by (simp add: u_def)
  have "0 < (2::real) powi e" by simp
  then have "0 < \<bar>y\<bar>" using lo by linarith
  then have y_nz: "y \<noteq> 0" by simp
  have bin: "binade y = e" using lo hi by (rule binade_eqI)
  have "y / u - of_int m = (y - of_int m * u) / u"
    using u_pos by (simp add: field_simps)
  then have "\<bar>y / u - of_int m\<bar> = \<bar>y - of_int m * u\<bar> / \<bar>u\<bar>"
    by (simp only: abs_divide)
  also have "\<dots> = \<bar>y - of_int m * u\<bar> / u"
    using u_pos by simp
  also have "\<dots> = 1 / 2"
    using tie u_pos unfolding half u_def [symmetric] by (simp add: field_simps)
  finally have rnd: "roundEven (y / u) = m" using even by (rule roundEven_tieI)
  have no_overflow: "\<not> 2 powi 1024 \<le> \<bar>of_int m * u\<bar>"
    using finite unfolding u_def by simp
  show ?thesis
    using y_nz e no_overflow
    by (simp add: binary64_def bin Let_def u_def [symmetric] rnd max_def)
qed

lemma binary64_sqrt:
  fixes x :: real and m e :: int
  assumes m: "2 ^ 52 < m" "m < 2 ^ 53"
    and e: "- 1022 \<le> e" "e \<le> 1023"
    and lo: "(of_int m * 2 powi (e - 52) - 2 powi (e - 53))\<^sup>2 < x"
    and hi: "x < (of_int m * 2 powi (e - 52) + 2 powi (e - 53))\<^sup>2"
  shows "binary64 (sqrt x) = Fin (of_int m * 2 powi (e - 52))"
proof -
  define u :: real where "u = 2 powi (e - 52)"
  define d :: real where "d = of_int m * u"
  have u_pos: "0 < u" by (simp add: u_def)
  have half: "2 powi (e - 53) = u / 2"
    using power_int_add [of "2::real" "e - 53" 1] by (simp add: u_def)
  have two_e: "2 powi e = 2 ^ 52 * u"
    using power_int_add [of "2::real" "e - 52" 52] by (simp add: u_def algebra_simps)
  have two_e1: "2 powi (e + 1) = 2 ^ 53 * u"
    using power_int_add [of "2::real" "e - 52" 53] by (simp add: u_def algebra_simps)
  have m_lo: "(2 ^ 52 + 1) * u \<le> d"
  proof -
    have "2 ^ 52 + 1 \<le> m" using m(1) by simp
    then have "(of_int (2 ^ 52 + 1) :: real) \<le> of_int m" by (simp only: of_int_le_iff)
    then have "(2 ^ 52 + 1 :: real) \<le> of_int m" by simp
    then show ?thesis unfolding d_def using u_pos by (intro mult_right_mono) auto
  qed
  have m_hi: "d \<le> (2 ^ 53 - 1) * u"
  proof -
    have "m \<le> 2 ^ 53 - 1" using m(2) by simp
    then have "(of_int m :: real) \<le> of_int (2 ^ 53 - 1)" by (simp only: of_int_le_iff)
    then have "of_int m \<le> (2 ^ 53 - 1 :: real)" by simp
    then show ?thesis unfolding d_def using u_pos by (intro mult_right_mono) auto
  qed
  have "d - u / 2 < sqrt x"
    using lo unfolding half u_def [symmetric] d_def [symmetric] by (rule real_less_rsqrt)
  moreover have "sqrt x < d + u / 2"
  proof (rule real_less_lsqrt)
    show "0 \<le> d + u / 2" using m_lo u_pos by (simp add: algebra_simps)
    show "x < (d + u / 2)\<^sup>2"
      using hi unfolding half u_def [symmetric] d_def [symmetric] .
  qed
  ultimately have near: "d - u / 2 < sqrt x" "sqrt x < d + u / 2" by auto
  have y_lo: "2 powi e \<le> sqrt x"
    unfolding two_e using near(1) m_lo u_pos by (simp add: algebra_simps)
  have y_hi: "sqrt x < 2 powi (e + 1)"
    unfolding two_e1 using near(2) m_hi u_pos by (simp add: algebra_simps)
  have y_pos: "0 < sqrt x" using y_lo zero_less_power_int [of "2::real" e] by linarith
  have d_pos: "0 < d" using m_lo u_pos by (simp add: algebra_simps)
  have "d < 2 powi (e + 1)" using m_hi u_pos unfolding two_e1 by (simp add: algebra_simps)
  also have "\<dots> \<le> 2 powi 1024" using e(2) by (intro power_int_increasing) auto
  finally have fin: "\<bar>d\<bar> < 2 powi 1024" using d_pos by simp
  show ?thesis
  proof (rule binary64_eqI)
    show "- 1022 \<le> e" by (rule e(1))
    show "2 powi e \<le> \<bar>sqrt x\<bar>" using y_lo y_pos by simp
    show "\<bar>sqrt x\<bar> < 2 powi (e + 1)" using y_hi y_pos by simp
    show "\<bar>sqrt x - of_int m * 2 powi (e - 52)\<bar> < 2 powi (e - 53)"
      using near unfolding half d_def u_def by linarith
    show "\<bar>of_int m * 2 powi (e - 52) :: real\<bar> < 2 powi 1024"
      using fin unfolding d_def u_def by simp
  qed
qed

text \<open>The model against what is known of doubles: the exponent is the integer part of
  the binary logarithm, a number with a 53-bit significand is its own rounding, a
  tie goes to the even significand, and the ends of the range behave as in IEEE 754.\<close>

lemma binade_floor_log:
  assumes "x \<noteq> 0"
  shows "binade x = \<lfloor>log 2 \<bar>x\<bar>\<rfloor>"
proof (rule binade_eqI)
  have pos: "0 < \<bar>x\<bar>" using assms by simp
  have p2: "2 powr real_of_int n = 2 powi n" for n
    by (rule powr_real_of_int') auto
  have "2 powr (of_int \<lfloor>log 2 \<bar>x\<bar>\<rfloor>) \<le> 2 powr (log 2 \<bar>x\<bar>)"
    by (intro powr_mono) auto
  then show "2 powi \<lfloor>log 2 \<bar>x\<bar>\<rfloor> \<le> \<bar>x\<bar>"
    using pos by (simp add: p2)
  have "2 powr (log 2 \<bar>x\<bar>) < 2 powr (of_int (\<lfloor>log 2 \<bar>x\<bar>\<rfloor> + 1))"
    by (intro powr_less_mono) auto
  then have "\<bar>x\<bar> < 2 powr (of_int (\<lfloor>log 2 \<bar>x\<bar>\<rfloor> + 1))"
    using pos by simp
  then show "\<bar>x\<bar> < 2 powi (\<lfloor>log 2 \<bar>x\<bar>\<rfloor> + 1)"
    by (simp only: p2)
qed

lemma binary64_representable:
  fixes m e :: int
  assumes m: "2 ^ 52 \<le> \<bar>m\<bar>" "\<bar>m\<bar> < 2 ^ 53" and e: "- 1022 \<le> e" "e \<le> 1023"
  shows "binary64 (of_int m * 2 powi (e - 52)) = Fin (of_int m * 2 powi (e - 52))"
proof (rule binary64_eqI)
  define u :: real where "u = 2 powi (e - 52)"
  have u_pos: "0 < u" by (simp add: u_def)
  have two_e: "2 powi e = 2 ^ 52 * u"
    using power_int_add [of "2::real" "e - 52" 52] by (simp add: u_def algebra_simps)
  have two_e1: "2 powi (e + 1) = 2 ^ 53 * u"
    using power_int_add [of "2::real" "e - 52" 53] by (simp add: u_def algebra_simps)
  have abs_eq: "\<bar>of_int m * u\<bar> = of_int \<bar>m\<bar> * u" using u_pos by (simp add: abs_mult)
  have "(of_int (2 ^ 52) :: real) \<le> of_int \<bar>m\<bar>" using m(1) by (simp only: of_int_le_iff)
  then have lo: "2 ^ 52 * u \<le> of_int \<bar>m\<bar> * u" using u_pos by (intro mult_right_mono) auto
  have "(of_int \<bar>m\<bar> :: real) < of_int (2 ^ 53)" using m(2) by (simp only: of_int_less_iff)
  then have hi: "of_int \<bar>m\<bar> * u < 2 ^ 53 * u" using u_pos by (intro mult_strict_right_mono) auto
  show "- 1022 \<le> e" by (rule e(1))
  show "2 powi e \<le> \<bar>real_of_int m * 2 powi (e - 52)\<bar>"
    using lo by (simp only: two_e abs_eq flip: u_def)
  show "\<bar>real_of_int m * 2 powi (e - 52)\<bar> < 2 powi (e + 1)"
    using hi by (simp only: two_e1 abs_eq flip: u_def)
  show "\<bar>real_of_int m * 2 powi (e - 52) - real_of_int m * 2 powi (e - 52)\<bar> < (2::real) powi (e - 53)"
    by simp
  have "\<bar>of_int m * u\<bar> < 2 powi (e + 1)"
    using hi unfolding two_e1 abs_eq .
  also have "\<dots> \<le> 2 powi 1024" using e(2) by (intro power_int_increasing) auto
  finally show "\<bar>real_of_int m * 2 powi (e - 52)\<bar> < 2 powi 1024"
    by (simp only: u_def)
qed

lemma binary64_tenth: "binary64 (1 / 10) = Fin (3602879701896397 / 36028797018963968)"
  using binary64_eqI [where y = "1 / 10" and m = 7205759403792794 and e = "- 4"]
  by (simp add: power_int_minus)

lemma binary64_tie_down: "binary64 (1 + 1 / 2 ^ 53) = Fin 1"
  using binary64_tieI [where y = "1 + 1 / 2 ^ 53" and m = "2 ^ 52" and e = 0]
  by (simp add: power_int_minus)

lemma binary64_tie_up: "binary64 (1 + 3 / 2 ^ 53) = Fin (1 + 1 / 2 ^ 51)"
  using binary64_tieI [where y = "1 + 3 / 2 ^ 53" and m = "2 ^ 52 + 2" and e = 0]
  by (simp add: power_int_minus)

lemma binary64_unfold:
  assumes "x \<noteq> 0" and "binade x = b" and "max b (- 1022) = e"
    and "roundEven (x / 2 powi (e - 52)) = m"
  shows "binary64 x =
    (if 2 powi 1024 \<le> \<bar>of_int m * 2 powi (e - 52) :: real\<bar>
     then (if 0 < x then PInf else NInf) else Fin (of_int m * 2 powi (e - 52)))"
  using assms by (simp only: binary64_def Let_def if_False)

lemma binary64_overflow: "binary64 (2 ^ 1024) = PInf"
proof -
  have b: "binade (2 ^ 1024) = 1024"
    by (rule binade_eqI) (simp_all add: power_int_add)
  have r: "roundEven (2 ^ 1024 / 2 powi (1024 - 52)) = 2 ^ 52"
    by (rule roundEven_eqI) simp
  have "(2::real) ^ 1024 \<noteq> 0" by simp
  from binary64_unfold [OF this b _ r] show ?thesis by simp
qed

lemma binary64_underflow: "binary64 (1 / 2 ^ 1075) = Fin 0"
proof -
  have b: "binade (1 / 2 ^ 1075) = - 1075"
    by (rule binade_eqI) (simp_all add: power_int_minus)
  have r: "roundEven (1 / 2 ^ 1075 / 2 powi (- 1022 - 52)) = 0"
    by (rule roundEven_tieI) (simp_all add: power_int_minus)
  have "(1::real) / 2 ^ 1075 \<noteq> 0" by simp
  from binary64_unfold [OF this b _ r] show ?thesis by simp
qed

lemma binary64_subnormal_tie: "binary64 (3 / 2 ^ 1075) = Fin (1 / 2 ^ 1073)"
proof -
  have b: "binade (3 / 2 ^ 1075) = - 1074"
    by (rule binade_eqI) (simp_all add: power_int_minus)
  have r: "roundEven (3 / 2 ^ 1075 / 2 powi (- 1022 - 52)) = 2"
    by (rule roundEven_tieI) (simp_all add: power_int_minus)
  have "(3::real) / 2 ^ 1075 \<noteq> 0" by simp
  from binary64_unfold [OF this b _ r] show ?thesis by (simp add: power_int_minus)
qed

subsection \<open>The causality validator on doubles\<close>

text \<open>The tachyonic 4-velocity \<open>(0.5, 1.5, 0, 0)\<close> in double precision: every intermediate
  value is a double, the Minkowski square is exactly 2 and the vector is rejected by the
  normalisation test.\<close>

lemma binary64_quarter: "binary64 (1 / 4) = Fin (1 / 4)"
  using binary64_representable [of "2 ^ 52" "- 2"] by (simp add: power_int_minus)

lemma binary64_nine_quarters: "binary64 (9 / 4) = Fin (9 / 4)"
  using binary64_representable [of "9 * 2 ^ 49" 1] by (simp add: power_int_minus)

lemma binary64_two: "binary64 2 = Fin 2"
  using binary64_representable [of "2 ^ 52" 1] by (simp add: power_int_minus)

lemma binary64_three: "binary64 3 = Fin 3"
  using binary64_representable [of "3 * 2 ^ 51" 1] by (simp add: power_int_minus)

lemma binary64_tolerance:
  "binary64 (1 / 10000) = Fin (7378697629483821 / 2 ^ 66)"
  using binary64_eqI [where y = "1 / 10000" and m = 7378697629483821 and e = "- 14"]
  by (simp add: power_int_minus)

lemma validateCausality_tachyon_binary64:
  "validateCausality binary64 sample_toFixed4 (Vec4 (Fin (1 / 2)) (Fin (3 / 2)) (Fin 0) (Fin 0))
     = \<lparr> isValid = False,
         reason = Some (''4-velocity invariant U^mu U_mu must equal -1, but got ''
                    @ sample_toFixed4 (Fin 2)),
         U_squared = Fin 2, v_squared = Fin 0 \<rparr>"
  by (simp add: validateCausality_def magnitudeSquared_def Let_def num_lit_def num_sub_def power2_eq_square
      binary64_zero binary64_quarter binary64_nine_quarters binary64_two binary64_three
      binary64_tolerance)

lemma binade_le_abs:
  assumes "x \<noteq> 0"
  shows "2 powi binade x \<le> \<bar>x\<bar>"
proof -
  have pos: "0 < \<bar>x\<bar>" using assms by simp
  have "2 powr real_of_int \<lfloor>log 2 \<bar>x\<bar>\<rfloor> = 2 powi \<lfloor>log 2 \<bar>x\<bar>\<rfloor>"
    by (rule powr_real_of_int') auto
  moreover have "2 powr (of_int \<lfloor>log 2 \<bar>x\<bar>\<rfloor>) \<le> 2 powr (log 2 \<bar>x\<bar>)"
    by (intro powr_mono) auto
  ultimately show ?thesis
    using pos by (simp add: binade_floor_log [OF assms])
qed

lemma roundEven_ge_floor: "\<lfloor>y\<rfloor> \<le> roundEven y"
  by (simp add: roundEven_def Let_def)

text \<open>Rounding never takes a number from 1 upwards below 1.\<close>

lemma binary64_ge_one:
  assumes "1 \<le> x"
  shows "num_le (Fin 1) (binary64 x)"
proof -
  define e where "e = binade x"
  define u :: real where "u = 2 powi (e - 52)"
  define m where "m = roundEven (x / u)"
  have x: "x \<noteq> 0" "0 < x" "\<bar>x\<bar> = x" using assms by simp_all
  have "0 \<le> log 2 x" using assms by simp
  then have e0: "0 \<le> e" unfolding e_def binade_floor_log [OF x(1)] x(3) by simp
  then have emax: "max e (- 1022) = e" by simp
  have u_pos: "0 < u" by (simp add: u_def)
  have two_e: "2 powi e = 2 ^ 52 * u"
    using power_int_add [of "2::real" "e - 52" 52] by (simp add: u_def algebra_simps)
  have "2 ^ 52 * u \<le> x" using binade_le_abs [OF x(1)] unfolding e_def [symmetric] two_e x(3) .
  then have "2 ^ 52 \<le> x / u" using u_pos by (simp add: pos_le_divide_eq)
  then have "(2 ^ 52 :: int) \<le> \<lfloor>x / u\<rfloor>" by (simp add: le_floor_iff)
  then have "(2 ^ 52 :: int) \<le> m" using roundEven_ge_floor [of "x / u"] unfolding m_def by linarith
  then have "(of_int (2 ^ 52) :: real) \<le> of_int m" by (simp only: of_int_le_iff)
  then have "2 ^ 52 * u \<le> of_int m * u" using u_pos by (intro mult_right_mono) auto
  moreover have "(1::real) \<le> 2 powi e" using e0 by (simp add: one_le_power_int)
  ultimately have r: "1 \<le> of_int m * u" unfolding two_e by linarith
  have "binary64 x =
    (if 2 powi 1024 \<le> \<bar>of_int m * 2 powi (e - 52) :: real\<bar>
     then (if 0 < x then PInf else NInf) else Fin (of_int m * 2 powi (e - 52)))"
    by (rule binary64_unfold [OF x(1) e_def [symmetric] emax]) (simp add: m_def u_def)
  then show ?thesis using r x(2) by (simp add: u_def)
qed

lemma positive_square_rejected:
  assumes "num_lt (Fin 0) (magnitudeSquared binary64 U)"
  shows "\<not> isValid (validateCausality binary64 fmt U)"
proof -
  have far: "num_lt (num_lit binary64 (1 / 10 ^ 4))
      (Math_abs (num_sub binary64 (magnitudeSquared binary64 U) (num_neg (Fin 1))))"
  proof (cases "magnitudeSquared binary64 U")
    case (Fin r)
    then have "0 < r" using assms by simp
    then have "num_le (Fin 1) (binary64 (r + 1))" by (intro binary64_ge_one) simp
    then show ?thesis
      by (cases "binary64 (r + 1)") (simp_all add: Fin num_sub_def num_lit_def binary64_tolerance)
  qed (use assms in \<open>simp_all add: num_sub_def num_lit_def binary64_tolerance\<close>)
  show ?thesis
    using far by (simp add: validateCausality_def Let_def)
qed

lemma c5a_r0: "binary64 (- 6291456) = Fin (- 6291456)"
  using binary64_eqI [where y = "- 6291456" and m = "- 6755399441055744" and e = "22"]
  by (simp add: power_int_minus)

lemma c5a_r1: "binary64 (- 1) = Fin (- 1)"
  using binary64_eqI [where y = "- 1" and m = "- 4503599627370496" and e = "0"]
  by (simp add: power_int_minus)

lemma c5a_r2: "binary64 (217848471508746462003299688121 / 356811923176489970264571492362373784095686656) = Fin (3095812978539619 / 5070602400912917605986812821504)"
  using binary64_eqI [where y = "217848471508746462003299688121 / 356811923176489970264571492362373784095686656" and m = "6191625957079238" and e = "- 51"]
  by (simp add: power_int_minus)

lemma c5a_r3: "binary64 (1 / 10000000000) = Fin (7737125245533627 / 77371252455336267181195264)"
  using binary64_eqI [where y = "1 / 10000000000" and m = "7737125245533627" and e = "- 34"]
  by (simp add: power_int_minus)

lemma c5a_r4: "binary64 (5515760108069805 / 223227548640177425481728) = Fin (466742403804011 / 18889465931478580854784)"
  using binary64_eqI [where y = "5515760108069805 / 223227548640177425481728" and m = "7467878460864176" and e = "- 26"]
  by (simp add: power_int_minus)

lemma c5a_r5: "binary64 (1 / 10000) = Fin (7378697629483821 / 73786976294838206464)"
  using binary64_eqI [where y = "1 / 10000" and m = "7378697629483821" and e = "- 14"]
  by (simp add: power_int_minus)

lemma c5a_r6: "binary64 (81129638414606627652593476698121 / 81129638414606681695789005144064) = Fin (4503599627370493 / 4503599627370496)"
  using binary64_eqI [where y = "81129638414606627652593476698121 / 81129638414606681695789005144064" and m = "9007199254740986" and e = "- 1"]
  by (simp add: power_int_minus)

lemma c5a_r7: "binary64 (3326349685194751 / 3326349685194752) = Fin (9007199254740989 / 9007199254740992)"
  using binary64_eqI [where y = "3326349685194751 / 3326349685194752" and m = "9007199254740989" and e = "- 1"]
  by (simp add: power_int_minus)

lemma c5a_r8: "binary64 (9007199254740991 / 9007199254740992) = Fin (9007199254740991 / 9007199254740992)"
  using binary64_eqI [where y = "9007199254740991 / 9007199254740992" and m = "9007199254740991" and e = "- 1"]
  by (simp add: power_int_minus)

lemma c5a_r9: "binary64 (5070602400912917324100070833251 / 5070602400912917605986812821504) = Fin (9007199254740991 / 9007199254740992)"
  using binary64_eqI [where y = "5070602400912917324100070833251 / 5070602400912917605986812821504" and m = "9007199254740991" and e = "- 1"]
  by (simp add: power_int_minus)

lemma c5a_r10: "binary64 (30423609569774226932682752738025 / 4835703278458516698824704) = Fin (6291455)"
  using binary64_eqI [where y = "30423609569774226932682752738025 / 4835703278458516698824704" and m = "6755398367313920" and e = "22"]
  by (simp add: power_int_minus)

lemma c5a_r11: "binary64 (11064602228195219080044797952001 / 1073741824) = Fin (10304713834258931646464)"
  using binary64_eqI [where y = "11064602228195219080044797952001 / 1073741824" and m = "4913670460824457" and e = "73"]
  by (simp add: power_int_minus)

lemma c5a_r12: "binary64 (10304713834258937959321) = Fin (10304713834258937937920)"
  using binary64_eqI [where y = "10304713834258937959321" and m = "4913670460824460" and e = "73"]
  by (simp add: power_int_minus)

lemmas c5a_facts = binary64_zero c5a_r0 c5a_r1 c5a_r2 c5a_r3 c5a_r4 c5a_r5 c5a_r6 c5a_r7 c5a_r8 c5a_r9 c5a_r10 c5a_r11 c5a_r12

lemma c5b_r0: "binary64 (- (19594429646882539 / 4)) = Fin (- 4898607411720635)"
  using binary64_eqI [where y = "- (19594429646882539 / 4)" and m = "- 4898607411720635" and e = "52"]
  by (simp add: power_int_minus)

lemma c5b_r1: "binary64 (- 1) = Fin (- 1)"
  using binary64_eqI [where y = "- 1" and m = "- 4503599627370496" and e = "0"]
  by (simp add: power_int_minus)

lemma c5b_r2: "binary64 (1 / 10000000000) = Fin (7737125245533627 / 77371252455336267181195264)"
  using binary64_eqI [where y = "1 / 10000000000" and m = "7737125245533627" and e = "- 34"]
  by (simp add: power_int_minus)

lemma c5b_r3: "binary64 (1 / 10000) = Fin (7378697629483821 / 73786976294838206464)"
  using binary64_eqI [where y = "1 / 10000" and m = "7378697629483821" and e = "- 14"]
  by (simp add: power_int_minus)

lemma c5b_r4: "binary64 (4970534433012378116067493402561 / 20282409603651670423947251286016) = Fin (551840177222249 / 2251799813685248)"
  using binary64_eqI [where y = "4970534433012378116067493402561 / 20282409603651670423947251286016" and m = "8829442835555984" and e = "- 3"]
  by (simp add: power_int_minus)

lemma c5b_r5: "binary64 (5352215038419501 / 10811645197365730) = Fin (2229469540723169 / 4503599627370496)"
  using binary64_eqI [where y = "5352215038419501 / 10811645197365730" and m = "8917878162892676" and e = "- 2"]
  by (simp add: power_int_minus)

lemma c5b_r6: "binary64 (15311875170639294856919415666961 / 20282409603651670423947251286016) = Fin (6799838545851997 / 9007199254740992)"
  using binary64_eqI [where y = "15311875170639294856919415666961 / 20282409603651670423947251286016" and m = "6799838545851997" and e = "- 1"]
  by (simp add: power_int_minus)

lemma c5b_r7: "binary64 (4696952896725642 / 5405822598682865) = Fin (3913039122043031 / 4503599627370496)"
  using binary64_eqI [where y = "4696952896725642 / 5405822598682865" and m = "7826078244086062" and e = "- 1"]
  by (simp add: power_int_minus)

lemma c5b_r8: "binary64 (1) = Fin (1)"
  using binary64_eqI [where y = "1" and m = "4503599627370496" and e = "0"]
  by (simp add: power_int_minus)

lemma c5b_r9: "binary64 (9007199254740993 / 9007199254740992) = Fin (1)"
  using binary64_tieI [where y = "9007199254740993 / 9007199254740992" and m = "4503599627370496" and e = "0"]
  by (simp add: power_int_minus)

lemma c5b_r10: "binary64 (28646205817483860565488057089001 / 18014398509481984) = Fin (6360735453344337 / 4)"
  using binary64_eqI [where y = "28646205817483860565488057089001 / 18014398509481984" and m = "6360735453344337" and e = "50"]
  by (simp add: power_int_minus)

lemma c5b_r11: "binary64 (5515341628514849850811255078041 / 1125899906842624) = Fin (4898607411720634)"
  using binary64_eqI [where y = "5515341628514849850811255078041 / 1125899906842624" and m = "4898607411720634" and e = "52"]
  by (simp add: power_int_minus)

lemma c5b_r12: "binary64 (29222917968430363701232844608225 / 4503599627370496) = Fin (6488791275056719)"
  using binary64_eqI [where y = "29222917968430363701232844608225 / 4503599627370496" and m = "6488791275056719" and e = "52"]
  by (simp add: power_int_minus)

lemmas c5b_facts = binary64_zero c5b_r0 c5b_r1 c5b_r2 c5b_r3 c5b_r4 c5b_r5 c5b_r6 c5b_r7 c5b_r8 c5b_r9 c5b_r10 c5b_r11 c5b_r12

text \<open>
  Claim C5 as stated, refuted in double arithmetic: the 4-velocity
  \<^verbatim>\<open>[101512136389, 101512136389 - 2^-15, 2508.277297269981, 0]\<close>, three doubles and 0,
  has the Minkowski square \<open>+95645.89...\<close> and a 3-speed squared above 1, yet the validator
  computes \<open>U_squared = -1\<close> and \<open>v_squared = 1 - 2\<^sup>-\<^sup>5\<^sup>3\<close> and reports it valid: at this size
  the squares of the first two components are rounded to multiples of \<open>2\<^sup>2\<^sup>1\<close>.
\<close>

theorem validateCausality_accepts_rounded_tachyon:
  "validateCausality binary64 sample_toFixed4
     (Vec4 (Fin 101512136389) (Fin (3326349685194751 / 32768))
        (Fin (5515760108069805 / 2199023255552)) (Fin 0))
     = \<lparr> isValid = True, reason = None, U_squared = Fin (- 1),
         v_squared = Fin (9007199254740991 / 9007199254740992) \<rparr>
   \<and> binary64 (3326349685194751 / 32768) = Fin (3326349685194751 / 32768)
   \<and> binary64 (5515760108069805 / 2199023255552) = Fin (5515760108069805 / 2199023255552)
   \<and> 95645 < minkowskiSquare 101512136389 (3326349685194751 / 32768)
             (5515760108069805 / 2199023255552) 0
   \<and> 1 / 10 ^ 4 < \<bar>minkowskiSquare 101512136389 (3326349685194751 / 32768)
             (5515760108069805 / 2199023255552) 0 - (- 1)\<bar>
   \<and> 1 \<le> speedSquared 101512136389 (3326349685194751 / 32768)
             (5515760108069805 / 2199023255552) 0"
proof -
  have run: "validateCausality binary64 sample_toFixed4
     (Vec4 (Fin 101512136389) (Fin (3326349685194751 / 32768))
        (Fin (5515760108069805 / 2199023255552)) (Fin 0))
     = \<lparr> isValid = True, reason = None, U_squared = Fin (- 1),
         v_squared = Fin (9007199254740991 / 9007199254740992) \<rparr>"
    by (simp add: validateCausality_def magnitudeSquared_def extract3Velocity_def
        sumSquares3_def num_lit_def num_sub_def Let_def c5a_facts)
  have d1: "binary64 (3326349685194751 / 32768) = Fin (3326349685194751 / 32768)"
    using binary64_representable [of 6652699370389502 36] by (simp add: power_int_minus)
  have d2: "binary64 (5515760108069805 / 2199023255552)
      = Fin (5515760108069805 / 2199023255552)"
    using binary64_representable [of 5515760108069805 11] by (simp add: power_int_minus)
  have sq: "95645 < minkowskiSquare 101512136389 (3326349685194751 / 32768)
             (5515760108069805 / 2199023255552) 0"
    by (simp add: minkowskiSquare_def power2_eq_square)
  have sp: "1 \<le> speedSquared 101512136389 (3326349685194751 / 32768)
             (5515760108069805 / 2199023255552) 0"
    by (simp add: speedSquared_def power2_eq_square)
  show ?thesis
    using run d1 d2 sq sp by simp
qed

text \<open>The third test does decide in double arithmetic: at this 4-velocity the computed
  Minkowski square is \<open>-1\<close>, so the first two tests pass, and the computed 3-speed squared
  is 1.\<close>

lemma validateCausality_speed_test_decides:
  "validateCausality binary64 sample_toFixed4
     (Vec4 (Fin (5405822598682865 / 67108864)) (Fin (5352215038419501 / 134217728))
        (Fin (2348476448362821 / 33554432)) (Fin 0))
     = \<lparr> isValid = False,
         reason = Some (''Speed |v| must be strictly less than c (1), but got |v|^2 = ''
                    @ sample_toFixed4 (Fin 1)),
         U_squared = Fin (- 1), v_squared = Fin 1 \<rparr>"
  by (simp add: validateCausality_def magnitudeSquared_def extract3Velocity_def
      sumSquares3_def num_lit_def num_sub_def Let_def c5b_facts)



lemma magnitudeSquared_tachyon:
  "magnitudeSquared binary64 (Vec4 (Fin (1 / 2)) (Fin (3 / 2)) (Fin 0) (Fin 0)) = Fin 2"
  by (simp add: magnitudeSquared_def binary64_zero binary64_quarter binary64_nine_quarters
      binary64_two)

text \<open>
  Claim C5, amended. For every 4-velocity \<open>U\<close> and whatever the rounding,
  \<^verbatim>\<open>validateCausality\<close> applies three tests in this order to the values it computes:
  \<open>U0 < 0\<close>; the computed Minkowski square \<^verbatim>\<open>U_squared\<close> further than \<open>1e-4\<close> from \<open>-1\<close>;
  the computed 3-speed squared \<^verbatim>\<open>v_squared\<close>, the sum of the squared quotients
  \<open>Ui / U0\<close>, at least 1. It reports invalid exactly when one of them holds, and otherwise
  valid with the two computed values. In arithmetic without rounding these are the tests on
  the exact \<open>U\<cdot>U\<close> and \<open>(U1\<^sup>2 + U2\<^sup>2 + U3\<^sup>2) / U0\<^sup>2\<close>. In double arithmetic a computed
  Minkowski square above 0 is always rejected.
\<close>

theorem validateCausality_spec:
  "validateCausality rd fmt U =
     (if num_lt (vget U 0) (Fin 0) then
        \<lparr> isValid = False,
          reason = Some ''U^0 must be positive (particle moving forward in time)'',
          U_squared = magnitudeSquared rd U, v_squared = Fin 0 \<rparr>
      else if num_lt (num_lit rd (1 / 10 ^ 4))
                (Math_abs (num_sub rd (magnitudeSquared rd U) (Fin (- 1)))) then
        \<lparr> isValid = False,
          reason = Some (''4-velocity invariant U^mu U_mu must equal -1, but got ''
                     @ fmt (magnitudeSquared rd U)),
          U_squared = magnitudeSquared rd U, v_squared = Fin 0 \<rparr>
      else if num_le (Fin 1) (sumSquares3 rd (extract3Velocity rd U)) then
        \<lparr> isValid = False,
          reason = Some (''Speed |v| must be strictly less than c (1), but got |v|^2 = ''
                     @ fmt (sumSquares3 rd (extract3Velocity rd U))),
          U_squared = magnitudeSquared rd U,
          v_squared = sumSquares3 rd (extract3Velocity rd U) \<rparr>
      else
        \<lparr> isValid = True, reason = None,
          U_squared = magnitudeSquared rd U,
          v_squared = sumSquares3 rd (extract3Velocity rd U) \<rparr>)
   \<and> validateCausality exact fmt (Vec4 (Fin u0) (Fin u1) (Fin u2) (Fin u3)) =
     (if u0 < 0 then
        \<lparr> isValid = False,
          reason = Some ''U^0 must be positive (particle moving forward in time)'',
          U_squared = Fin (minkowskiSquare u0 u1 u2 u3), v_squared = Fin 0 \<rparr>
      else if 1 / 10 ^ 4 < \<bar>minkowskiSquare u0 u1 u2 u3 - (- 1)\<bar> then
        \<lparr> isValid = False,
          reason = Some (''4-velocity invariant U^mu U_mu must equal -1, but got ''
                     @ fmt (Fin (minkowskiSquare u0 u1 u2 u3))),
          U_squared = Fin (minkowskiSquare u0 u1 u2 u3), v_squared = Fin 0 \<rparr>
      else if 1 \<le> speedSquared u0 u1 u2 u3 then
        \<lparr> isValid = False,
          reason = Some (''Speed |v| must be strictly less than c (1), but got |v|^2 = ''
                     @ fmt (Fin (speedSquared u0 u1 u2 u3))),
          U_squared = Fin (minkowskiSquare u0 u1 u2 u3),
          v_squared = Fin (speedSquared u0 u1 u2 u3) \<rparr>
      else
        \<lparr> isValid = True, reason = None,
          U_squared = Fin (minkowskiSquare u0 u1 u2 u3),
          v_squared = Fin (speedSquared u0 u1 u2 u3) \<rparr>)
   \<and> (num_lt (Fin 0) (magnitudeSquared binary64 V)
        \<longrightarrow> \<not> isValid (validateCausality binary64 fmt V))"
proof (intro conjI impI)
  show "validateCausality rd fmt U =
     (if num_lt (vget U 0) (Fin 0) then
        \<lparr> isValid = False,
          reason = Some ''U^0 must be positive (particle moving forward in time)'',
          U_squared = magnitudeSquared rd U, v_squared = Fin 0 \<rparr>
      else if num_lt (num_lit rd (1 / 10 ^ 4))
                (Math_abs (num_sub rd (magnitudeSquared rd U) (Fin (- 1)))) then
        \<lparr> isValid = False,
          reason = Some (''4-velocity invariant U^mu U_mu must equal -1, but got ''
                     @ fmt (magnitudeSquared rd U)),
          U_squared = magnitudeSquared rd U, v_squared = Fin 0 \<rparr>
      else if num_le (Fin 1) (sumSquares3 rd (extract3Velocity rd U)) then
        \<lparr> isValid = False,
          reason = Some (''Speed |v| must be strictly less than c (1), but got |v|^2 = ''
                     @ fmt (sumSquares3 rd (extract3Velocity rd U))),
          U_squared = magnitudeSquared rd U,
          v_squared = sumSquares3 rd (extract3Velocity rd U) \<rparr>
      else
        \<lparr> isValid = True, reason = None,
          U_squared = magnitudeSquared rd U,
          v_squared = sumSquares3 rd (extract3Velocity rd U) \<rparr>)"
    by (simp add: validateCausality_def Let_def)
next
  assume "num_lt (Fin 0) (magnitudeSquared binary64 V)"
  then show "\<not> isValid (validateCausality binary64 fmt V)"
    by (rule positive_square_rejected)
qed (rule validateCausality_exact)

theorem validateCausality_spec_witness:
  "num_lt (Fin 0) (magnitudeSquared binary64 (Vec4 (Fin (1 / 2)) (Fin (3 / 2)) (Fin 0) (Fin 0)))
   \<and> isValid (validateCausality binary64 sample_toFixed4
         (Vec4 (Fin (1 / 2)) (Fin (3 / 2)) (Fin 0) (Fin 0))) = False
   \<and> U_squared (validateCausality binary64 sample_toFixed4
         (Vec4 (Fin (1 / 2)) (Fin (3 / 2)) (Fin 0) (Fin 0))) = Fin 2
   \<and> validateCausality exact sample_toFixed4 (Vec4 (Fin (1 / 2)) (Fin (3 / 2)) (Fin 0) (Fin 0))
       = \<lparr> isValid = False,
           reason = Some (''4-velocity invariant U^mu U_mu must equal -1, but got ''
                      @ sample_toFixed4 (Fin 2)),
           U_squared = Fin 2, v_squared = Fin 0 \<rparr>
   \<and> validateCausality exact sample_toFixed4 (Vec4 (Fin (5 / 4)) (Fin (3 / 4)) (Fin 0) (Fin 0))
       = \<lparr> isValid = True, reason = None, U_squared = Fin (- 1), v_squared = Fin (9 / 25) \<rparr>
   \<and> isValid (validateCausality exact sample_toFixed4 (Vec4 (Fin (- 1)) (Fin 0) (Fin 0) (Fin 0)))
       = False"
  using validateCausality_spec
      [where rd = binary64 and fmt = sample_toFixed4
         and U = "Vec4 (Fin (1 / 2)) (Fin (3 / 2)) (Fin 0) (Fin 0)"
         and V = "Vec4 (Fin (1 / 2)) (Fin (3 / 2)) (Fin 0) (Fin 0)"
         and ?u0.0 = "1 / 2" and ?u1.0 = "3 / 2" and ?u2.0 = 0 and ?u3.0 = 0]
    validateCausality_spec
      [where rd = binary64 and fmt = sample_toFixed4
         and U = "Vec4 (Fin (1 / 2)) (Fin (3 / 2)) (Fin 0) (Fin 0)"
         and V = "Vec4 (Fin (1 / 2)) (Fin (3 / 2)) (Fin 0) (Fin 0)"
         and ?u0.0 = "5 / 4" and ?u1.0 = "3 / 4" and ?u2.0 = 0 and ?u3.0 = 0]
    validateCausality_spec
      [where rd = binary64 and fmt = sample_toFixed4
         and U = "Vec4 (Fin (1 / 2)) (Fin (3 / 2)) (Fin 0) (Fin 0)"
         and V = "Vec4 (Fin (1 / 2)) (Fin (3 / 2)) (Fin 0) (Fin 0)"
         and ?u0.0 = "- 1" and ?u1.0 = 0 and ?u2.0 = 0 and ?u3.0 = 0]
  by (simp add: magnitudeSquared_tachyon minkowskiSquare_def speedSquared_def power2_eq_square)

subsection \<open>The boost in arithmetic without rounding\<close>

lemma sumSquares3_exact:
  "sumSquares3 exact (Vec3 (Fin a) (Fin b) (Fin c)) = Fin (a * a + b * b + c * c)"
  by (simp add: sumSquares3_def exact_simps)

lemma calculateGamma_exact:
  assumes "a * a + b * b + c * c < 1"
  shows "calculateGamma exact (Vec3 (Fin a) (Fin b) (Fin c))
           = Fin (1 / sqrt (1 - (a * a + b * b + c * c)))"
  using assms by (simp add: calculateGamma_def sumSquares3_exact exact_simps Let_def)

lemma getLorentzBoostMatrix_exact:
  assumes "1 / 10 ^ 10 \<le> a * a + b * b + c * c" and "a * a + b * b + c * c < 1"
  shows "getLorentzBoostMatrix exact (Vec3 (Fin a) (Fin b) (Fin c)) =
     mk4 (\<lambda>i. mk4 (\<lambda>j. Fin (boostReal a b c (a * a + b * b + c * c)
        (1 / sqrt (1 - (a * a + b * b + c * c))) i j)))"
proof -
  have "a * a + b * b + c * c \<noteq> 0" using assms(1) by auto
  then show ?thesis using assms
    by (simp add: getLorentzBoostMatrix_def sumSquares3_exact calculateGamma_exact
        boostEntry_def boostReal_def mk4_def exact_simps Let_def)
qed

lemma multiply_exact:
  "multiply exact (mk4 (\<lambda>i. mk4 (\<lambda>j. Fin (A i j)))) (mk4 (\<lambda>i. mk4 (\<lambda>j. Fin (B i j)))) =
     mk4 (\<lambda>i. mk4 (\<lambda>j. Fin (A i 0 * B 0 j + A i 1 * B 1 j + A i 2 * B 2 j + A i 3 * B 3 j)))"
  by (simp add: multiply_def mk4_def exact_simps)

lemma boost_inverse_real:
  fixes a b c g v2 :: real
  assumes gg: "g * g * (1 - v2) = 1" and v2: "a * a + b * b + c * c = v2" and ne: "v2 \<noteq> 0"
  shows "mk4 (\<lambda>i. mk4 (\<lambda>j. Fin
          (boostReal a b c v2 g i 0 * boostReal (- a) (- b) (- c) v2 g 0 j
         + boostReal a b c v2 g i 1 * boostReal (- a) (- b) (- c) v2 g 1 j
         + boostReal a b c v2 g i 2 * boostReal (- a) (- b) (- c) v2 g 2 j
         + boostReal a b c v2 g i 3 * boostReal (- a) (- b) (- c) v2 g 3 j))) = identity4"
  using ne
  apply (simp add: mk4_def identity4_def boostReal_def field_simps)
  apply (intro conjI)
  using gg v2
  apply algebra+
  done


lemma gamma_square:
  fixes v2 :: real
  assumes "v2 < 1"
  shows "1 / sqrt (1 - v2) * (1 / sqrt (1 - v2)) * (1 - v2) = 1"
proof -
  have "0 < 1 - v2" using assms by simp
  then have "sqrt (1 - v2) * sqrt (1 - v2) = 1 - v2" by simp
  moreover have "sqrt (1 - v2) \<noteq> 0" using \<open>0 < 1 - v2\<close> by simp
  ultimately show ?thesis by (simp add: field_simps)
qed

lemma multiply_identity_exact: "multiply exact identity4 identity4 = identity4"
  by (simp add: multiply_def identity4_def mk4_def exact_simps)

lemma exact_boost_reversible:
  assumes "vx * vx + vy * vy + vz * vz < 1"
  shows "multiply exact
           (getLorentzBoostMatrix exact (Vec3 (Fin vx) (Fin vy) (Fin vz)))
           (getLorentzBoostMatrix exact (negate3 (Vec3 (Fin vx) (Fin vy) (Fin vz))))
         = identity4"
proof (cases "vx * vx + vy * vy + vz * vz < 1 / 10 ^ 10")
  case True
  then show ?thesis
    by (simp add: getLorentzBoostMatrix_def sumSquares3_exact multiply_identity_exact
        negate3_def exact_simps Let_def)
next
  case False
  let ?v2 = "vx * vx + vy * vy + vz * vz"
  let ?g = "1 / sqrt (1 - ?v2)"
  have big: "1 / 10 ^ 10 \<le> ?v2" using False by simp
  then have ne: "?v2 \<noteq> 0" by auto
  have big': "1 / 10 ^ 10 \<le> - vx * - vx + - vy * - vy + - vz * - vz" using big by simp
  have small': "- vx * - vx + - vy * - vy + - vz * - vz < 1" using assms by simp
  have L1: "getLorentzBoostMatrix exact (Vec3 (Fin vx) (Fin vy) (Fin vz)) =
      mk4 (\<lambda>i. mk4 (\<lambda>j. Fin (boostReal vx vy vz ?v2 ?g i j)))"
    by (rule getLorentzBoostMatrix_exact [OF big assms])
  have L2: "getLorentzBoostMatrix exact (negate3 (Vec3 (Fin vx) (Fin vy) (Fin vz))) =
      mk4 (\<lambda>i. mk4 (\<lambda>j. Fin (boostReal (- vx) (- vy) (- vz) ?v2 ?g i j)))"
    using getLorentzBoostMatrix_exact [OF big' small'] by (simp add: negate3_def)
  show ?thesis
    unfolding L1 L2 multiply_exact
    by (rule boost_inverse_real [OF gamma_square [OF assms] refl ne])
qed


lemma applyLorentzTransformation_exact:
  "applyLorentzTransformation exact (mk4 (\<lambda>i. mk4 (\<lambda>j. Fin (A i j))))
       (Vec4 (Fin x0) (Fin x1) (Fin x2) (Fin x3))
     = mk4 (\<lambda>i. Fin (A i 0 * x0 + A i 1 * x1 + A i 2 * x2 + A i 3 * x3))"
  by (simp add: applyLorentzTransformation_def mk4_def exact_simps)

lemma applyLorentzTransformation_identity:
  "applyLorentzTransformation exact identity4 (Vec4 (Fin x0) (Fin x1) (Fin x2) (Fin x3))
     = Vec4 (Fin x0) (Fin x1) (Fin x2) (Fin x3)"
  by (simp add: applyLorentzTransformation_def identity4_def mk4_def exact_simps)

lemma calculateIntervalSquared_exact:
  "calculateIntervalSquared exact (Vec4 (Fin x0) (Fin x1) (Fin x2) (Fin x3))
       (Vec4 (Fin y0) (Fin y1) (Fin y2) (Fin y3))
     = Fin (- ((y0 - x0) * (y0 - x0)) + (y1 - x1) * (y1 - x1) + (y2 - x2) * (y2 - x2)
            + (y3 - x3) * (y3 - x3))"
  by (simp add: calculateIntervalSquared_def magnitudeSquared_def exact_simps Let_def)

lemma boost_quadratic_form:
  fixes a b c g v2 d0 d1 d2 d3 :: real
  assumes gg: "g * g * (1 - v2) = 1" and v2: "a * a + b * b + c * c = v2" and ne: "v2 \<noteq> 0"
  defines "t \<equiv> \<lambda>i. boostReal a b c v2 g i 0 * d0 + boostReal a b c v2 g i 1 * d1
                    + boostReal a b c v2 g i 2 * d2 + boostReal a b c v2 g i 3 * d3"
  shows "- (t 0 * t 0) + t 1 * t 1 + t 2 * t 2 + t 3 * t 3
           = - (d0 * d0) + d1 * d1 + d2 * d2 + d3 * d3"
  unfolding t_def
  using ne
  apply (simp add: boostReal_def field_simps)
  using gg v2
  apply algebra
  done


lemma exact_interval_preserved:
  assumes "vx * vx + vy * vy + vz * vz < 1"
  shows "calculateIntervalSquared exact
           (applyLorentzTransformation exact
              (getLorentzBoostMatrix exact (Vec3 (Fin vx) (Fin vy) (Fin vz)))
              (Vec4 (Fin x0) (Fin x1) (Fin x2) (Fin x3)))
           (applyLorentzTransformation exact
              (getLorentzBoostMatrix exact (Vec3 (Fin vx) (Fin vy) (Fin vz)))
              (Vec4 (Fin y0) (Fin y1) (Fin y2) (Fin y3)))
         = calculateIntervalSquared exact (Vec4 (Fin x0) (Fin x1) (Fin x2) (Fin x3))
             (Vec4 (Fin y0) (Fin y1) (Fin y2) (Fin y3))"
proof (cases "vx * vx + vy * vy + vz * vz < 1 / 10 ^ 10")
  case True
  then have "getLorentzBoostMatrix exact (Vec3 (Fin vx) (Fin vy) (Fin vz)) = identity4"
    by (simp add: getLorentzBoostMatrix_def sumSquares3_exact exact_simps Let_def)
  then show ?thesis by (simp add: applyLorentzTransformation_identity)
next
  case False
  let ?v2 = "vx * vx + vy * vy + vz * vz"
  let ?g = "1 / sqrt (1 - ?v2)"
  let ?L = "boostReal vx vy vz ?v2 ?g"
  have big: "1 / 10 ^ 10 \<le> ?v2" using False by simp
  then have ne: "?v2 \<noteq> 0" by auto
  have L1: "getLorentzBoostMatrix exact (Vec3 (Fin vx) (Fin vy) (Fin vz)) =
      mk4 (\<lambda>i. mk4 (\<lambda>j. Fin (?L i j)))"
    by (rule getLorentzBoostMatrix_exact [OF big assms])
  have lin: "(?L i 0 * y0 + ?L i 1 * y1 + ?L i 2 * y2 + ?L i 3 * y3)
           - (?L i 0 * x0 + ?L i 1 * x1 + ?L i 2 * x2 + ?L i 3 * x3)
           = ?L i 0 * (y0 - x0) + ?L i 1 * (y1 - x1) + ?L i 2 * (y2 - x2) + ?L i 3 * (y3 - x3)"
    for i by (simp add: algebra_simps)
  have interval_mk4: "calculateIntervalSquared exact (mk4 (\<lambda>i. Fin (p i))) (mk4 (\<lambda>i. Fin (q i)))
      = Fin (- ((q 0 - p 0) * (q 0 - p 0)) + (q 1 - p 1) * (q 1 - p 1)
             + (q 2 - p 2) * (q 2 - p 2) + (q 3 - p 3) * (q 3 - p 3))" for p q :: "nat \<Rightarrow> real"
    by (simp add: mk4_def calculateIntervalSquared_exact)
  show ?thesis
    unfolding L1 applyLorentzTransformation_exact interval_mk4 calculateIntervalSquared_exact lin
    by (rule arg_cong [where f = Fin])
      (rule boost_quadratic_form [OF gamma_square [OF assms] refl ne])
qed

subsection \<open>Reversibility of the boost\<close>

text \<open>The roundings of the run at the velocity \<^verbatim>\<open>[0.999999999, 0, 0]\<close>.\<close>

lemma c3_r0: "binary64 (- (8388608228857437 / 16777216)) = Fin (- (8388608228857437 / 16777216))"
  using binary64_eqI [where y = "- (8388608228857437 / 16777216)" and m = "- 8388608228857437" and e = "28"]
  by (simp add: power_int_minus)

lemma c3_r1: "binary64 (- (9444733223409857014449474887737 / 18889465931478580854784)) = Fin (- (8388608228857437 / 16777216))"
  using binary64_eqI [where y = "- (9444733223409857014449474887737 / 18889465931478580854784)" and m = "- 8388608228857437" and e = "28"]
  by (simp add: power_int_minus)

lemma c3_r2: "binary64 (- (2361183303491280925215197140681 / 4722366482869645213696)) = Fin (- (2097152055117207 / 4194304))"
  using binary64_eqI [where y = "- (2361183303491280925215197140681 / 4722366482869645213696)" and m = "- 8388608220468828" and e = "28"]
  by (simp add: power_int_minus)

lemma c3_r3: "binary64 (- (2097152055117207 / 4194304)) = Fin (- (2097152055117207 / 4194304))"
  using binary64_eqI [where y = "- (2097152055117207 / 4194304)" and m = "- 8388608220468828" and e = "28"]
  by (simp add: power_int_minus)

lemma c3_r4: "binary64 (- (55362362325732329096400890210349 / 2475880078570760549798248448)) = Fin (- (1536614233791709 / 68719476736))"
  using binary64_eqI [where y = "- (55362362325732329096400890210349 / 2475880078570760549798248448)" and m = "- 6146456935166836" and e = "14"]
  by (simp add: power_int_minus)

lemma c3_r5: "binary64 (1 / 10000000000) = Fin (7737125245533627 / 77371252455336267181195264)"
  using binary64_eqI [where y = "1 / 10000000000" and m = "7737125245533627" and e = "- 34"]
  by (simp add: power_int_minus)

lemma c3_r6: "binary64 (9007199 / 4503599627370496) = Fin (9007199 / 4503599627370496)"
  using binary64_eqI [where y = "9007199 / 4503599627370496" and m = "4835703141695488" and e = "- 29"]
  by (simp add: power_int_minus)

lemma c3_r7: "binary64 (1 / 16777216) = Fin (1 / 16777216)"
  using binary64_eqI [where y = "1 / 16777216" and m = "4503599627370496" and e = "- 24"]
  by (simp add: power_int_minus)

lemma c3_r8: "binary64 (4503599618363297 / 4503599627370496) = Fin (4503599618363297 / 4503599627370496)"
  using binary64_eqI [where y = "4503599618363297 / 4503599627370496" and m = "9007199236726594" and e = "- 1"]
  by (simp add: power_int_minus)

lemma c3_r9: "binary64 (81129638252347409536711022166849 / 81129638414606681695789005144064) = Fin (4503599618363297 / 4503599627370496)"
  using binary64_eqI [where y = "81129638252347409536711022166849 / 81129638414606681695789005144064" and m = "9007199236726594" and e = "- 1"]
  by (simp add: power_int_minus)

lemma c3_r10: "binary64 (999999999 / 1000000000) = Fin (9007199245733793 / 9007199254740992)"
  using binary64_eqI [where y = "999999999 / 1000000000" and m = "9007199245733793" and e = "- 1"]
  by (simp add: power_int_minus)

lemma c3_r11: "binary64 (1) = Fin (1)"
  using binary64_eqI [where y = "1" and m = "4503599627370496" and e = "0"]
  by (simp add: power_int_minus)

lemma c3_r12: "binary64 (16777217 / 16777216) = Fin (16777217 / 16777216)"
  using binary64_eqI [where y = "16777217 / 16777216" and m = "4503599895805952" and e = "0"]
  by (simp add: power_int_minus)

lemma c3_r13: "binary64 (27679943195148174640264018372653 / 1237940039285380274899124224) = Fin (6146182051113985 / 274877906944)"
  using binary64_eqI [where y = "27679943195148174640264018372653 / 1237940039285380274899124224" and m = "6146182051113985" and e = "14"]
  by (simp add: power_int_minus)

lemma c3_r14: "binary64 (100699046725451530240 / 4503599618363297) = Fin (6146182063406349 / 274877906944)"
  using binary64_eqI [where y = "100699046725451530240 / 4503599618363297" and m = "6146182063406349" and e = "14"]
  by (simp add: power_int_minus)

lemma c3_r15: "binary64 (6146182063406349 / 274877906944) = Fin (6146182063406349 / 274877906944)"
  using binary64_eqI [where y = "6146182063406349 / 274877906944" and m = "6146182063406349" and e = "14"]
  by (simp add: power_int_minus)

lemma c3_r16: "binary64 (55362362325732329096400890210349 / 2475880078570760549798248448) = Fin (1536614233791709 / 68719476736)"
  using binary64_eqI [where y = "55362362325732329096400890210349 / 2475880078570760549798248448" and m = "6146456935166836" and e = "14"]
  by (simp add: power_int_minus)

lemma c3_r17: "binary64 (147573952589676412928 / 6599707700650709) = Fin (6146456941313293 / 274877906944)"
  using binary64_eqI [where y = "147573952589676412928 / 6599707700650709" and m = "6146456941313293" and e = "14"]
  by (simp add: power_int_minus)

lemma c3_r18: "binary64 (6146456941313293 / 274877906944) = Fin (6146456941313293 / 274877906944)"
  using binary64_eqI [where y = "6146456941313293 / 274877906944" and m = "6146456941313293" and e = "14"]
  by (simp add: power_int_minus)

lemma c3_r19: "binary64 (9444733223409857014449474887737 / 18889465931478580854784) = Fin (8388608228857437 / 16777216)"
  using binary64_eqI [where y = "9444733223409857014449474887737 / 18889465931478580854784" and m = "8388608228857437" and e = "28"]
  by (simp add: power_int_minus)

lemma c3_r20: "binary64 (8388608228857437 / 16777216) = Fin (8388608228857437 / 16777216)"
  using binary64_eqI [where y = "8388608228857437 / 16777216" and m = "8388608228857437" and e = "28"]
  by (simp add: power_int_minus)

lemma c3_r21: "binary64 (37778932931418361349931578503849 / 75557863725914323419136) = Fin (8388608237246045 / 16777216)"
  using binary64_eqI [where y = "37778932931418361349931578503849 / 75557863725914323419136" and m = "8388608237246045" and e = "28"]
  by (simp add: power_int_minus)

lemma c3_r22: "binary64 (8388608237246045 / 16777216) = Fin (8388608237246045 / 16777216)"
  using binary64_eqI [where y = "8388608237246045 / 16777216" and m = "8388608237246045" and e = "28"]
  by (simp add: power_int_minus)

lemma c3_s0: "Math_sqrt binary64 (Fin (9007199 / 4503599627370496)) = Fin (6599707700650709 / 147573952589676412928)"
proof -
  have "binary64 (sqrt (9007199 / 4503599627370496)) = Fin (6599707700650709 / 147573952589676412928)"
    using binary64_sqrt [where x = "9007199 / 4503599627370496" and m = "6599707700650709" and e = "- 15"]
    by (simp add: power_int_minus power2_eq_square)
  then show ?thesis by simp
qed

lemmas c3_facts = binary64_zero c3_r0 c3_r1 c3_r2 c3_r3 c3_r4 c3_r5 c3_r6 c3_r7 c3_r8 c3_r9 c3_r10 c3_r11 c3_r12 c3_r13 c3_r14 c3_r15 c3_r16 c3_r17 c3_r18 c3_r19 c3_r20 c3_r21 c3_r22 c3_s0

text \<open>The roundings of the run at the velocity \<^verbatim>\<open>[0.3, 0.4, 0.5]\<close> of check 4.\<close>

lemma c3t_r0: "binary64 (- (2535301200456458353478625262249 / 2535301200456458802993406410752)) = Fin (- (4503599627370495 / 4503599627370496))"
  using binary64_eqI [where y = "- (2535301200456458353478625262249 / 2535301200456458802993406410752)" and m = "- 9007199254740990" and e = "- 1"]
  by (simp add: power_int_minus)

lemma c3t_r1: "binary64 (- (4503599627370495 / 4503599627370496)) = Fin (- (4503599627370495 / 4503599627370496))"
  using binary64_eqI [where y = "- (4503599627370495 / 4503599627370496)" and m = "- 9007199254740990" and e = "- 1"]
  by (simp add: power_int_minus)

lemma c3t_r2: "binary64 (- (34129330759769003 / 36028797018963968)) = Fin (- (8532332689942251 / 9007199254740992))"
  using binary64_eqI [where y = "- (34129330759769003 / 36028797018963968)" and m = "- 8532332689942251" and e = "- 1"]
  by (simp add: power_int_minus)

lemma c3t_r3: "binary64 (- (4328029871649614671950572288681 / 5070602400912917605986812821504)) = Fin (- (7688125463633381 / 9007199254740992))"
  using binary64_eqI [where y = "- (4328029871649614671950572288681 / 5070602400912917605986812821504)" and m = "- 7688125463633381" and e = "- 1"]
  by (simp add: power_int_minus)

lemma c3t_r4: "binary64 (- (61505003709067047 / 72057594037927936)) = Fin (- (7688125463633381 / 9007199254740992))"
  using binary64_eqI [where y = "- (61505003709067047 / 72057594037927936)" and m = "- 7688125463633381" and e = "- 1"]
  by (simp add: power_int_minus)

lemma c3t_r5: "binary64 (- (7205759403792793 / 9007199254740992)) = Fin (- (7205759403792793 / 9007199254740992))"
  using binary64_eqI [where y = "- (7205759403792793 / 9007199254740992)" and m = "- 7205759403792793" and e = "- 1"]
  by (simp add: power_int_minus)

lemma c3t_r6: "binary64 (- (4056481920730333684018384045887 / 5070602400912917605986812821504)) = Fin (- (7205759403792793 / 9007199254740992))"
  using binary64_eqI [where y = "- (4056481920730333684018384045887 / 5070602400912917605986812821504)" and m = "- 7205759403792793" and e = "- 1"]
  by (simp add: power_int_minus)

lemma c3t_r7: "binary64 (- (109213858431260825 / 144115188075855872)) = Fin (- (3412933075976901 / 4503599627370496))"
  using binary64_eqI [where y = "- (109213858431260825 / 144115188075855872)" and m = "- 6825866151953802" and e = "- 1"]
  by (simp add: power_int_minus)

lemma c3t_r8: "binary64 (- (1592262918131443 / 2251799813685248)) = Fin (- (1592262918131443 / 2251799813685248))"
  using binary64_eqI [where y = "- (1592262918131443 / 2251799813685248)" and m = "- 6369051672525772" and e = "- 1"]
  by (simp add: power_int_minus)

lemma c3t_r9: "binary64 (- (1624281504445930401348047534607 / 2535301200456458802993406410752)) = Fin (- (2885303559533857 / 4503599627370496))"
  using binary64_eqI [where y = "- (1624281504445930401348047534607 / 2535301200456458802993406410752)" and m = "- 5770607119067714" and e = "- 1"]
  by (simp add: power_int_minus)

lemma c3t_r10: "binary64 (- (2702159776422297 / 4503599627370496)) = Fin (- (2702159776422297 / 4503599627370496))"
  using binary64_eqI [where y = "- (2702159776422297 / 4503599627370496)" and m = "- 5404319552844594" and e = "- 1"]
  by (simp add: power_int_minus)

lemma c3t_r11: "binary64 (- (6084722881095499729896117003109 / 10141204801825835211973625643008)) = Fin (- (2702159776422297 / 4503599627370496))"
  using binary64_eqI [where y = "- (6084722881095499729896117003109 / 10141204801825835211973625643008)" and m = "- 5404319552844594" and e = "- 1"]
  by (simp add: power_int_minus)

lemma c3t_r12: "binary64 (- (5736731747818100537562814110871 / 10141204801825835211973625643008)) = Fin (- (2547620669010309 / 4503599627370496))"
  using binary64_eqI [where y = "- (5736731747818100537562814110871 / 10141204801825835211973625643008)" and m = "- 5095241338020618" and e = "- 1"]
  by (simp add: power_int_minus)

lemma c3t_r13: "binary64 (- (2535301200456458353478625262249 / 5070602400912917605986812821504)) = Fin (- (4503599627370495 / 9007199254740992))"
  using binary64_eqI [where y = "- (2535301200456458353478625262249 / 5070602400912917605986812821504)" and m = "- 9007199254740990" and e = "- 2"]
  by (simp add: power_int_minus)

lemma c3t_r14: "binary64 (- (4503599627370495 / 9007199254740992)) = Fin (- (4503599627370495 / 9007199254740992))"
  using binary64_eqI [where y = "- (4503599627370495 / 9007199254740992)" and m = "- 9007199254740990" and e = "- 2"]
  by (simp add: power_int_minus)

lemma c3t_r15: "binary64 (- (279328923564781145 / 576460752303423488)) = Fin (- (8729028861399411 / 18014398509481984))"
  using binary64_eqI [where y = "- (279328923564781145 / 576460752303423488)" and m = "- 8729028861399411" and e = "- 2"]
  by (simp add: power_int_minus)

lemma c3t_r16: "binary64 (- (32938014870724191 / 72057594037927936)) = Fin (- (1029312964710131 / 2251799813685248))"
  using binary64_eqI [where y = "- (32938014870724191 / 72057594037927936)" and m = "- 8234503717681048" and e = "- 2"]
  by (simp add: power_int_minus)

lemma c3t_r17: "binary64 (- (9246680287010643414401976735249 / 20282409603651670423947251286016)) = Fin (- (4106350942394707 / 9007199254740992))"
  using binary64_eqI [where y = "- (9246680287010643414401976735249 / 20282409603651670423947251286016)" and m = "- 8212701884789414" and e = "- 2"]
  by (simp add: power_int_minus)

lemma c3t_r18: "binary64 (- (8605097621727150010212762100585 / 20282409603651670423947251286016)) = Fin (- (3821431003515463 / 9007199254740992))"
  using binary64_eqI [where y = "- (8605097621727150010212762100585 / 20282409603651670423947251286016)" and m = "- 7642862007030926" and e = "- 2"]
  by (simp add: power_int_minus)

lemma c3t_r19: "binary64 (- (7205759403792793 / 18014398509481984)) = Fin (- (7205759403792793 / 18014398509481984))"
  using binary64_eqI [where y = "- (7205759403792793 / 18014398509481984)" and m = "- 7205759403792793" and e = "- 2"]
  by (simp add: power_int_minus)

lemma c3t_r20: "binary64 (- (4056481920730333684018384045887 / 10141204801825835211973625643008)) = Fin (- (7205759403792793 / 18014398509481984))"
  using binary64_eqI [where y = "- (4056481920730333684018384045887 / 10141204801825835211973625643008)" and m = "- 7205759403792793" and e = "- 2"]
  by (simp add: power_int_minus)

lemma c3t_r21: "binary64 (- (223463138851824947 / 576460752303423488)) = Fin (- (3491611544559765 / 9007199254740992))"
  using binary64_eqI [where y = "- (223463138851824947 / 576460752303423488)" and m = "- 6983223089119530" and e = "- 2"]
  by (simp add: power_int_minus)

lemma c3t_r22: "binary64 (- (5764607523034235 / 18014398509481984)) = Fin (- (5764607523034235 / 18014398509481984))"
  using binary64_eqI [where y = "- (5764607523034235 / 18014398509481984)" and m = "- 5764607523034235" and e = "- 2"]
  by (simp add: power_int_minus)

lemma c3t_r23: "binary64 (- (6490371073168534403953548275481 / 20282409603651670423947251286016)) = Fin (- (5764607523034235 / 18014398509481984))"
  using binary64_eqI [where y = "- (6490371073168534403953548275481 / 20282409603651670423947251286016)" and m = "- 5764607523034235" and e = "- 2"]
  by (simp add: power_int_minus)

lemma c3t_r24: "binary64 (- (22346313885182497 / 72057594037927936)) = Fin (- (698322308911953 / 2251799813685248))"
  using binary64_eqI [where y = "- (22346313885182497 / 72057594037927936)" and m = "- 5586578471295624" and e = "- 2"]
  by (simp add: power_int_minus)

lemma c3t_r25: "binary64 (- (2702159776422297 / 9007199254740992)) = Fin (- (2702159776422297 / 9007199254740992))"
  using binary64_eqI [where y = "- (2702159776422297 / 9007199254740992)" and m = "- 5404319552844594" and e = "- 2"]
  by (simp add: power_int_minus)

lemma c3t_r26: "binary64 (- (6084722881095499729896117003109 / 20282409603651670423947251286016)) = Fin (- (2702159776422297 / 9007199254740992))"
  using binary64_eqI [where y = "- (6084722881095499729896117003109 / 20282409603651670423947251286016)" and m = "- 5404319552844594" and e = "- 2"]
  by (simp add: power_int_minus)

lemma c3t_r27: "binary64 (- (9735556609752800332119987908067 / 40564819207303340847894502572032)) = Fin (- (8646911284551351 / 36028797018963968))"
  using binary64_eqI [where y = "- (9735556609752800332119987908067 / 40564819207303340847894502572032)" and m = "- 8646911284551351" and e = "- 3"]
  by (simp add: power_int_minus)

lemma c3t_r28: "binary64 (- (8646911284551351 / 36028797018963968)) = Fin (- (8646911284551351 / 36028797018963968))"
  using binary64_eqI [where y = "- (8646911284551351 / 36028797018963968)" and m = "- 8646911284551351" and e = "- 3"]
  by (simp add: power_int_minus)

lemma c3t_r29: "binary64 (- (7205759403792795 / 36028797018963968)) = Fin (- (7205759403792795 / 36028797018963968))"
  using binary64_eqI [where y = "- (7205759403792795 / 36028797018963968)" and m = "- 7205759403792795" and e = "- 3"]
  by (simp add: power_int_minus)

lemma c3t_r30: "binary64 (- (14603334914629198587464480104369 / 81129638414606681695789005144064)) = Fin (- (810647932926689 / 4503599627370496))"
  using binary64_eqI [where y = "- (14603334914629198587464480104369 / 81129638414606681695789005144064)" and m = "- 6485183463413512" and e = "- 3"]
  by (simp add: power_int_minus)

lemma c3t_r31: "binary64 (- (810647932926689 / 4503599627370496)) = Fin (- (810647932926689 / 4503599627370496))"
  using binary64_eqI [where y = "- (810647932926689 / 4503599627370496)" and m = "- 6485183463413512" and e = "- 3"]
  by (simp add: power_int_minus)

lemma c3t_r32: "binary64 (- (5997749725306631 / 36028797018963968)) = Fin (- (5997749725306631 / 36028797018963968))"
  using binary64_eqI [where y = "- (5997749725306631 / 36028797018963968)" and m = "- 5997749725306631" and e = "- 3"]
  by (simp add: power_int_minus)

lemma c3t_r33: "binary64 (- (43234556422756761 / 288230376151711744)) = Fin (- (5404319552844595 / 36028797018963968))"
  using binary64_eqI [where y = "- (43234556422756761 / 288230376151711744)" and m = "- 5404319552844595" and e = "- 3"]
  by (simp add: power_int_minus)

lemma c3t_r34: "binary64 (- (1297968610449887 / 9007199254740992)) = Fin (- (1297968610449887 / 9007199254740992))"
  using binary64_eqI [where y = "- (1297968610449887 / 9007199254740992)" and m = "- 5191874441799548" and e = "- 3"]
  by (simp add: power_int_minus)

lemma c3t_r35: "binary64 (- (9596399560490609 / 72057594037927936)) = Fin (- (599774972530663 / 4503599627370496))"
  using binary64_tieI [where y = "- (9596399560490609 / 72057594037927936)" and m = "- 4798199780245304" and e = "- 3"]
  by (simp add: power_int_minus)

lemma c3t_r36: "binary64 (- (131907379110761 / 1125899906842624)) = Fin (- (131907379110761 / 1125899906842624))"
  using binary64_eqI [where y = "- (131907379110761 / 1125899906842624)" and m = "- 8442072263088704" and e = "- 4"]
  by (simp add: power_int_minus)

lemma c3t_r37: "binary64 (- (2376232093642566830473953980903 / 20282409603651670423947251286016)) = Fin (- (2110518065772175 / 18014398509481984))"
  using binary64_eqI [where y = "- (2376232093642566830473953980903 / 20282409603651670423947251286016)" and m = "- 8442072263088700" and e = "- 4"]
  by (simp add: power_int_minus)

lemma c3t_r38: "binary64 (- (3801971349828107227230653594289 / 40564819207303340847894502572032)) = Fin (- (6753657810470961 / 72057594037927936))"
  using binary64_eqI [where y = "- (3801971349828107227230653594289 / 40564819207303340847894502572032)" and m = "- 6753657810470961" and e = "- 4"]
  by (simp add: power_int_minus)

lemma c3t_r39: "binary64 (- (3564348140463849449579471905633 / 40564819207303340847894502572032)) = Fin (- (1582888549329131 / 18014398509481984))"
  using binary64_eqI [where y = "- (3564348140463849449579471905633 / 40564819207303340847894502572032)" and m = "- 6331554197316524" and e = "- 4"]
  by (simp add: power_int_minus)

lemma c3t_r40: "binary64 (- (791444274664565 / 9007199254740992)) = Fin (- (791444274664565 / 9007199254740992))"
  using binary64_eqI [where y = "- (791444274664565 / 9007199254740992)" and m = "- 6331554197316520" and e = "- 4"]
  by (simp add: power_int_minus)

lemma c3t_r41: "binary64 (- (4562365619793728163152650511085 / 81129638414606681695789005144064)) = Fin (- (253262167892661 / 4503599627370496))"
  using binary64_eqI [where y = "- (4562365619793728163152650511085 / 81129638414606681695789005144064)" and m = "- 8104389372565152" and e = "- 5"]
  by (simp add: power_int_minus)

lemma c3t_r42: "binary64 (- (8554435537113238231282241736253 / 162259276829213363391578010288128)) = Fin (- (1899466259194957 / 36028797018963968))"
  using binary64_eqI [where y = "- (8554435537113238231282241736253 / 162259276829213363391578010288128)" and m = "- 7597865036779828" and e = "- 5"]
  by (simp add: power_int_minus)

lemma c3t_r43: "binary64 (- (6843548429690591349311994092095 / 162259276829213363391578010288128)) = Fin (- (6078292029423863 / 144115188075855872))"
  using binary64_eqI [where y = "- (6843548429690591349311994092095 / 162259276829213363391578010288128)" and m = "- 6078292029423863" and e = "- 5"]
  by (simp add: power_int_minus)

lemma c3t_r44: "binary64 (- (1483575431155091 / 72057594037927936)) = Fin (- (1483575431155091 / 72057594037927936))"
  using binary64_eqI [where y = "- (1483575431155091 / 72057594037927936)" and m = "- 5934301724620364" and e = "- 6"]
  by (simp add: power_int_minus)

lemma c3t_r45: "binary64 (- (3 / 9007199254740992)) = Fin (- (3 / 9007199254740992))"
  using binary64_eqI [where y = "- (3 / 9007199254740992)" and m = "- 6755399441055744" and e = "- 52"]
  by (simp add: power_int_minus)

lemma c3t_r46: "binary64 (- (1 / 4503599627370496)) = Fin (- (1 / 4503599627370496))"
  using binary64_eqI [where y = "- (1 / 4503599627370496)" and m = "- 4503599627370496" and e = "- 52"]
  by (simp add: power_int_minus)

lemma c3t_r47: "binary64 (- (3 / 36028797018963968)) = Fin (- (3 / 36028797018963968))"
  using binary64_eqI [where y = "- (3 / 36028797018963968)" and m = "- 6755399441055744" and e = "- 54"]
  by (simp add: power_int_minus)

lemma c3t_r48: "binary64 (- (1 / 18014398509481984)) = Fin (- (1 / 18014398509481984))"
  using binary64_eqI [where y = "- (1 / 18014398509481984)" and m = "- 4503599627370496" and e = "- 54"]
  by (simp add: power_int_minus)

lemma c3t_r49: "binary64 (- (3 / 144115188075855872)) = Fin (- (3 / 144115188075855872))"
  using binary64_eqI [where y = "- (3 / 144115188075855872)" and m = "- 6755399441055744" and e = "- 56"]
  by (simp add: power_int_minus)

lemma c3t_r50: "binary64 (1 / 18014398509481984) = Fin (1 / 18014398509481984)"
  using binary64_eqI [where y = "1 / 18014398509481984" and m = "4503599627370496" and e = "- 54"]
  by (simp add: power_int_minus)

lemma c3t_r51: "binary64 (1 / 10000000000) = Fin (7737125245533627 / 77371252455336267181195264)"
  using binary64_eqI [where y = "1 / 10000000000" and m = "7737125245533627" and e = "- 34"]
  by (simp add: power_int_minus)

lemma c3t_r52: "binary64 (3207086284284520283711036374225 / 324518553658426726783156020576256) = Fin (712116206954443 / 72057594037927936)"
  using binary64_eqI [where y = "3207086284284520283711036374225 / 324518553658426726783156020576256" and m = "5696929655635544" and e = "- 7"]
  by (simp add: power_int_minus)

lemma c3t_r53: "binary64 (4008857855355649906930304630515 / 324518553658426726783156020576256) = Fin (7121162069544429 / 576460752303423488)"
  using binary64_eqI [where y = "4008857855355649906930304630515 / 324518553658426726783156020576256" and m = "7121162069544429" and e = "- 7"]
  by (simp add: power_int_minus)

lemma c3t_r54: "binary64 (5011072319194561824027267241561 / 324518553658426726783156020576256) = Fin (8901452586930535 / 576460752303423488)"
  using binary64_eqI [where y = "5011072319194561824027267241561 / 324518553658426726783156020576256" and m = "8901452586930535" and e = "- 7"]
  by (simp add: power_int_minus)

lemma c3t_r55: "binary64 (2672571903570433868231524203365 / 162259276829213363391578010288128) = Fin (4747441379696287 / 288230376151711744)"
  using binary64_eqI [where y = "2672571903570433868231524203365 / 162259276829213363391578010288128" and m = "4747441379696287" and e = "- 6"]
  by (simp add: power_int_minus)

lemma c3t_r56: "binary64 (3340714879463041962198996223151 / 162259276829213363391578010288128) = Fin (2967150862310179 / 144115188075855872)"
  using binary64_eqI [where y = "3340714879463041962198996223151 / 162259276829213363391578010288128" and m = "5934301724620358" and e = "- 6"]
  by (simp add: power_int_minus)

lemma c3t_r57: "binary64 (2227143252975361805586542856841 / 81129638414606681695789005144064) = Fin (1978100574873453 / 72057594037927936)"
  using binary64_eqI [where y = "2227143252975361805586542856841 / 81129638414606681695789005144064" and m = "7912402299493812" and e = "- 6"]
  by (simp add: power_int_minus)

lemma c3t_r58: "binary64 (1512224844378989464925140849983 / 40564819207303340847894502572032) = Fin (5372501890047195 / 144115188075855872)"
  using binary64_eqI [where y = "1512224844378989464925140849983 / 40564819207303340847894502572032" and m = "5372501890047195" and e = "- 5"]
  by (simp add: power_int_minus)

lemma c3t_r59: "binary64 (6843548429690591349311994092095 / 162259276829213363391578010288128) = Fin (6078292029423863 / 144115188075855872)"
  using binary64_eqI [where y = "6843548429690591349311994092095 / 162259276829213363391578010288128" and m = "6078292029423863" and e = "- 5"]
  by (simp add: power_int_minus)

lemma c3t_r60: "binary64 (504074948126329821641713616661 / 10141204801825835211973625643008) = Fin (1790833963349065 / 36028797018963968)"
  using binary64_eqI [where y = "504074948126329821641713616661 / 10141204801825835211973625643008" and m = "7163335853396260" and e = "- 5"]
  by (simp add: power_int_minus)

lemma c3t_r61: "binary64 (8554435537113238231282241736253 / 162259276829213363391578010288128) = Fin (1899466259194957 / 36028797018963968)"
  using binary64_eqI [where y = "8554435537113238231282241736253 / 162259276829213363391578010288128" and m = "7597865036779828" and e = "- 5"]
  by (simp add: power_int_minus)

lemma c3t_r62: "binary64 (4562365619793728163152650511085 / 81129638414606681695789005144064) = Fin (253262167892661 / 4503599627370496)"
  using binary64_eqI [where y = "4562365619793728163152650511085 / 81129638414606681695789005144064" and m = "8104389372565152" and e = "- 5"]
  by (simp add: power_int_minus)

lemma c3t_r63: "binary64 (2520374740631649108208568083305 / 40564819207303340847894502572032) = Fin (2238542454186331 / 36028797018963968)"
  using binary64_eqI [where y = "2520374740631649108208568083305 / 40564819207303340847894502572032" and m = "8954169816745324" and e = "- 5"]
  by (simp add: power_int_minus)

lemma c3t_r64: "binary64 (672099930835106584309955251821 / 10141204801825835211973625643008) = Fin (4775557235597507 / 72057594037927936)"
  using binary64_eqI [where y = "672099930835106584309955251821 / 10141204801825835211973625643008" and m = "4775557235597507" and e = "- 4"]
  by (simp add: power_int_minus)

lemma c3t_r65: "binary64 (5372501890047195 / 72057594037927936) = Fin (5372501890047195 / 72057594037927936)"
  using binary64_eqI [where y = "5372501890047195 / 72057594037927936" and m = "5372501890047195" and e = "- 4"]
  by (simp add: power_int_minus)

lemma c3t_r66: "binary64 (1680249827087766227593382485143 / 20282409603651670423947251286016) = Fin (1492361636124221 / 18014398509481984)"
  using binary64_eqI [where y = "1680249827087766227593382485143 / 20282409603651670423947251286016" and m = "5969446544496884" and e = "- 4"]
  by (simp add: power_int_minus)

lemma c3t_r67: "binary64 (791444274664565 / 9007199254740992) = Fin (791444274664565 / 9007199254740992)"
  using binary64_eqI [where y = "791444274664565 / 9007199254740992" and m = "6331554197316520" and e = "- 4"]
  by (simp add: power_int_minus)

lemma c3t_r68: "binary64 (3564348140463849449579471905633 / 40564819207303340847894502572032) = Fin (1582888549329131 / 18014398509481984)"
  using binary64_eqI [where y = "3564348140463849449579471905633 / 40564819207303340847894502572032" and m = "6331554197316524" and e = "- 4"]
  by (simp add: power_int_minus)

lemma c3t_r69: "binary64 (29206669829258403248756220714025 / 324518553658426726783156020576256) = Fin (3242591731706757 / 36028797018963968)"
  using binary64_eqI [where y = "29206669829258403248756220714025 / 324518553658426726783156020576256" and m = "6485183463413514" and e = "- 4"]
  by (simp add: power_int_minus)

lemma c3t_r70: "binary64 (3801971349828107227230653594289 / 40564819207303340847894502572032) = Fin (6753657810470961 / 72057594037927936)"
  using binary64_eqI [where y = "3801971349828107227230653594289 / 40564819207303340847894502572032" and m = "6753657810470961" and e = "- 4"]
  by (simp add: power_int_minus)

lemma c3t_r71: "binary64 (1790833963349065 / 18014398509481984) = Fin (1790833963349065 / 18014398509481984)"
  using binary64_eqI [where y = "1790833963349065 / 18014398509481984" and m = "7163335853396260" and e = "- 4"]
  by (simp add: power_int_minus)

lemma c3t_r72: "binary64 (466363011288819 / 4503599627370496) = Fin (466363011288819 / 4503599627370496)"
  using binary64_eqI [where y = "466363011288819 / 4503599627370496" and m = "7461808180621104" and e = "- 4"]
  by (simp add: power_int_minus)

lemma c3t_r73: "binary64 (4333263924162312868857581526495 / 40564819207303340847894502572032) = Fin (7697423008612093 / 72057594037927936)"
  using binary64_eqI [where y = "4333263924162312868857581526495 / 40564819207303340847894502572032" and m = "7697423008612093" and e = "- 4"]
  by (simp add: power_int_minus)

lemma c3t_r74: "binary64 (1141778491431181306980344315995 / 10141204801825835211973625643008) = Fin (8112824129335517 / 72057594037927936)"
  using binary64_eqI [where y = "1141778491431181306980344315995 / 10141204801825835211973625643008" and m = "8112824129335517" and e = "- 4"]
  by (simp add: power_int_minus)

lemma c3t_r75: "binary64 (2376232093642566830473953980903 / 20282409603651670423947251286016) = Fin (2110518065772175 / 18014398509481984)"
  using binary64_eqI [where y = "2376232093642566830473953980903 / 20282409603651670423947251286016" and m = "8442072263088700" and e = "- 4"]
  by (simp add: power_int_minus)

lemma c3t_r76: "binary64 (131907379110761 / 1125899906842624) = Fin (131907379110761 / 1125899906842624)"
  using binary64_eqI [where y = "131907379110761 / 1125899906842624" and m = "8442072263088704" and e = "- 4"]
  by (simp add: power_int_minus)

lemma c3t_r77: "binary64 (19471113219505603967277331424215 / 162259276829213363391578010288128) = Fin (1080863910568919 / 9007199254740992)"
  using binary64_eqI [where y = "19471113219505603967277331424215 / 162259276829213363391578010288128" and m = "8646911284551352" and e = "- 4"]
  by (simp add: power_int_minus)

lemma c3t_r78: "binary64 (2238542454186331 / 18014398509481984) = Fin (2238542454186331 / 18014398509481984)"
  using binary64_eqI [where y = "2238542454186331 / 18014398509481984" and m = "8954169816745324" and e = "- 4"]
  by (simp add: power_int_minus)

lemma c3t_r79: "binary64 (4775557235597507 / 36028797018963968) = Fin (4775557235597507 / 36028797018963968)"
  using binary64_eqI [where y = "4775557235597507 / 36028797018963968" and m = "4775557235597507" and e = "- 3"]
  by (simp add: power_int_minus)

lemma c3t_r80: "binary64 (5416579905202890481149352470813 / 40564819207303340847894502572032) = Fin (4810889380382557 / 36028797018963968)"
  using binary64_eqI [where y = "5416579905202890481149352470813 / 40564819207303340847894502572032" and m = "4810889380382557" and e = "- 3"]
  by (simp add: power_int_minus)

lemma c3t_r81: "binary64 (1297968610449887 / 9007199254740992) = Fin (1297968610449887 / 9007199254740992)"
  using binary64_eqI [where y = "1297968610449887 / 9007199254740992" and m = "5191874441799548" and e = "- 3"]
  by (simp add: power_int_minus)

lemma c3t_r82: "binary64 (6084722881095498425880660878177 / 40564819207303340847894502572032) = Fin (5404319552844593 / 36028797018963968)"
  using binary64_eqI [where y = "6084722881095498425880660878177 / 40564819207303340847894502572032" and m = "5404319552844593" and e = "- 3"]
  by (simp add: power_int_minus)

lemma c3t_r83: "binary64 (5404319552844595 / 36028797018963968) = Fin (5404319552844595 / 36028797018963968)"
  using binary64_eqI [where y = "5404319552844595 / 36028797018963968" and m = "5404319552844595" and e = "- 3"]
  by (simp add: power_int_minus)

lemma c3t_r84: "binary64 (12980742146337070512478121581609 / 81129638414606681695789005144064) = Fin (1441151880758559 / 9007199254740992)"
  using binary64_eqI [where y = "12980742146337070512478121581609 / 81129638414606681695789005144064" and m = "5764607523034236" and e = "- 3"]
  by (simp add: power_int_minus)

lemma c3t_r85: "binary64 (1492361636124221 / 9007199254740992) = Fin (1492361636124221 / 9007199254740992)"
  using binary64_eqI [where y = "1492361636124221 / 9007199254740992" and m = "5969446544496884" and e = "- 3"]
  by (simp add: power_int_minus)

lemma c3t_r86: "binary64 (951482076192651195411626134583 / 5070602400912917605986812821504) = Fin (6760686774446265 / 36028797018963968)"
  using binary64_eqI [where y = "951482076192651195411626134583 / 5070602400912917605986812821504" and m = "6760686774446265" and e = "- 3"]
  by (simp add: power_int_minus)

lemma c3t_r87: "binary64 (4056481920730333189974715576807 / 20282409603651670423947251286016) = Fin (900719925474099 / 4503599627370496)"
  using binary64_eqI [where y = "4056481920730333189974715576807 / 20282409603651670423947251286016" and m = "7205759403792792" and e = "- 3"]
  by (simp add: power_int_minus)

lemma c3t_r88: "binary64 (3602879701896397 / 18014398509481984) = Fin (3602879701896397 / 18014398509481984)"
  using binary64_eqI [where y = "3602879701896397 / 18014398509481984" and m = "7205759403792794" and e = "- 3"]
  by (simp add: power_int_minus)

lemma c3t_r89: "binary64 (466363011288819 / 2251799813685248) = Fin (466363011288819 / 2251799813685248)"
  using binary64_eqI [where y = "466363011288819 / 2251799813685248" and m = "7461808180621104" and e = "- 3"]
  by (simp add: power_int_minus)

lemma c3t_r90: "binary64 (1 / 4) = Fin (1 / 4)"
  using binary64_eqI [where y = "1 / 4" and m = "4503599627370496" and e = "- 2"]
  by (simp add: power_int_minus)

lemma c3t_r91: "binary64 (9007199254740993 / 36028797018963968) = Fin (1 / 4)"
  using binary64_tieI [where y = "9007199254740993 / 36028797018963968" and m = "4503599627370496" and e = "- 2"]
  by (simp add: power_int_minus)

lemma c3t_r92: "binary64 (3 / 10) = Fin (5404319552844595 / 18014398509481984)"
  using binary64_eqI [where y = "3 / 10" and m = "5404319552844595" and e = "- 2"]
  by (simp add: power_int_minus)

lemma c3t_r93: "binary64 (2 / 5) = Fin (3602879701896397 / 9007199254740992)"
  using binary64_eqI [where y = "2 / 5" and m = "7205759403792794" and e = "- 2"]
  by (simp add: power_int_minus)

lemma c3t_r94: "binary64 (466363011288819 / 1125899906842624) = Fin (466363011288819 / 1125899906842624)"
  using binary64_eqI [where y = "466363011288819 / 1125899906842624" and m = "7461808180621104" and e = "- 2"]
  by (simp add: power_int_minus)

lemma c3t_r95: "binary64 (8605097621727150010212762100585 / 20282409603651670423947251286016) = Fin (3821431003515463 / 9007199254740992)"
  using binary64_eqI [where y = "8605097621727150010212762100585 / 20282409603651670423947251286016" and m = "7642862007030926" and e = "- 2"]
  by (simp add: power_int_minus)

lemma c3t_r96: "binary64 (9246680287010643414401976735249 / 20282409603651670423947251286016) = Fin (4106350942394707 / 9007199254740992)"
  using binary64_eqI [where y = "9246680287010643414401976735249 / 20282409603651670423947251286016" and m = "8212701884789414" and e = "- 2"]
  by (simp add: power_int_minus)

lemma c3t_r97: "binary64 (1 / 2) = Fin (1 / 2)"
  using binary64_eqI [where y = "1 / 2" and m = "4503599627370496" and e = "- 1"]
  by (simp add: power_int_minus)

lemma c3t_r98: "binary64 (5736731747818100537562814110871 / 10141204801825835211973625643008) = Fin (2547620669010309 / 4503599627370496)"
  using binary64_eqI [where y = "5736731747818100537562814110871 / 10141204801825835211973625643008" and m = "5095241338020618" and e = "- 1"]
  by (simp add: power_int_minus)

lemma c3t_r99: "binary64 (6084722881095499729896117003109 / 10141204801825835211973625643008) = Fin (2702159776422297 / 4503599627370496)"
  using binary64_eqI [where y = "6084722881095499729896117003109 / 10141204801825835211973625643008" and m = "5404319552844594" and e = "- 1"]
  by (simp add: power_int_minus)

lemma c3t_r100: "binary64 (2702159776422297 / 4503599627370496) = Fin (2702159776422297 / 4503599627370496)"
  using binary64_eqI [where y = "2702159776422297 / 4503599627370496" and m = "5404319552844594" and e = "- 1"]
  by (simp add: power_int_minus)

lemma c3t_r101: "binary64 (1624281504445930401348047534607 / 2535301200456458802993406410752) = Fin (2885303559533857 / 4503599627370496)"
  using binary64_eqI [where y = "1624281504445930401348047534607 / 2535301200456458802993406410752" and m = "5770607119067714" and e = "- 1"]
  by (simp add: power_int_minus)

lemma c3t_r102: "binary64 (1592262918131443 / 2251799813685248) = Fin (1592262918131443 / 2251799813685248)"
  using binary64_eqI [where y = "1592262918131443 / 2251799813685248" and m = "6369051672525772" and e = "- 1"]
  by (simp add: power_int_minus)

lemma c3t_r103: "binary64 (109213858431260825 / 144115188075855872) = Fin (3412933075976901 / 4503599627370496)"
  using binary64_eqI [where y = "109213858431260825 / 144115188075855872" and m = "6825866151953802" and e = "- 1"]
  by (simp add: power_int_minus)

lemma c3t_r104: "binary64 (4056481920730333684018384045887 / 5070602400912917605986812821504) = Fin (7205759403792793 / 9007199254740992)"
  using binary64_eqI [where y = "4056481920730333684018384045887 / 5070602400912917605986812821504" and m = "7205759403792793" and e = "- 1"]
  by (simp add: power_int_minus)

lemma c3t_r105: "binary64 (7205759403792793 / 9007199254740992) = Fin (7205759403792793 / 9007199254740992)"
  using binary64_eqI [where y = "7205759403792793 / 9007199254740992" and m = "7205759403792793" and e = "- 1"]
  by (simp add: power_int_minus)

lemma c3t_r106: "binary64 (61505003709067047 / 72057594037927936) = Fin (7688125463633381 / 9007199254740992)"
  using binary64_eqI [where y = "61505003709067047 / 72057594037927936" and m = "7688125463633381" and e = "- 1"]
  by (simp add: power_int_minus)

lemma c3t_r107: "binary64 (4328029871649614671950572288681 / 5070602400912917605986812821504) = Fin (7688125463633381 / 9007199254740992)"
  using binary64_eqI [where y = "4328029871649614671950572288681 / 5070602400912917605986812821504" and m = "7688125463633381" and e = "- 1"]
  by (simp add: power_int_minus)

lemma c3t_r108: "binary64 (34129330759769003 / 36028797018963968) = Fin (8532332689942251 / 9007199254740992)"
  using binary64_eqI [where y = "34129330759769003 / 36028797018963968" and m = "8532332689942251" and e = "- 1"]
  by (simp add: power_int_minus)

lemma c3t_r109: "binary64 (547496042680113 / 562949953421312) = Fin (547496042680113 / 562949953421312)"
  using binary64_eqI [where y = "547496042680113 / 562949953421312" and m = "8759936682881808" and e = "- 1"]
  by (simp add: power_int_minus)

lemma c3t_r110: "binary64 (4389549766100449 / 4503599627370496) = Fin (4389549766100449 / 4503599627370496)"
  using binary64_eqI [where y = "4389549766100449 / 4503599627370496" and m = "8779099532200898" and e = "- 1"]
  by (simp add: power_int_minus)

lemma c3t_r111: "binary64 (70944912464561627 / 72057594037927936) = Fin (8868114058070203 / 9007199254740992)"
  using binary64_eqI [where y = "70944912464561627 / 72057594037927936" and m = "8868114058070203" and e = "- 1"]
  by (simp add: power_int_minus)

lemma c3t_r112: "binary64 (9007199254740989 / 9007199254740992) = Fin (9007199254740989 / 9007199254740992)"
  using binary64_eqI [where y = "9007199254740989 / 9007199254740992" and m = "9007199254740989" and e = "- 1"]
  by (simp add: power_int_minus)

lemma c3t_r113: "binary64 (72057594037927917 / 72057594037927936) = Fin (4503599627370495 / 4503599627370496)"
  using binary64_eqI [where y = "72057594037927917 / 72057594037927936" and m = "9007199254740990" and e = "- 1"]
  by (simp add: power_int_minus)

lemma c3t_r114: "binary64 (4503599627370495 / 4503599627370496) = Fin (4503599627370495 / 4503599627370496)"
  using binary64_eqI [where y = "4503599627370495 / 4503599627370496" and m = "9007199254740990" and e = "- 1"]
  by (simp add: power_int_minus)

lemma c3t_r115: "binary64 (2535301200456458353478625262249 / 2535301200456458802993406410752) = Fin (4503599627370495 / 4503599627370496)"
  using binary64_eqI [where y = "2535301200456458353478625262249 / 2535301200456458802993406410752" and m = "9007199254740990" and e = "- 1"]
  by (simp add: power_int_minus)

lemma c3t_r116: "binary64 (1) = Fin (1)"
  using binary64_eqI [where y = "1" and m = "4503599627370496" and e = "0"]
  by (simp add: power_int_minus)

lemma c3t_r117: "binary64 (576460752303423527 / 576460752303423488) = Fin (1)"
  using binary64_eqI [where y = "576460752303423527 / 576460752303423488" and m = "4503599627370496" and e = "0"]
  by (simp add: power_int_minus)

lemma c3t_r118: "binary64 (77430095927975131 / 72057594037927936) = Fin (2419690497749223 / 2251799813685248)"
  using binary64_eqI [where y = "77430095927975131 / 72057594037927936" and m = "4839380995498446" and e = "0"]
  by (simp add: power_int_minus)

lemma c3t_r119: "binary64 (40804354254561475 / 36028797018963968) = Fin (637568035227523 / 562949953421312)"
  using binary64_eqI [where y = "40804354254561475 / 36028797018963968" and m = "5100544281820184" and e = "0"]
  by (simp add: power_int_minus)

lemma c3t_r120: "binary64 (5854902104897882556028997103729 / 5070602400912917605986812821504) = Fin (2600098849513569 / 2251799813685248)"
  using binary64_eqI [where y = "5854902104897882556028997103729 / 5070602400912917605986812821504" and m = "5200197699027138" and e = "0"]
  by (simp add: power_int_minus)

lemma c3t_r121: "binary64 (2718162824974067 / 2251799813685248) = Fin (2718162824974067 / 2251799813685248)"
  using binary64_eqI [where y = "2718162824974067 / 2251799813685248" and m = "5436325649948134" and e = "0"]
  by (simp add: power_int_minus)

lemma c3t_r122: "binary64 (406492999543884009106376715529 / 316912650057057350374175801344) = Fin (2888306479632405 / 2251799813685248)"
  using binary64_eqI [where y = "406492999543884009106376715529 / 316912650057057350374175801344" and m = "5776612959264810" and e = "0"]
  by (simp add: power_int_minus)

lemma c3t_r123: "binary64 (9007199254740992 / 6369051672525773) = Fin (1592262918131443 / 1125899906842624)"
  using binary64_eqI [where y = "9007199254740992 / 6369051672525773" and m = "6369051672525772" and e = "0"]
  by (simp add: power_int_minus)

lemma c3t_r124: "binary64 (7388409143071000391919222520489 / 5070602400912917605986812821504) = Fin (3281112778395379 / 2251799813685248)"
  using binary64_eqI [where y = "7388409143071000391919222520489 / 5070602400912917605986812821504" and m = "6562225556790758" and e = "0"]
  by (simp add: power_int_minus)

lemma c3t_r125: "binary64 (27021597764222969 / 18014398509481984) = Fin (3377699720527871 / 2251799813685248)"
  using binary64_eqI [where y = "27021597764222969 / 18014398509481984" and m = "6755399441055742" and e = "0"]
  by (simp add: power_int_minus)

lemma c3t_r126: "binary64 (8196551321814301 / 4503599627370496) = Fin (8196551321814301 / 4503599627370496)"
  using binary64_eqI [where y = "8196551321814301 / 4503599627370496" and m = "8196551321814301" and e = "0"]
  by (simp add: power_int_minus)

lemma c3t_r127: "binary64 (4503599627370495 / 2251799813685248) = Fin (4503599627370495 / 2251799813685248)"
  using binary64_eqI [where y = "4503599627370495 / 2251799813685248" and m = "9007199254740990" and e = "0"]
  by (simp add: power_int_minus)

lemma c3t_r128: "binary64 (2535301200456458353478625262249 / 1267650600228229401496703205376) = Fin (4503599627370495 / 2251799813685248)"
  using binary64_eqI [where y = "2535301200456458353478625262249 / 1267650600228229401496703205376" and m = "9007199254740990" and e = "0"]
  by (simp add: power_int_minus)

lemma c3t_s0: "Math_sqrt binary64 (Fin (1 / 2)) = Fin (6369051672525773 / 9007199254740992)"
proof -
  have "binary64 (sqrt (1 / 2)) = Fin (6369051672525773 / 9007199254740992)"
    using binary64_sqrt [where x = "1 / 2" and m = "6369051672525773" and e = "- 1"]
    by (simp add: power_int_minus power2_eq_square)
  then show ?thesis by simp
qed

lemmas c3t_facts = binary64_zero c3t_r0 c3t_r1 c3t_r2 c3t_r3 c3t_r4 c3t_r5 c3t_r6 c3t_r7 c3t_r8 c3t_r9 c3t_r10 c3t_r11 c3t_r12 c3t_r13 c3t_r14 c3t_r15 c3t_r16 c3t_r17 c3t_r18 c3t_r19 c3t_r20 c3t_r21 c3t_r22 c3t_r23 c3t_r24 c3t_r25 c3t_r26 c3t_r27 c3t_r28 c3t_r29 c3t_r30 c3t_r31 c3t_r32 c3t_r33 c3t_r34 c3t_r35 c3t_r36 c3t_r37 c3t_r38 c3t_r39 c3t_r40 c3t_r41 c3t_r42 c3t_r43 c3t_r44 c3t_r45 c3t_r46 c3t_r47 c3t_r48 c3t_r49 c3t_r50 c3t_r51 c3t_r52 c3t_r53 c3t_r54 c3t_r55 c3t_r56 c3t_r57 c3t_r58 c3t_r59 c3t_r60 c3t_r61 c3t_r62 c3t_r63 c3t_r64 c3t_r65 c3t_r66 c3t_r67 c3t_r68 c3t_r69 c3t_r70 c3t_r71 c3t_r72 c3t_r73 c3t_r74 c3t_r75 c3t_r76 c3t_r77 c3t_r78 c3t_r79 c3t_r80 c3t_r81 c3t_r82 c3t_r83 c3t_r84 c3t_r85 c3t_r86 c3t_r87 c3t_r88 c3t_r89 c3t_r90 c3t_r91 c3t_r92 c3t_r93 c3t_r94 c3t_r95 c3t_r96 c3t_r97 c3t_r98 c3t_r99 c3t_r100 c3t_r101 c3t_r102 c3t_r103 c3t_r104 c3t_r105 c3t_r106 c3t_r107 c3t_r108 c3t_r109 c3t_r110 c3t_r111 c3t_r112 c3t_r113 c3t_r114 c3t_r115 c3t_r116 c3t_r117 c3t_r118 c3t_r119 c3t_r120 c3t_r121 c3t_r122 c3t_r123 c3t_r124 c3t_r125 c3t_r126 c3t_r127 c3t_r128 c3t_s0

text \<open>
  Claim C3 as stated, refuted in double arithmetic: for the velocity
  \<^verbatim>\<open>[0.999999999, 0, 0]\<close>, whose square is below 1, the entry (0,0) of
  \<^verbatim>\<open>getLorentzBoostMatrix(v)\<close> times \<^verbatim>\<open>getLorentzBoostMatrix(-v)\<close> is
  \<open>1 + 2\<^sup>-\<^sup>2\<^sup>4\<close>, further than \<open>1e-10\<close> from 1, and the reversibility check fails.
  (\<^verbatim>\<open>Math.pow(x, 2)\<close> and \<^verbatim>\<open>Math.sqrt\<close> round correctly here.)
\<close>

theorem reversibility_fails_near_light_speed:
  "num_lt (sumSquares3 binary64 (nearLightSpeed binary64)) (Fin 1)
   \<and> vget (vget (multiply binary64
                     (getLorentzBoostMatrix binary64 (nearLightSpeed binary64))
                     (getLorentzBoostMatrix binary64 (negate3 (nearLightSpeed binary64)))) 0) 0
       = Fin (16777217 / 16777216)
   \<and> \<not> reversibilityCheck binary64
         (multiply binary64
            (getLorentzBoostMatrix binary64 (nearLightSpeed binary64))
            (getLorentzBoostMatrix binary64 (negate3 (nearLightSpeed binary64))))"
  by (simp add: nearLightSpeed_def getLorentzBoostMatrix_def calculateGamma_def sumSquares3_def boostEntry_def
      multiply_def applyLorentzTransformation_def calculateIntervalSquared_def
      magnitudeSquared_def reversibilityCheck_def reversibilityStep_def intervalCheck_def
      negate3_def mk4_def zero4_def num_lit_def num_sub_def Let_def
      c3_facts del: Math_sqrt.simps)

lemma reversibility_check4_velocity:
  "reversibilityCheck binary64
     (multiply binary64
        (getLorentzBoostMatrix binary64 (check4Velocity binary64))
        (getLorentzBoostMatrix binary64 (negate3 (check4Velocity binary64))))"
  by (simp add: check4Velocity_def getLorentzBoostMatrix_def calculateGamma_def sumSquares3_def boostEntry_def
      multiply_def applyLorentzTransformation_def calculateIntervalSquared_def
      magnitudeSquared_def reversibilityCheck_def reversibilityStep_def intervalCheck_def
      negate3_def mk4_def zero4_def num_lit_def num_sub_def Let_def
      c3t_facts del: Math_sqrt.simps)

text \<open>
  Claim C3, amended. For every 3-velocity with \<open>|v| < 1\<close>, the product of
  \<^verbatim>\<open>getLorentzBoostMatrix(v)\<close> and \<^verbatim>\<open>getLorentzBoostMatrix(-v)\<close> is exactly the
  identity matrix when the arithmetic has no rounding error; in double arithmetic the
  product is within \<open>1e-10\<close> of the identity at the velocity of the integrity check,
  \<^verbatim>\<open>[0.3, 0.4, 0.5]\<close>.
\<close>

theorem boost_inverse:
  "(vx * vx + vy * vy + vz * vz < 1 \<longrightarrow>
      multiply exact
        (getLorentzBoostMatrix exact (Vec3 (Fin vx) (Fin vy) (Fin vz)))
        (getLorentzBoostMatrix exact (negate3 (Vec3 (Fin vx) (Fin vy) (Fin vz))))
      = identity4)
   \<and> reversibilityCheck binary64
        (multiply binary64
           (getLorentzBoostMatrix binary64 (check4Velocity binary64))
           (getLorentzBoostMatrix binary64 (negate3 (check4Velocity binary64))))"
  using exact_boost_reversible [of vx vy vz] reversibility_check4_velocity by blast

theorem boost_inverse_witness:
  "(3 / 5) * (3 / 5) + 0 * 0 + 0 * 0 < (1 :: real)
   \<and> multiply exact
        (getLorentzBoostMatrix exact (Vec3 (Fin (3 / 5)) (Fin 0) (Fin 0)))
        (getLorentzBoostMatrix exact (negate3 (Vec3 (Fin (3 / 5)) (Fin 0) (Fin 0))))
      = identity4
   \<and> reversibilityCheck exact identity4"
proof -
  have "reversibilityCheck exact identity4"
    by (simp add: reversibilityCheck_def reversibilityStep_def identity4_def exact_simps Let_def)
  then show ?thesis
    using boost_inverse [of "3 / 5" 0 0] by simp
qed

subsection \<open>Invariance of the interval\<close>

text \<open>The roundings of the run at the velocity \<^verbatim>\<open>[0.5, 0, 0]\<close> for the events
  \<^verbatim>\<open>[0, 0, 0, 0]\<close> and \<^verbatim>\<open>[3000000, 0, 0, 0]\<close>.\<close>

lemma c4_r0: "binary64 (- (4608000000000001 / 512)) = Fin (- (4608000000000001 / 512))"
  using binary64_eqI [where y = "- (4608000000000001 / 512)" and m = "- 4608000000000001" and e = "43"]
  by (simp add: power_int_minus)

lemma c4_r1: "binary64 (- (18432000000000003 / 2048)) = Fin (- (4608000000000001 / 512))"
  using binary64_eqI [where y = "- (18432000000000003 / 2048)" and m = "- 4608000000000001" and e = "43"]
  by (simp add: power_int_minus)

lemma c4_r2: "binary64 (- 9000000000000) = Fin (- 9000000000000)"
  using binary64_eqI [where y = "- 9000000000000" and m = "- 4608000000000000" and e = "43"]
  by (simp add: power_int_minus)

lemma c4_r3: "binary64 (- (243764480361061359375 / 140737488355328)) = Fin (- (3719550786759359 / 2147483648))"
  using binary64_eqI [where y = "- (243764480361061359375 / 140737488355328)" and m = "- 7439101573518718" and e = "20"]
  by (simp add: power_int_minus)

lemma c4_r4: "binary64 (- (3719550786759359 / 2147483648)) = Fin (- (3719550786759359 / 2147483648))"
  using binary64_eqI [where y = "- (3719550786759359 / 2147483648)" and m = "- 7439101573518718" and e = "20"]
  by (simp add: power_int_minus)

lemma c4_r5: "binary64 (- (5200308914369309 / 9007199254740992)) = Fin (- (5200308914369309 / 9007199254740992))"
  using binary64_eqI [where y = "- (5200308914369309 / 9007199254740992)" and m = "- 5200308914369309" and e = "- 1"]
  by (simp add: power_int_minus)

lemma c4_r6: "binary64 (1 / 10000000000) = Fin (7737125245533627 / 77371252455336267181195264)"
  using binary64_eqI [where y = "1 / 10000000000" and m = "7737125245533627" and e = "- 34"]
  by (simp add: power_int_minus)

lemma c4_r7: "binary64 (1 / 1000000) = Fin (4722366482869645 / 4722366482869645213696)"
  using binary64_eqI [where y = "1 / 1000000" and m = "4722366482869645" and e = "- 20"]
  by (simp add: power_int_minus)

lemma c4_r8: "binary64 (1 / 512) = Fin (1 / 512)"
  using binary64_eqI [where y = "1 / 512" and m = "4503599627370496" and e = "- 9"]
  by (simp add: power_int_minus)

lemma c4_r9: "binary64 (696709286998813 / 18014398509481984) = Fin (696709286998813 / 18014398509481984)"
  using binary64_eqI [where y = "696709286998813 / 18014398509481984" and m = "5573674295990504" and e = "- 5"]
  by (simp add: power_int_minus)

lemma c4_r10: "binary64 (696709286998813 / 4503599627370496) = Fin (696709286998813 / 4503599627370496)"
  using binary64_eqI [where y = "696709286998813 / 4503599627370496" and m = "5573674295990504" and e = "- 3"]
  by (simp add: power_int_minus)

lemma c4_r11: "binary64 (1 / 4) = Fin (1 / 4)"
  using binary64_eqI [where y = "1 / 4" and m = "4503599627370496" and e = "- 2"]
  by (simp add: power_int_minus)

lemma c4_r12: "binary64 (1 / 2) = Fin (1 / 2)"
  using binary64_eqI [where y = "1 / 2" and m = "4503599627370496" and e = "- 1"]
  by (simp add: power_int_minus)

lemma c4_r13: "binary64 (3 / 4) = Fin (3 / 4)"
  using binary64_eqI [where y = "3 / 4" and m = "6755399441055744" and e = "- 1"]
  by (simp add: power_int_minus)

lemma c4_r14: "binary64 (1) = Fin (1)"
  using binary64_eqI [where y = "1" and m = "4503599627370496" and e = "0"]
  by (simp add: power_int_minus)

lemma c4_r15: "binary64 (4503599627370496 / 3900231685776981) = Fin (5200308914369309 / 4503599627370496)"
  using binary64_eqI [where y = "4503599627370496 / 3900231685776981" and m = "5200308914369309" and e = "0"]
  by (simp add: power_int_minus)

lemma c4_r16: "binary64 (5200308914369309 / 4503599627370496) = Fin (5200308914369309 / 4503599627370496)"
  using binary64_eqI [where y = "5200308914369309 / 4503599627370496" and m = "5200308914369309" and e = "0"]
  by (simp add: power_int_minus)

lemma c4_r17: "binary64 (3000000) = Fin (3000000)"
  using binary64_eqI [where y = "3000000" and m = "6442450944000000" and e = "21"]
  by (simp add: power_int_minus)

lemma c4_r18: "binary64 (3719550786759359 / 1073741824) = Fin (3719550786759359 / 1073741824)"
  using binary64_eqI [where y = "3719550786759359 / 1073741824" and m = "7439101573518718" and e = "21"]
  by (simp add: power_int_minus)

lemma c4_r19: "binary64 (243764480361061359375 / 70368744177664) = Fin (3719550786759359 / 1073741824)"
  using binary64_eqI [where y = "243764480361061359375 / 70368744177664" and m = "7439101573518718" and e = "21"]
  by (simp add: power_int_minus)

lemma c4_r20: "binary64 (13835058055282166527188974090881 / 4611686018427387904) = Fin (6144000000000001 / 2048)"
  using binary64_eqI [where y = "13835058055282166527188974090881 / 4611686018427387904" and m = "6144000000000001" and e = "41"]
  by (simp add: power_int_minus)

lemma c4_r21: "binary64 (9000000000000) = Fin (9000000000000)"
  using binary64_eqI [where y = "9000000000000" and m = "4608000000000000" and e = "43"]
  by (simp add: power_int_minus)

lemma c4_r22: "binary64 (13835058055282166527188974090881 / 1152921504606846976) = Fin (6144000000000001 / 512)"
  using binary64_eqI [where y = "13835058055282166527188974090881 / 1152921504606846976" and m = "6144000000000001" and e = "43"]
  by (simp add: power_int_minus)

lemma c4_s0: "Math_sqrt binary64 (Fin (3 / 4)) = Fin (3900231685776981 / 4503599627370496)"
proof -
  have "binary64 (sqrt (3 / 4)) = Fin (3900231685776981 / 4503599627370496)"
    using binary64_sqrt [where x = "3 / 4" and m = "7800463371553962" and e = "- 1"]
    by (simp add: power_int_minus power2_eq_square)
  then show ?thesis by simp
qed

lemmas c4_facts = binary64_zero c4_r0 c4_r1 c4_r2 c4_r3 c4_r4 c4_r5 c4_r6 c4_r7 c4_r8 c4_r9 c4_r10 c4_r11 c4_r12 c4_r13 c4_r14 c4_r15 c4_r16 c4_r17 c4_r18 c4_r19 c4_r20 c4_r21 c4_r22 c4_s0

text \<open>The roundings of the run of check 3.\<close>

lemma c4t_r0: "binary64 (- (833558927737415 / 549755813888)) = Fin (- (833558927737415 / 549755813888))"
  using binary64_eqI [where y = "- (833558927737415 / 549755813888)" and m = "- 6668471421899320" and e = "10"]
  by (simp add: power_int_minus)

lemma c4t_r1: "binary64 (- (4266445989069905 / 4398046511104)) = Fin (- (4266445989069905 / 4398046511104))"
  using binary64_eqI [where y = "- (4266445989069905 / 4398046511104)" and m = "- 8532891978139810" and e = "9"]
  by (simp add: power_int_minus)

lemma c4t_r2: "binary64 (- (1140480386605427 / 35184372088832)) = Fin (- (1140480386605427 / 35184372088832))"
  using binary64_eqI [where y = "- (1140480386605427 / 35184372088832)" and m = "- 4561921546421708" and e = "5"]
  by (simp add: power_int_minus)

lemma c4t_r3: "binary64 (- (18222695426274069 / 562949953421312)) = Fin (- (4555673856568517 / 140737488355328))"
  using binary64_eqI [where y = "- (18222695426274069 / 562949953421312)" and m = "- 4555673856568517" and e = "5"]
  by (simp add: power_int_minus)

lemma c4t_r4: "binary64 (- (17659745472852757 / 562949953421312)) = Fin (- (4414936368213189 / 140737488355328))"
  using binary64_tieI [where y = "- (17659745472852757 / 562949953421312)" and m = "- 8829872736426378" and e = "4"]
  by (simp add: power_int_minus)

lemma c4t_r5: "binary64 (- (68420482796099931 / 2251799813685248)) = Fin (- (8552560349512491 / 281474976710656))"
  using binary64_eqI [where y = "- (68420482796099931 / 2251799813685248)" and m = "- 8552560349512491" and e = "4"]
  by (simp add: power_int_minus)

lemma c4t_r6: "binary64 (- (66168682982414683 / 2251799813685248)) = Fin (- (8271085372801835 / 281474976710656))"
  using binary64_eqI [where y = "- (66168682982414683 / 2251799813685248)" and m = "- 8271085372801835" and e = "4"]
  by (simp add: power_int_minus)

lemma c4t_r7: "binary64 (- (13156145845482261 / 562949953421312)) = Fin (- (3289036461370565 / 140737488355328))"
  using binary64_tieI [where y = "- (13156145845482261 / 562949953421312)" and m = "- 6578072922741130" and e = "4"]
  by (simp add: power_int_minus)

lemma c4t_r8: "binary64 (- (12534858752377585 / 562949953421312)) = Fin (- (783428672023599 / 35184372088832))"
  using binary64_tieI [where y = "- (12534858752377585 / 562949953421312)" and m = "- 6267429376188792" and e = "4"]
  by (simp add: power_int_minus)

lemma c4t_r9: "binary64 (- (783428672023599 / 35184372088832)) = Fin (- (783428672023599 / 35184372088832))"
  using binary64_eqI [where y = "- (783428672023599 / 35184372088832)" and m = "- 6267429376188792" and e = "4"]
  by (simp add: power_int_minus)

lemma c4t_r10: "binary64 (- (11971908798956273 / 562949953421312)) = Fin (- (748244299934767 / 35184372088832))"
  using binary64_tieI [where y = "- (11971908798956273 / 562949953421312)" and m = "- 5985954399478136" and e = "4"]
  by (simp add: power_int_minus)

lemma c4t_r11: "binary64 (- (748244299934767 / 35184372088832)) = Fin (- (748244299934767 / 35184372088832))"
  using binary64_eqI [where y = "- (748244299934767 / 35184372088832)" and m = "- 5985954399478136" and e = "4"]
  by (simp add: power_int_minus)

lemma c4t_r12: "binary64 (- (5702401933027135 / 281474976710656)) = Fin (- (5702401933027135 / 281474976710656))"
  using binary64_eqI [where y = "- (5702401933027135 / 281474976710656)" and m = "- 5702401933027135" and e = "4"]
  by (simp add: power_int_minus)

lemma c4t_r13: "binary64 (- 20) = Fin (- 20)"
  using binary64_eqI [where y = "- 20" and m = "- 5629499534213120" and e = "4"]
  by (simp add: power_int_minus)

lemma c4t_r14: "binary64 (- (10283058938692337 / 562949953421312)) = Fin (- (642691183668271 / 35184372088832))"
  using binary64_tieI [where y = "- (10283058938692337 / 562949953421312)" and m = "- 5141529469346168" and e = "4"]
  by (simp add: power_int_minus)

lemma c4t_r15: "binary64 (- (642691183668271 / 35184372088832)) = Fin (- (642691183668271 / 35184372088832))"
  using binary64_eqI [where y = "- (642691183668271 / 35184372088832)" and m = "- 5141529469346168" and e = "4"]
  by (simp add: power_int_minus)

lemma c4t_r16: "binary64 (- (1140480386605427 / 70368744177664)) = Fin (- (1140480386605427 / 70368744177664))"
  using binary64_eqI [where y = "- (1140480386605427 / 70368744177664)" and m = "- 4561921546421708" and e = "4"]
  by (simp add: power_int_minus)

lemma c4t_r17: "binary64 (- (7985432585662259 / 562949953421312)) = Fin (- (7985432585662259 / 562949953421312))"
  using binary64_eqI [where y = "- (7985432585662259 / 562949953421312)" and m = "- 7985432585662259" and e = "3"]
  by (simp add: power_int_minus)

lemma c4t_r18: "binary64 (- (3421441159816281 / 281474976710656)) = Fin (- (3421441159816281 / 281474976710656))"
  using binary64_eqI [where y = "- (3421441159816281 / 281474976710656)" and m = "- 6842882319632562" and e = "3"]
  by (simp add: power_int_minus)

lemma c4t_r19: "binary64 (- (1140480386605427 / 140737488355328)) = Fin (- (1140480386605427 / 140737488355328))"
  using binary64_eqI [where y = "- (1140480386605427 / 140737488355328)" and m = "- 4561921546421708" and e = "3"]
  by (simp add: power_int_minus)

lemma c4t_r20: "binary64 (- (3423511039240551 / 562949953421312)) = Fin (- (3423511039240551 / 562949953421312))"
  using binary64_eqI [where y = "- (3423511039240551 / 562949953421312)" and m = "- 6847022078481102" and e = "2"]
  by (simp add: power_int_minus)

lemma c4t_r21: "binary64 (- (41090136353116485098734752212185 / 10141204801825835211973625643008)) = Fin (- (1140480386605427 / 281474976710656))"
  using binary64_eqI [where y = "- (41090136353116485098734752212185 / 10141204801825835211973625643008)" and m = "- 4561921546421708" and e = "2"]
  by (simp add: power_int_minus)

lemma c4t_r22: "binary64 (- (1140480386605427 / 281474976710656)) = Fin (- (1140480386605427 / 281474976710656))"
  using binary64_eqI [where y = "- (1140480386605427 / 281474976710656)" and m = "- 4561921546421708" and e = "2"]
  by (simp add: power_int_minus)

lemma c4t_r23: "binary64 (- 4) = Fin (- 4)"
  using binary64_eqI [where y = "- 4" and m = "- 4503599627370496" and e = "2"]
  by (simp add: power_int_minus)

lemma c4t_r24: "binary64 (- (6822061760332645 / 2251799813685248)) = Fin (- (6822061760332645 / 2251799813685248))"
  using binary64_eqI [where y = "- (6822061760332645 / 2251799813685248)" and m = "- 6822061760332645" and e = "1"]
  by (simp add: power_int_minus)

lemma c4t_r25: "binary64 (- 3) = Fin (- 3)"
  using binary64_eqI [where y = "- 3" and m = "- 6755399441055744" and e = "1"]
  by (simp add: power_int_minus)

lemma c4t_r26: "binary64 (- (4570261946647397 / 2251799813685248)) = Fin (- (4570261946647397 / 2251799813685248))"
  using binary64_eqI [where y = "- (4570261946647397 / 2251799813685248)" and m = "- 4570261946647397" and e = "1"]
  by (simp add: power_int_minus)

lemma c4t_r27: "binary64 (- (1142550266029697 / 562949953421312)) = Fin (- (1142550266029697 / 562949953421312))"
  using binary64_eqI [where y = "- (1142550266029697 / 562949953421312)" and m = "- 4570201064118788" and e = "1"]
  by (simp add: power_int_minus)

lemma c4t_r28: "binary64 (- (2218438212782493 / 2251799813685248)) = Fin (- (2218438212782493 / 2251799813685248))"
  using binary64_eqI [where y = "- (2218438212782493 / 2251799813685248)" and m = "- 8873752851129972" and e = "- 1"]
  by (simp add: power_int_minus)

lemma c4t_r29: "binary64 (15 / 8796093022208) = Fin (15 / 8796093022208)"
  using binary64_eqI [where y = "15 / 8796093022208" and m = "8444249301319680" and e = "- 40"]
  by (simp add: power_int_minus)

lemma c4t_r30: "binary64 (1 / 10000000000) = Fin (7737125245533627 / 77371252455336267181195264)"
  using binary64_eqI [where y = "1 / 10000000000" and m = "7737125245533627" and e = "- 34"]
  by (simp add: power_int_minus)

lemma c4t_r31: "binary64 (1 / 1000000) = Fin (4722366482869645 / 4722366482869645213696)"
  using binary64_eqI [where y = "1 / 1000000" and m = "4722366482869645" and e = "- 20"]
  by (simp add: power_int_minus)

lemma c4t_r32: "binary64 (33361600902755 / 2251799813685248) = Fin (33361600902755 / 2251799813685248)"
  using binary64_eqI [where y = "33361600902755 / 2251799813685248" and m = "8540569831105280" and e = "- 7"]
  by (simp add: power_int_minus)

lemma c4t_r33: "binary64 (89621632584673 / 4503599627370496) = Fin (89621632584673 / 4503599627370496)"
  using binary64_eqI [where y = "89621632584673 / 4503599627370496" and m = "5735784485419072" and e = "- 6"]
  by (simp add: power_int_minus)

lemma c4t_r34: "binary64 (26505052870052000662465652128225 / 81129638414606681695789005144064) = Fin (1471325998261941 / 4503599627370496)"
  using binary64_eqI [where y = "26505052870052000662465652128225 / 81129638414606681695789005144064" and m = "5885303993047764" and e = "- 2"]
  by (simp add: power_int_minus)

lemma c4t_r35: "binary64 (4458563631096791 / 7800463371553962) = Fin (5148305825225615 / 9007199254740992)"
  using binary64_eqI [where y = "4458563631096791 / 7800463371553962" and m = "5148305825225615" and e = "- 1"]
  by (simp add: power_int_minus)

lemma c4t_r36: "binary64 (1471325998261941 / 2251799813685248) = Fin (1471325998261941 / 2251799813685248)"
  using binary64_eqI [where y = "1471325998261941 / 2251799813685248" and m = "5885303993047764" and e = "- 1"]
  by (simp add: power_int_minus)

lemma c4t_r37: "binary64 (4413977994785823 / 4503599627370496) = Fin (4413977994785823 / 4503599627370496)"
  using binary64_eqI [where y = "4413977994785823 / 4503599627370496" and m = "8827955989571646" and e = "- 1"]
  by (simp add: power_int_minus)

lemma c4t_r38: "binary64 (99 / 100) = Fin (4458563631096791 / 4503599627370496)"
  using binary64_eqI [where y = "99 / 100" and m = "8917127262193582" and e = "- 1"]
  by (simp add: power_int_minus)

lemma c4t_r39: "binary64 (10086517831454313958877958595395 / 5070602400912917605986812821504) = Fin (8958627467818227 / 4503599627370496)"
  using binary64_eqI [where y = "10086517831454313958877958595395 / 5070602400912917605986812821504" and m = "8958627467818227" and e = "0"]
  by (simp add: power_int_minus)

lemma c4t_r40: "binary64 (110600339108867 / 54493555491183) = Fin (4570261946647397 / 2251799813685248)"
  using binary64_eqI [where y = "110600339108867 / 54493555491183" and m = "4570261946647397" and e = "1"]
  by (simp add: power_int_minus)

lemma c4t_r41: "binary64 (4570261946647397 / 2251799813685248) = Fin (4570261946647397 / 2251799813685248)"
  using binary64_eqI [where y = "4570261946647397 / 2251799813685248" and m = "4570261946647397" and e = "1"]
  by (simp add: power_int_minus)

lemma c4t_r42: "binary64 (575452943443769 / 281474976710656) = Fin (575452943443769 / 281474976710656)"
  using binary64_eqI [where y = "575452943443769 / 281474976710656" and m = "4603623547550152" and e = "1"]
  by (simp add: power_int_minus)

lemma c4t_r43: "binary64 (6822061760332645 / 2251799813685248) = Fin (6822061760332645 / 2251799813685248)"
  using binary64_eqI [where y = "6822061760332645 / 2251799813685248" and m = "6822061760332645" and e = "1"]
  by (simp add: power_int_minus)

lemma c4t_r44: "binary64 (1140480386605427 / 281474976710656) = Fin (1140480386605427 / 281474976710656)"
  using binary64_eqI [where y = "1140480386605427 / 281474976710656" and m = "4561921546421708" and e = "2"]
  by (simp add: power_int_minus)

lemma c4t_r45: "binary64 (5) = Fin (5)"
  using binary64_eqI [where y = "5" and m = "5629499534213120" and e = "2"]
  by (simp add: power_int_minus)

lemma c4t_r46: "binary64 (11292360669328995 / 2251799813685248) = Fin (2823090167332249 / 562949953421312)"
  using binary64_tieI [where y = "11292360669328995 / 2251799813685248" and m = "5646180334664498" and e = "2"]
  by (simp add: power_int_minus)

lemma c4t_r47: "binary64 (11492347627159699 / 2251799813685248) = Fin (2873086906789925 / 562949953421312)"
  using binary64_tieI [where y = "11492347627159699 / 2251799813685248" and m = "5746173813579850" and e = "2"]
  by (simp add: power_int_minus)

lemma c4t_r48: "binary64 (6) = Fin (6)"
  using binary64_eqI [where y = "6" and m = "6755399441055744" and e = "2"]
  by (simp add: power_int_minus)

lemma c4t_r49: "binary64 (6855392919971095 / 1125899906842624) = Fin (6855392919971095 / 1125899906842624)"
  using binary64_eqI [where y = "6855392919971095 / 1125899906842624" and m = "6855392919971095" and e = "2"]
  by (simp add: power_int_minus)

lemma c4t_r50: "binary64 (13710785839942191 / 2251799813685248) = Fin (856924114996387 / 140737488355328)"
  using binary64_tieI [where y = "13710785839942191 / 2251799813685248" and m = "6855392919971096" and e = "2"]
  by (simp add: power_int_minus)

lemma c4t_r51: "binary64 (1982827826997049 / 281474976710656) = Fin (1982827826997049 / 281474976710656)"
  using binary64_eqI [where y = "1982827826997049 / 281474976710656" and m = "7931311307988196" and e = "2"]
  by (simp add: power_int_minus)

lemma c4t_r52: "binary64 (36028797018963968 / 5082487272114983) = Fin (7981292826813719 / 1125899906842624)"
  using binary64_eqI [where y = "36028797018963968 / 5082487272114983" and m = "7981292826813719" and e = "2"]
  by (simp add: power_int_minus)

lemma c4t_r53: "binary64 (4570261946647397 / 562949953421312) = Fin (4570261946647397 / 562949953421312)"
  using binary64_eqI [where y = "4570261946647397 / 562949953421312" and m = "4570261946647397" and e = "3"]
  by (simp add: power_int_minus)

lemma c4t_r54: "binary64 (9) = Fin (9)"
  using binary64_eqI [where y = "9" and m = "5066549580791808" and e = "3"]
  by (simp add: power_int_minus)

lemma c4t_r55: "binary64 (20466185280997935 / 2251799813685248) = Fin (1279136580062371 / 140737488355328)"
  using binary64_eqI [where y = "20466185280997935 / 2251799813685248" and m = "5116546320249484" and e = "3"]
  by (simp add: power_int_minus)

lemma c4t_r56: "binary64 (20499546881900691 / 2251799813685248) = Fin (5124886720475173 / 562949953421312)"
  using binary64_eqI [where y = "20499546881900691 / 2251799813685248" and m = "5124886720475173" and e = "3"]
  by (simp add: power_int_minus)

lemma c4t_r57: "binary64 (22851309733236985 / 2251799813685248) = Fin (2856413716654623 / 281474976710656)"
  using binary64_eqI [where y = "22851309733236985 / 2251799813685248" and m = "5712827433309246" and e = "3"]
  by (simp add: power_int_minus)

lemma c4t_r58: "binary64 (6250786627317797 / 562949953421312) = Fin (6250786627317797 / 562949953421312)"
  using binary64_eqI [where y = "6250786627317797 / 562949953421312" and m = "6250786627317797" and e = "3"]
  by (simp add: power_int_minus)

lemma c4t_r59: "binary64 (6822061760332645 / 562949953421312) = Fin (6822061760332645 / 562949953421312)"
  using binary64_eqI [where y = "6822061760332645 / 562949953421312" and m = "6822061760332645" and e = "3"]
  by (simp add: power_int_minus)

lemma c4t_r60: "binary64 (123145302310897 / 8796093022208) = Fin (123145302310897 / 8796093022208)"
  using binary64_eqI [where y = "123145302310897 / 8796093022208" and m = "7881299347897408" and e = "3"]
  by (simp add: power_int_minus)

lemma c4t_r61: "binary64 (14) = Fin (14)"
  using binary64_eqI [where y = "14" and m = "7881299347898368" and e = "3"]
  by (simp add: power_int_minus)

lemma c4t_r62: "binary64 (7981292826813719 / 562949953421312) = Fin (7981292826813719 / 562949953421312)"
  using binary64_eqI [where y = "7981292826813719 / 562949953421312" and m = "7981292826813719" and e = "3"]
  by (simp add: power_int_minus)

lemma c4t_r63: "binary64 (34110308801663225 / 2251799813685248) = Fin (4263788600207903 / 281474976710656)"
  using binary64_eqI [where y = "34110308801663225 / 2251799813685248" and m = "8527577200415806" and e = "3"]
  by (simp add: power_int_minus)

lemma c4t_r64: "binary64 (16) = Fin (16)"
  using binary64_eqI [where y = "16" and m = "4503599627370496" and e = "4"]
  by (simp add: power_int_minus)

lemma c4t_r65: "binary64 (25) = Fin (25)"
  using binary64_eqI [where y = "25" and m = "7036874417766400" and e = "4"]
  by (simp add: power_int_minus)

lemma c4t_r66: "binary64 (36) = Fin (36)"
  using binary64_eqI [where y = "36" and m = "5066549580791808" and e = "5"]
  by (simp add: power_int_minus)

lemma c4t_r67: "binary64 (641261482537519 / 17592186044416) = Fin (641261482537519 / 17592186044416)"
  using binary64_eqI [where y = "641261482537519 / 17592186044416" and m = "5130091860300152" and e = "5"]
  by (simp add: power_int_minus)

lemma c4t_r68: "binary64 (28505800026862867 / 562949953421312) = Fin (7126450006715717 / 140737488355328)"
  using binary64_eqI [where y = "28505800026862867 / 562949953421312" and m = "7126450006715717" and e = "5"]
  by (simp add: power_int_minus)

lemma c4t_r69: "binary64 (14822105267022011 / 281474976710656) = Fin (3705526316755503 / 70368744177664)"
  using binary64_tieI [where y = "14822105267022011 / 281474976710656" and m = "7411052633511006" and e = "5"]
  by (simp add: power_int_minus)

lemma c4t_r70: "binary64 (7981292826813719 / 140737488355328) = Fin (7981292826813719 / 140737488355328)"
  using binary64_eqI [where y = "7981292826813719 / 140737488355328" and m = "7981292826813719" and e = "5"]
  by (simp add: power_int_minus)

lemma c4t_r71: "binary64 (10817760844225008113478248419225 / 19807040628566084398385987584) = Fin (2402025432829415 / 4398046511104)"
  using binary64_eqI [where y = "10817760844225008113478248419225 / 19807040628566084398385987584" and m = "4804050865658830" and e = "9"]
  by (simp add: power_int_minus)

lemma c4t_r72: "binary64 (19491663135371463162760553549721 / 19807040628566084398385987584) = Fin (8656037280450707 / 8796093022208)"
  using binary64_eqI [where y = "19491663135371463162760553549721 / 19807040628566084398385987584" and m = "8656037280450707" and e = "9"]
  by (simp add: power_int_minus)

lemma c4t_r73: "binary64 (20754164287421864803506315579289 / 19807040628566084398385987584) = Fin (2304175104874891 / 2199023255552)"
  using binary64_eqI [where y = "20754164287421864803506315579289 / 19807040628566084398385987584" and m = "4608350209749782" and e = "10"]
  by (simp add: power_int_minus)

lemma c4t_r74: "binary64 (50786289698218442874400854824089 / 19807040628566084398385987584) = Fin (5638410815824551 / 2199023255552)"
  using binary64_eqI [where y = "50786289698218442874400854824089 / 19807040628566084398385987584" and m = "5638410815824551" and e = "11"]
  by (simp add: power_int_minus)

lemma c4t_s0: "Math_sqrt binary64 (Fin (89621632584673 / 4503599627370496)) = Fin (5082487272114983 / 36028797018963968)"
proof -
  have "binary64 (sqrt (89621632584673 / 4503599627370496)) = Fin (5082487272114983 / 36028797018963968)"
    using binary64_sqrt [where x = "89621632584673 / 4503599627370496" and m = "5082487272114983" and e = "- 3"]
    by (simp add: power_int_minus power2_eq_square)
  then show ?thesis by simp
qed

lemma c4t_s1: "Math_sqrt binary64 (Fin (3)) = Fin (3900231685776981 / 2251799813685248)"
proof -
  have "binary64 (sqrt (3)) = Fin (3900231685776981 / 2251799813685248)"
    using binary64_sqrt [where x = "3" and m = "7800463371553962" and e = "0"]
    by (simp add: power_int_minus power2_eq_square)
  then show ?thesis by simp
qed

lemmas c4t_facts = binary64_zero c4t_r0 c4t_r1 c4t_r2 c4t_r3 c4t_r4 c4t_r5 c4t_r6 c4t_r7 c4t_r8 c4t_r9 c4t_r10 c4t_r11 c4t_r12 c4t_r13 c4t_r14 c4t_r15 c4t_r16 c4t_r17 c4t_r18 c4t_r19 c4t_r20 c4t_r21 c4t_r22 c4t_r23 c4t_r24 c4t_r25 c4t_r26 c4t_r27 c4t_r28 c4t_r29 c4t_r30 c4t_r31 c4t_r32 c4t_r33 c4t_r34 c4t_r35 c4t_r36 c4t_r37 c4t_r38 c4t_r39 c4t_r40 c4t_r41 c4t_r42 c4t_r43 c4t_r44 c4t_r45 c4t_r46 c4t_r47 c4t_r48 c4t_r49 c4t_r50 c4t_r51 c4t_r52 c4t_r53 c4t_r54 c4t_r55 c4t_r56 c4t_r57 c4t_r58 c4t_r59 c4t_r60 c4t_r61 c4t_r62 c4t_r63 c4t_r64 c4t_r65 c4t_r66 c4t_r67 c4t_r68 c4t_r69 c4t_r70 c4t_r71 c4t_r72 c4t_r73 c4t_r74 c4t_s0 c4t_s1

text \<open>
  Claim C4 as stated, refuted in double arithmetic: for the boost at half the speed of light
  along x and the events \<^verbatim>\<open>[0, 0, 0, 0]\<close> and \<^verbatim>\<open>[3000000, 0, 0, 0]\<close>, the
  interval is \<open>-9e12\<close> before the boost and \<open>-9e12 - 2\<^sup>-\<^sup>9\<close> after it: they differ by
  more than \<open>1e-6\<close>.
\<close>

theorem interval_check_fails_far_event:
  "num_lt (sumSquares3 binary64 (Vec3 (num_lit binary64 (1 / 2)) (Fin 0) (Fin 0))) (Fin 1)
   \<and> calculateIntervalSquared binary64 zero4 (Vec4 (Fin 3000000) (Fin 0) (Fin 0) (Fin 0))
       = Fin (- 9000000000000)
   \<and> calculateIntervalSquared binary64
         (applyLorentzTransformation binary64
            (getLorentzBoostMatrix binary64 (Vec3 (num_lit binary64 (1 / 2)) (Fin 0) (Fin 0)))
            zero4)
         (applyLorentzTransformation binary64
            (getLorentzBoostMatrix binary64 (Vec3 (num_lit binary64 (1 / 2)) (Fin 0) (Fin 0)))
            (Vec4 (Fin 3000000) (Fin 0) (Fin 0) (Fin 0)))
       = Fin (- (4608000000000001 / 512))
   \<and> \<not> intervalCheck binary64 (Vec3 (num_lit binary64 (1 / 2)) (Fin 0) (Fin 0)) zero4
         (Vec4 (Fin 3000000) (Fin 0) (Fin 0) (Fin 0))"
  by (simp add: getLorentzBoostMatrix_def calculateGamma_def sumSquares3_def boostEntry_def
      multiply_def applyLorentzTransformation_def calculateIntervalSquared_def
      magnitudeSquared_def reversibilityCheck_def reversibilityStep_def intervalCheck_def
      negate3_def mk4_def zero4_def num_lit_def num_sub_def Let_def
      c4_facts del: Math_sqrt.simps)

lemma interval_check3_data:
  "intervalCheck binary64 (check3Velocity binary64) check3Event1 check3Event2"
  by (simp add: check3Velocity_def check3Event1_def check3Event2_def getLorentzBoostMatrix_def calculateGamma_def sumSquares3_def boostEntry_def
      multiply_def applyLorentzTransformation_def calculateIntervalSquared_def
      magnitudeSquared_def reversibilityCheck_def reversibilityStep_def intervalCheck_def
      negate3_def mk4_def zero4_def num_lit_def num_sub_def Let_def
      c4t_facts del: Math_sqrt.simps)

text \<open>
  Claim C4, amended. For every two events and every boost built from a 3-velocity with
  \<open>|v| < 1\<close>, the Minkowski interval of the boosted events is exactly that of the events
  when the arithmetic has no rounding error; in double arithmetic the two intervals are
  within \<open>1e-6\<close> for the velocity and the events of the integrity check.
\<close>

theorem interval_invariant:
  "(vx * vx + vy * vy + vz * vz < 1 \<longrightarrow>
      calculateIntervalSquared exact
        (applyLorentzTransformation exact
           (getLorentzBoostMatrix exact (Vec3 (Fin vx) (Fin vy) (Fin vz)))
           (Vec4 (Fin x0) (Fin x1) (Fin x2) (Fin x3)))
        (applyLorentzTransformation exact
           (getLorentzBoostMatrix exact (Vec3 (Fin vx) (Fin vy) (Fin vz)))
           (Vec4 (Fin y0) (Fin y1) (Fin y2) (Fin y3)))
      = calculateIntervalSquared exact (Vec4 (Fin x0) (Fin x1) (Fin x2) (Fin x3))
          (Vec4 (Fin y0) (Fin y1) (Fin y2) (Fin y3)))
   \<and> intervalCheck binary64 (check3Velocity binary64) check3Event1 check3Event2"
  using exact_interval_preserved [of vx vy vz x0 x1 x2 x3 y0 y1 y2 y3] interval_check3_data
  by blast

theorem interval_invariant_witness:
  "(3 / 5) * (3 / 5) + 0 * 0 + 0 * 0 < (1 :: real)
   \<and> calculateIntervalSquared exact
        (applyLorentzTransformation exact
           (getLorentzBoostMatrix exact (Vec3 (Fin (3 / 5)) (Fin 0) (Fin 0)))
           (Vec4 (Fin 2) (Fin 5) (Fin (- 1)) (Fin 3)))
        (applyLorentzTransformation exact
           (getLorentzBoostMatrix exact (Vec3 (Fin (3 / 5)) (Fin 0) (Fin 0)))
           (Vec4 (Fin 8) (Fin 1) (Fin 4) (Fin 0)))
      = Fin 14"
  using interval_invariant [of "3 / 5" 0 0 2 5 "- 1" 3 8 1 4 0]
  by (simp add: calculateIntervalSquared_def magnitudeSquared_def exact_simps)

end
